theory Spec2Isabelle
  imports Main "HOL-Library.Word"
begin

unbundle bit_operations_syntax

section \<open>Machine values and memory\<close>

text \<open>
  The loader of \<^verbatim>\<open>load.c\<close> runs on a 32-bit little-endian ARM: every pointer is cast to
  \<^verbatim>\<open>u32_t\<close> before arithmetic, so an address is a 32-bit word and pointer arithmetic wraps.
  Memory is a map from addresses to bytes.
\<close>

type_synonym u8 = "8 word"
type_synonym u16 = "16 word"
type_synonym u32 = "32 word"
type_synonym mem = "u32 \<Rightarrow> u8"

text \<open>A 32-bit little-endian load and store (\<^verbatim>\<open>void **\<close> and \<^verbatim>\<open>u32_t *\<close> cells).\<close>

definition load32 :: "mem \<Rightarrow> u32 \<Rightarrow> u32" where
  "load32 m a =
     ucast (m a) OR push_bit 8 (ucast (m (a + 1))) OR
     push_bit 16 (ucast (m (a + 2))) OR push_bit 24 (ucast (m (a + 3)))"

definition store32 :: "mem \<Rightarrow> u32 \<Rightarrow> u32 \<Rightarrow> mem" where
  "store32 m a v =
     m(a := ucast v, a + 1 := ucast (drop_bit 8 v),
       a + 2 := ucast (drop_bit 16 v), a + 3 := ucast (drop_bit 24 v))"

text \<open>A 16-bit little-endian load.\<close>

definition load16 :: "mem \<Rightarrow> u32 \<Rightarrow> u16" where
  "load16 m a = ucast (m a) OR push_bit 8 (ucast (m (a + 1)))"

section \<open>The import table relocator\<close>

text \<open>
  \<^verbatim>\<open>module_imports_t\<close>: the fields \<^verbatim>\<open>uvl_offset_import\<close> and the import loop use, as the
  record a read of the struct gives.
\<close>

record module_imports =
  num_functions :: u16
  num_vars :: u16
  num_tls_vars :: u16
  lib_name :: u32
  func_nid_table :: u32
  func_entry_table :: u32
  var_nid_table :: u32
  var_entry_table :: u32
  tls_nid_table :: u32
  tls_entry_table :: u32

text \<open>
  \<^verbatim>\<open>uvl_offset_import\<close> reads and writes every field through the pointer \<^verbatim>\<open>import\<close>, so the
  descriptor is in memory, where a table cell may be one of its fields. The struct is
  declared in a header that is not part of \<^verbatim>\<open>load.c\<close>: the offset of each field is a
  parameter. The three counts are 16-bit fields, the seven pointers 32-bit ones.
\<close>

record imports_offsets =
  off_num_functions :: u32
  off_num_vars :: u32
  off_num_tls_vars :: u32
  off_lib_name :: u32
  off_func_nid_table :: u32
  off_func_entry_table :: u32
  off_var_nid_table :: u32
  off_var_entry_table :: u32
  off_tls_nid_table :: u32
  off_tls_entry_table :: u32

text \<open>
  \<^verbatim>\<open>p = (void*)((u32_t)p + addend)\<close> on the 32-bit cell at \<open>a\<close>. The \<^verbatim>\<open>int\<close> addend is added
  to a \<^verbatim>\<open>u32_t\<close>, that is modulo \<open>2^32\<close>.
\<close>

definition add32 :: "mem \<Rightarrow> u32 \<Rightarrow> u32 \<Rightarrow> mem" where
  "add32 m a addend = store32 m a (load32 m a + addend)"

text \<open>
  One of the three loops of \<^verbatim>\<open>uvl_offset_import\<close>, from the index \<open>i\<close> on:
  \<^verbatim>\<open>for (i = 0; i < import->num_functions; i++) import->func_entry_table[i] = ...\<close>. The
  count (at \<open>count\<close>) and the table pointer (at \<open>table\<close>) are read from the descriptor at
  every iteration. The count is below \<open>2^16\<close>, so the \<^verbatim>\<open>int\<close> index does not overflow and the
  loop ends.
\<close>

function offset_entries :: "mem \<Rightarrow> u32 \<Rightarrow> u32 \<Rightarrow> u32 \<Rightarrow> nat \<Rightarrow> mem" where
  "offset_entries m count table addend i =
     (if i < unat (load16 m count)
      then offset_entries (add32 m (load32 m table + 4 * of_nat i) addend) count table addend (Suc i)
      else m)"
  by pat_completeness auto
termination
proof (relation "measure (\<lambda>(m, count, table, addend, i). 65536 - i)")
  show "wf (measure (\<lambda>(m, count, table, addend, i). 65536 - i))"
    by simp
next
  fix m :: mem and count table addend :: u32 and i :: nat
  assume "i < unat (load16 m count)"
  moreover have "unat (load16 m count) < 65536"
    using unsigned_less [of "load16 m count"] by simp
  ultimately show "((add32 m (load32 m table + 4 * of_nat i) addend, count, table, addend, Suc i),
      (m, count, table, addend, i)) \<in> measure (\<lambda>(m, count, table, addend, i). 65536 - i)"
    by simp
qed

declare offset_entries.simps [simp del]

text \<open>
  \<^verbatim>\<open>uvl_offset_import\<close> (lines 172-198), for the descriptor at \<open>import\<close>: the seven pointer
  fields are shifted first, in the order of the source; the three loops then index the
  tables through the fields as they then stand.
\<close>

definition uvl_offset_import :: "imports_offsets \<Rightarrow> mem \<Rightarrow> u32 \<Rightarrow> u32 \<Rightarrow> mem" where
  "uvl_offset_import L m import addend =
     (let m = add32 m (import + off_lib_name L) addend;
          m = add32 m (import + off_func_nid_table L) addend;
          m = add32 m (import + off_func_entry_table L) addend;
          m = add32 m (import + off_var_nid_table L) addend;
          m = add32 m (import + off_var_entry_table L) addend;
          m = add32 m (import + off_tls_nid_table L) addend;
          m = add32 m (import + off_tls_entry_table L) addend;
          m = offset_entries m (import + off_num_functions L) (import + off_func_entry_table L)
                addend 0;
          m = offset_entries m (import + off_num_vars L) (import + off_var_entry_table L)
                addend 0;
          m = offset_entries m (import + off_num_tls_vars L) (import + off_tls_entry_table L)
                addend 0
      in m)"

section \<open>Segment length\<close>

text \<open>
  \<^verbatim>\<open>length = prog_hdrs[i].p_memsz; length = (length + 0xFFFFF) & ~0xFFFFF;\<close>
  on \<^verbatim>\<open>u32_t\<close>.
\<close>

definition seg_length :: "u32 \<Rightarrow> u32" where
  "seg_length p_memsz = (p_memsz + 0xFFFFF) AND NOT 0xFFFFF"

section \<open>Declarations the loader takes from its headers\<close>

text \<open>
  The structs \<^verbatim>\<open>load.c\<close> reads through pointers, with the fields it uses.
\<close>

record Elf32_Ehdr =
  e_ident :: "nat \<Rightarrow> u8"
  e_type :: u16
  e_machine :: u16
  e_version :: u32
  e_phoff :: u32
  e_shoff :: u32
  e_phnum :: u16
  e_shentsize :: u16
  e_shnum :: u16
  e_shstrndx :: u16

record Elf32_Phdr =
  p_type :: u32
  p_offset :: u32
  p_vaddr :: u32
  p_filesz :: u32
  p_memsz :: u32
  p_flags :: u32

record Elf32_Shdr =
  sh_name :: u32
  sh_offset :: u32
  sh_size :: u32

record module_info =
  ent_top :: u32
  ent_end :: u32
  stub_top :: u32
  stub_end :: u32

text \<open>\<^verbatim>\<open>module_exports_t\<close>; its \<^verbatim>\<open>num_functions\<close> is \<open>ex_num_functions\<close> here.\<close>

record module_exports =
  attribute :: u16
  ex_num_functions :: u16
  nid_table :: u32
  entry_table :: u32

record segment_info =
  vaddr :: u32
  memsz :: u32

text \<open>\<^verbatim>\<open>loaded_module_info_t\<close>: \<^verbatim>\<open>segments[3]\<close>, read at the indices 0, 1 and 2.\<close>

record loaded_module_info =
  segments :: "nat \<Rightarrow> segment_info"

text \<open>
  \<^verbatim>\<open>load.h\<close>, \<^verbatim>\<open>resolve.h\<close> and \<^verbatim>\<open>utils.h\<close> are not part of \<^verbatim>\<open>load.c\<close>, so what
  they declare is a parameter of the model: the constants, the size and the layout of each
  struct (as the function that reads the struct found at an address), and \<^verbatim>\<open>memstr\<close>.
  A constant is the non-negative value of its macro.
\<close>

record load_h =
  ELFMAG0 :: nat
  ELFMAG1 :: nat
  ELFMAG2 :: nat
  ELFMAG3 :: nat
  SCEMAG0 :: nat
  SCEMAG1 :: nat
  SCEMAG2 :: nat
  SCEMAG3 :: nat
  SCEHDR_LEN :: u32
  EI_MAG0 :: nat
  EI_MAG1 :: nat
  EI_MAG2 :: nat
  EI_MAG3 :: nat
  EI_CLASS :: nat
  EI_DATA :: nat
  EI_VERSION :: nat
  ELFCLASS32 :: nat
  ELFDATA2LSB :: nat
  EV_CURRENT :: nat
  ET_EXEC :: nat
  ET_SCE_EXEC :: nat
  EM_ARM :: nat
  PT_LOAD :: nat
  PF_X :: nat
  ATTR_MOD_INFO :: nat
  ENTRY_NID :: nat
  PSP2_O_RDONLY :: nat
  UVL_BIN_MAX_SIZE :: u32
  MAX_LOADED_MODS :: nat
  UVL_SEC_MODINFO :: string
  ehdr_at :: "mem \<Rightarrow> u32 \<Rightarrow> Elf32_Ehdr"
  phdr_at :: "mem \<Rightarrow> u32 \<Rightarrow> Elf32_Phdr"
  shdr_at :: "mem \<Rightarrow> u32 \<Rightarrow> Elf32_Shdr"
  modinfo_at :: "mem \<Rightarrow> u32 \<Rightarrow> module_info"
  import_at :: "mem \<Rightarrow> u32 \<Rightarrow> module_imports"
  export_at :: "mem \<Rightarrow> u32 \<Rightarrow> module_exports"
  sizeof_Elf32_Phdr :: u32
  sizeof_Elf32_Shdr :: u32
  sizeof_module_imports :: u32
  sizeof_module_exports :: u32
  memstr :: "mem \<Rightarrow> u32 \<Rightarrow> u32 \<Rightarrow> string \<Rightarrow> u32"

section \<open>The platform\<close>

text \<open>
  The services of \<^verbatim>\<open>scefuncs.h\<close> and the resolver of \<^verbatim>\<open>resolve.h\<close> are collaborators:
  each is a function of the platform's own state \<open>'x\<close> that returns the C result (a
  negative \<^verbatim>\<open>int\<close> is a failure) and the new state. \<^verbatim>\<open>sceIoRead\<close> and the resolver also
  write memory; the other services leave the bytes of memory as they are.
  \<^verbatim>\<open>sceKernelGetMemBlockBase\<close> returns with its result the address its out-parameter holds
  after the call; \<^verbatim>\<open>sceKernelGetModuleList\<close> returns \<^verbatim>\<open>mod_list[0..num_loaded)\<close>.
\<close>

record 'x platform =
  sceIoOpen :: "string \<Rightarrow> nat \<Rightarrow> nat \<Rightarrow> 'x \<Rightarrow> int \<times> 'x"
  sceIoRead :: "int \<Rightarrow> u32 \<Rightarrow> u32 \<Rightarrow> mem \<times> 'x \<Rightarrow> int \<times> mem \<times> 'x"
  sceIoClose :: "int \<Rightarrow> 'x \<Rightarrow> int \<times> 'x"
  sceKernelAllocMemBlock :: "string \<Rightarrow> u32 \<Rightarrow> u32 \<Rightarrow> 'x \<Rightarrow> int \<times> 'x"
  sceKernelAllocCodeMemBlock :: "string \<Rightarrow> u32 \<Rightarrow> 'x \<Rightarrow> int \<times> 'x"
  sceKernelGetMemBlockBase :: "int \<Rightarrow> 'x \<Rightarrow> (int \<times> u32) \<times> 'x"
  sceKernelFindMemBlockByAddr :: "u32 \<Rightarrow> nat \<Rightarrow> 'x \<Rightarrow> int \<times> 'x"
  sceKernelFreeMemBlock :: "int \<Rightarrow> 'x \<Rightarrow> int \<times> 'x"
  psvUnlockMem :: "'x \<Rightarrow> 'x"
  psvLockMem :: "'x \<Rightarrow> 'x"
  sceKernelGetModuleList :: "nat \<Rightarrow> nat \<Rightarrow> 'x \<Rightarrow> (int \<times> int list) \<times> 'x"
  sceKernelGetModuleInfo :: "int \<Rightarrow> 'x \<Rightarrow> (int \<times> loaded_module_info) \<times> 'x"
  sceKernelStopUnloadModule :: "int \<Rightarrow> 'x \<Rightarrow> int \<times> 'x"
  uvl_resolve_imports :: "u32 \<Rightarrow> mem \<times> 'x \<Rightarrow> int \<times> mem \<times> 'x"

text \<open>Every call of a collaborator is recorded, with its arguments, in call order.\<close>

datatype event =
    IoOpen string
  | IoRead int u32 u32
  | IoClose int
  | AllocMemBlock string u32 u32
  | AllocCodeMemBlock string u32
  | GetMemBlockBase int
  | FindMemBlockByAddr u32
  | FreeMemBlock int
  | UnlockMem
  | LockMem
  | GetModuleList
  | GetModuleInfo int
  | StopUnloadModule int
  | ResolveImports u32

record 'x world =
  mem :: mem
  kern :: 'x
  trace :: "event list"

definition sys :: "event \<Rightarrow> ('x \<Rightarrow> 'r \<times> 'x) \<Rightarrow> 'x world \<Rightarrow> 'r \<times> 'x world" where
  "sys ev call w =
     (case call (kern w) of (r, k) \<Rightarrow> (r, w\<lparr>kern := k, trace := trace w @ [ev]\<rparr>))"

definition sysm :: "event \<Rightarrow> (mem \<times> 'x \<Rightarrow> 'r \<times> mem \<times> 'x) \<Rightarrow> 'x world \<Rightarrow> 'r \<times> 'x world" where
  "sysm ev call w =
     (case call (mem w, kern w) of
        (r, m, k) \<Rightarrow> (r, w\<lparr>mem := m, kern := k, trace := trace w @ [ev]\<rparr>))"

definition sys0 :: "event \<Rightarrow> ('x \<Rightarrow> 'x) \<Rightarrow> 'x world \<Rightarrow> 'x world" where
  "sys0 ev call w = w\<lparr>kern := call (kern w), trace := trace w @ [ev]\<rparr>"

section \<open>Errors\<close>

text \<open>
  Every failure of \<^verbatim>\<open>load.c\<close> is \<^verbatim>\<open>return -1\<close> after a log line. The model keeps the
  sites apart: one error per site, named after the kind the specification gives it.
\<close>

datatype io_step = Open | Read | Close

datatype hdr_reason =
    BadMagic | Not32Bit | NotLittleEndian | BadIdentVersion | BadType
  | BadMachine | BadVersion | MissingTables | MissingStrings

datatype error =
    IOError io_step
  | AllocationError
  | BaseError
  | ReleaseError
  | UnrecognizedFormat
  | InvalidHeader hdr_reason
  | NotFound
  | QueryError
  | UnloadError
  | NoSegments
  | ResolutionError
  | EntryNotFound

section \<open>Raw image acquirer\<close>

text \<open>
  \<^verbatim>\<open>uvl_load_file\<close> (lines 27-73). On success the outputs are \<^verbatim>\<open>*data\<close> and \<^verbatim>\<open>*size\<close>.
  The size test against \<^verbatim>\<open>UVL_BIN_MAX_SIZE\<close> only logs a warning.
\<close>

definition uvl_load_file ::
  "load_h \<Rightarrow> 'x platform \<Rightarrow> string \<Rightarrow> 'x world \<Rightarrow> (error + u32 \<times> int) \<times> 'x world" where
  "uvl_load_file H P filename w0 =
     (case sys (IoOpen filename) (sceIoOpen P filename (PSP2_O_RDONLY H) 0) w0 of
        (fd, w1) \<Rightarrow>
     if fd < 0 then (Inl (IOError Open), w1) else
     case sys (AllocMemBlock ''UVLTemp'' 0xC20D060 (UVL_BIN_MAX_SIZE H))
            (sceKernelAllocMemBlock P ''UVLTemp'' 0xC20D060 (UVL_BIN_MAX_SIZE H)) w1 of
        (memblock, w2) \<Rightarrow>
     if memblock < 0 then (Inl AllocationError, w2) else
     case sys (GetMemBlockBase memblock) (sceKernelGetMemBlockBase P memblock) w2 of
        ((r, base), w3) \<Rightarrow>
     if r < 0 then (Inl BaseError, w3) else
     case sysm (IoRead fd base (UVL_BIN_MAX_SIZE H))
            (sceIoRead P fd base (UVL_BIN_MAX_SIZE H)) w3 of
        (size', w4) \<Rightarrow>
     if size' < 0 then (Inl (IOError Read), w4) else
     case sys (IoClose fd) (sceIoClose P fd) w4 of
        (c, w5) \<Rightarrow>
     if c < 0 then (Inl (IOError Close), w5) else
     (Inr (base, size'), w5))"

text \<open>
  \<^verbatim>\<open>uvl_free_data\<close> (lines 80-96): a block that is not found is logged, and the free is
  attempted all the same.
\<close>

definition uvl_free_data :: "'x platform \<Rightarrow> u32 \<Rightarrow> 'x world \<Rightarrow> (error + unit) \<times> 'x world" where
  "uvl_free_data P data w0 =
     (case sys (FindMemBlockByAddr data) (sceKernelFindMemBlockByAddr P data 0) w0 of
        (block, w1) \<Rightarrow>
     case sys (FreeMemBlock block) (sceKernelFreeMemBlock P block) w1 of
        (r, w2) \<Rightarrow>
     if r < 0 then (Inl ReleaseError, w2) else (Inr (), w2))"

section \<open>Header validator\<close>

text \<open>\<^verbatim>\<open>uvl_elf_check_header\<close> (lines 368-427), on the struct its argument points to.\<close>

definition uvl_elf_check_header :: "load_h \<Rightarrow> Elf32_Ehdr \<Rightarrow> error + unit" where
  "uvl_elf_check_header H hdr =
     (if \<not> (unat (e_ident hdr (EI_MAG0 H)) = ELFMAG0 H \<and>
             unat (e_ident hdr (EI_MAG1 H)) = ELFMAG1 H \<and>
             unat (e_ident hdr (EI_MAG2 H)) = ELFMAG2 H \<and>
             unat (e_ident hdr (EI_MAG3 H)) = ELFMAG3 H)
      then Inl (InvalidHeader BadMagic)
      else if \<not> (unat (e_ident hdr (EI_CLASS H)) = ELFCLASS32 H)
      then Inl (InvalidHeader Not32Bit)
      else if \<not> (unat (e_ident hdr (EI_DATA H)) = ELFDATA2LSB H)
      then Inl (InvalidHeader NotLittleEndian)
      else if \<not> (unat (e_ident hdr (EI_VERSION H)) = EV_CURRENT H)
      then Inl (InvalidHeader BadIdentVersion)
      else if \<not> (unat (e_type hdr) = ET_EXEC H \<or> unat (e_type hdr) = ET_SCE_EXEC H)
      then Inl (InvalidHeader BadType)
      else if \<not> (unat (e_machine hdr) = EM_ARM H)
      then Inl (InvalidHeader BadMachine)
      else if \<not> (unat (e_version hdr) = EV_CURRENT H)
      then Inl (InvalidHeader BadVersion)
      else if \<not> (0 < unat (e_shoff hdr) \<and> 0 < unat (e_phoff hdr))
      then Inl (InvalidHeader MissingTables)
      else if \<not> (0 < unat (e_shstrndx hdr))
      then Inl (InvalidHeader MissingStrings)
      else Inr ())"

section \<open>Module info locator\<close>

text \<open>
  The section walk of \<^verbatim>\<open>uvl_elf_get_module_info\<close> (lines 463-474), with \<open>i\<close> the current
  index and \<open>k\<close> the number of sections left: the first section header whose \<^verbatim>\<open>sh_name\<close>
  is \<^verbatim>\<open>name_idx\<close> gives the address of the module info.
\<close>

fun find_modinfo_section ::
  "load_h \<Rightarrow> mem \<Rightarrow> u32 \<Rightarrow> u32 \<Rightarrow> u32 \<Rightarrow> nat \<Rightarrow> nat \<Rightarrow> error + u32" where
  "find_modinfo_section H m data shoff name_idx i 0 = Inl NotFound"
| "find_modinfo_section H m data shoff name_idx i (Suc k) =
     (let sec_hdr = shdr_at H m (data + shoff + of_nat i * sizeof_Elf32_Shdr H)
      in if sh_name sec_hdr = name_idx then Inr (data + sh_offset sec_hdr)
         else find_modinfo_section H m data shoff name_idx (Suc i) k)"

text \<open>
  \<^verbatim>\<open>uvl_elf_get_module_info\<close> (lines 439-475). \<^verbatim>\<open>name_idx\<close> is an \<^verbatim>\<open>int\<close>: the
  difference of what \<^verbatim>\<open>memstr\<close> returns and the start of the string table.
\<close>

definition uvl_elf_get_module_info :: "load_h \<Rightarrow> mem \<Rightarrow> u32 \<Rightarrow> u32 \<Rightarrow> error + u32" where
  "uvl_elf_get_module_info H m data elf_hdr =
     (let hdr = ehdr_at H m elf_hdr;
          sec_hdr = shdr_at H m
            (data + e_shoff hdr + ucast (e_shstrndx hdr) * ucast (e_shentsize hdr));
          strings = data + sh_offset sec_hdr;
          name_idx = memstr H m strings (sh_size sec_hdr) (UVL_SEC_MODINFO H) - strings
      in if sint name_idx \<le> 0 then Inl NotFound
         else find_modinfo_section H m data (e_shoff hdr) name_idx 0 (unat (e_shnum hdr)))"

section \<open>Address-space reclaimer\<close>

text \<open>
  The first loop of \<^verbatim>\<open>uvl_elf_free_memory\<close> (lines 499-509): the lowest address and the
  highest end of the program headers. The loader only logs the two values.
\<close>

fun load_window :: "load_h \<Rightarrow> mem \<Rightarrow> u32 \<Rightarrow> nat \<Rightarrow> nat \<Rightarrow> u32 \<times> u32 \<Rightarrow> u32 \<times> u32" where
  "load_window H m prog_hdrs i 0 acc = acc"
| "load_window H m prog_hdrs i (Suc k) acc =
     (let ph = phdr_at H m (prog_hdrs + of_nat i * sizeof_Elf32_Phdr H);
          min_addr = (if p_vaddr ph < fst acc then p_vaddr ph else fst acc);
          max_addr = (if p_vaddr ph + p_memsz ph > snd acc then p_vaddr ph + p_memsz ph
                      else snd acc)
      in load_window H m prog_hdrs (Suc i) k (min_addr, max_addr))"

text \<open>
  The loop over \<^verbatim>\<open>segments[j]\<close> (lines 528-541), with \<open>j\<close> the current index and \<open>k\<close> the
  number of segments left: the first segment based at \<^verbatim>\<open>0x81000000\<close> has the module
  stopped and unloaded, and ends the loop.
\<close>

fun unload_if_occupant ::
  "'x platform \<Rightarrow> int \<Rightarrow> loaded_module_info \<Rightarrow> nat \<Rightarrow> nat \<Rightarrow> 'x world \<Rightarrow>
     (error + unit) \<times> 'x world" where
  "unload_if_occupant P uid m_mod_info j 0 w = (Inr (), w)"
| "unload_if_occupant P uid m_mod_info j (Suc k) w =
     (if vaddr (segments m_mod_info j) = 0x81000000
      then (case sys (StopUnloadModule uid) (sceKernelStopUnloadModule P uid) w of
              (r, w1) \<Rightarrow> if r < 0 then (Inl UnloadError, w1) else (Inr (), w1))
      else unload_if_occupant P uid m_mod_info (Suc j) k w)"

text \<open>The loop over the loaded modules (lines 519-542).\<close>

fun unload_occupants ::
  "'x platform \<Rightarrow> int list \<Rightarrow> 'x world \<Rightarrow> (error + unit) \<times> 'x world" where
  "unload_occupants P [] w = (Inr (), w)"
| "unload_occupants P (uid # mod_list) w =
     (case sys (GetModuleInfo uid) (sceKernelGetModuleInfo P uid) w of
        ((r, m_mod_info), w1) \<Rightarrow>
      if r < 0 then unload_occupants P mod_list w1
      else (case unload_if_occupant P uid m_mod_info 0 3 w1 of
              (Inl e, w2) \<Rightarrow> (Inl e, w2)
            | (Inr u, w2) \<Rightarrow> unload_occupants P mod_list w2))"

text \<open>\<^verbatim>\<open>uvl_elf_free_memory\<close> (lines 485-544).\<close>

definition uvl_elf_free_memory ::
  "load_h \<Rightarrow> 'x platform \<Rightarrow> u32 \<Rightarrow> nat \<Rightarrow> 'x world \<Rightarrow> (error + unit) \<times> 'x world" where
  "uvl_elf_free_memory H P prog_hdrs count w0 =
     (let window = load_window H (mem w0) prog_hdrs 0 count (0xFFFFFFFF, 0x00000000)
      in case sys GetModuleList (sceKernelGetModuleList P 0xFF (MAX_LOADED_MODS H)) w0 of
           ((r, mod_list), w1) \<Rightarrow>
         if r < 0 then (Inl QueryError, w1) else unload_occupants P mod_list w1)"

section \<open>Segment loader\<close>

text \<open>\<^verbatim>\<open>memcpy\<close> and \<^verbatim>\<open>memset\<close>, byte by byte from the lowest address.\<close>

fun memcpy :: "mem \<Rightarrow> u32 \<Rightarrow> u32 \<Rightarrow> nat \<Rightarrow> mem" where
  "memcpy m dst src 0 = m"
| "memcpy m dst src (Suc n) = memcpy (m(dst := m src)) (dst + 1) (src + 1) n"

fun memset :: "mem \<Rightarrow> u32 \<Rightarrow> u8 \<Rightarrow> nat \<Rightarrow> mem" where
  "memset m s c 0 = m"
| "memset m s c (Suc n) = memset (m(s := c)) (s + 1) c n"

text \<open>
  The body of the segment loop (lines 260-295) for index \<open>i\<close>. In
  \<^verbatim>\<open>prog_hdrs[i].p_flags & PF_X == PF_X\<close> the comparison binds tighter than \<^verbatim>\<open>&\<close>. A
  failure of \<^verbatim>\<open>sceKernelGetMemBlockBase\<close> and a base different from \<^verbatim>\<open>p_vaddr\<close> are only
  logged. The entry is read again after \<^verbatim>\<open>memcpy\<close>, which is the one write in between.
\<close>

definition load_segment ::
  "load_h \<Rightarrow> 'x platform \<Rightarrow> u32 \<Rightarrow> u32 \<Rightarrow> u32 \<Rightarrow> 'x world \<Rightarrow> (error + unit) \<times> 'x world" where
  "load_segment H P data prog_hdrs i w0 =
     (let ph = phdr_at H (mem w0) (prog_hdrs + i * sizeof_Elf32_Phdr H) in
      if unat (p_type ph) \<noteq> PT_LOAD H \<or> p_vaddr ph = 0 then (Inr (), w0) else
      let length' = seg_length (p_memsz ph) in
      case (if p_flags ph AND (if PF_X H = PF_X H then 1 else 0) \<noteq> 0
            then sys (AllocCodeMemBlock ''UVLHomebrew'' length')
                   (sceKernelAllocCodeMemBlock P ''UVLHomebrew'' length') w0
            else sys (AllocMemBlock ''UVLHomebrew'' 0xC20D060 length')
                   (sceKernelAllocMemBlock P ''UVLHomebrew'' 0xC20D060 length') w0) of
        (memblock, w1) \<Rightarrow>
      if memblock < 0 then (Inl AllocationError, w1) else
      case sys (GetMemBlockBase memblock) (sceKernelGetMemBlockBase P memblock) w1 of
        ((r, blockaddr), w2) \<Rightarrow>
      let w3 = sys0 UnlockMem (psvUnlockMem P) w2;
          w4 = w3\<lparr>mem := memcpy (mem w3) blockaddr (data + p_offset ph) (unat (p_filesz ph))\<rparr>;
          ph' = phdr_at H (mem w4) (prog_hdrs + i * sizeof_Elf32_Phdr H);
          w5 = w4\<lparr>mem := memset (mem w4) (blockaddr + p_filesz ph') 0
                               (unat (p_memsz ph' - p_filesz ph'))\<rparr>
      in (Inr (), sys0 LockMem (psvLockMem P) w5))"

text \<open>
  The segment loop (lines 258-296): \<^verbatim>\<open>for (i = 0; i < elf_hdr->e_phnum; i++)\<close>, with the
  header read from memory at every test.
\<close>

function load_segments ::
  "load_h \<Rightarrow> 'x platform \<Rightarrow> u32 \<Rightarrow> u32 \<Rightarrow> u32 \<Rightarrow> u32 \<Rightarrow> 'x world \<Rightarrow>
     (error + unit) \<times> 'x world" where
  "load_segments H P data elf_hdr prog_hdrs i w =
     (if i < ucast (e_phnum (ehdr_at H (mem w) elf_hdr))
      then (case load_segment H P data prog_hdrs i w of
              (Inl e, w') \<Rightarrow> (Inl e, w')
            | (Inr u, w') \<Rightarrow> load_segments H P data elf_hdr prog_hdrs (i + 1) w')
      else (Inr (), w))"
  by pat_completeness auto
termination
proof (relation "measure (\<lambda>(H, P, data, elf_hdr, prog_hdrs, i, w). 2 ^ 32 - unat i)")
  show "wf (measure (\<lambda>(H, P, data, elf_hdr, prog_hdrs, i, w). 2 ^ 32 - unat i))"
    by simp
next
  fix H :: load_h and P :: "'x platform" and data elf_hdr prog_hdrs i :: u32
    and w w' :: "'x world" and x y u
  assume lt: "i < ucast (e_phnum (ehdr_at H (mem w) elf_hdr))"
  have "unat i < 2 ^ 32"
    using unsigned_less [of i] by simp
  moreover have "unat i < unat (ucast (e_phnum (ehdr_at H (mem w) elf_hdr)) :: u32)"
    using lt by (simp add: word_less_nat_alt)
  moreover have "unat (ucast (e_phnum (ehdr_at H (mem w) elf_hdr)) :: u32) < 2 ^ 32"
    using unsigned_less [of "ucast (e_phnum (ehdr_at H (mem w) elf_hdr)) :: u32"] by simp
  ultimately have "unat (i + 1) = unat i + 1"
    by (simp add: unat_word_ariths)
  moreover have "unat i < 2 ^ 32"
    using unsigned_less [of i] by simp
  ultimately show "((H, P, data, elf_hdr, prog_hdrs, i + 1, w'), (H, P, data, elf_hdr, prog_hdrs, i, w))
      \<in> measure (\<lambda>(H, P, data, elf_hdr, prog_hdrs, i, w). 2 ^ 32 - unat i)"
    by simp
qed

declare load_segments.simps [simp del]

section \<open>Import resolution driver\<close>

text \<open>
  \<^verbatim>\<open>uvl_load_module_for_lib\<close> (lines 353-359) is a stub that returns zero.
\<close>

definition uvl_load_module_for_lib :: "u32 \<Rightarrow> 'x world \<Rightarrow> int \<times> 'x world" where
  "uvl_load_module_for_lib lib_name' w = (0, w)"

text \<open>
  The import loop (lines 303-317):
  \<^verbatim>\<open>for (i = 0; (void*)&import[i] < end; i++)\<close>. The loader of the dependency is the
  parameter \<open>load_module\<close>, which \<^verbatim>\<open>uvl_load_elf\<close> below instantiates with the stub. The
  index and the addresses are 32-bit, so the loop need not end: no result is \<open>None\<close>.
\<close>

partial_function (option) resolve_nids ::
  "load_h \<Rightarrow> 'x platform \<Rightarrow> (u32 \<Rightarrow> 'x world \<Rightarrow> int \<times> 'x world) \<Rightarrow> u32 \<Rightarrow> u32 \<Rightarrow> u32 \<Rightarrow>
     'x world \<Rightarrow> ((error + unit) \<times> 'x world) option" where
  [code]: "resolve_nids H P load_module import fin i w =
     (if import + i * sizeof_module_imports H < fin
      then (case load_module
                   (lib_name (import_at H (mem w) (import + i * sizeof_module_imports H))) w of
              (r, w1) \<Rightarrow>
            if r < 0 then resolve_nids H P load_module import fin (i + 1) w1
            else (case sysm (ResolveImports (import + i * sizeof_module_imports H))
                         (uvl_resolve_imports P (import + i * sizeof_module_imports H)) w1 of
                    (r', w2) \<Rightarrow>
                  if r' < 0 then Some (Inl ResolutionError, w2)
                  else resolve_nids H P load_module import fin (i + 1) w2))
      else Some (Inr (), w))"

section \<open>Entry point finder\<close>

text \<open>
  The scan of one descriptor's NID table (lines 330-338), with \<open>j\<close> the current index and
  \<open>k\<close> the number of functions left.
\<close>

fun scan_nids :: "load_h \<Rightarrow> mem \<Rightarrow> module_exports \<Rightarrow> nat \<Rightarrow> nat \<Rightarrow> u32 option" where
  "scan_nids H m ex j 0 = None"
| "scan_nids H m ex j (Suc k) =
     (if unat (load32 m (nid_table ex + 4 * of_nat j)) = ENTRY_NID H
      then Some (load32 m (entry_table ex + 4 * of_nat j))
      else scan_nids H m ex (Suc j) k)"

text \<open>
  The export loop (lines 324-341):
  \<^verbatim>\<open>for (i = 0; (void*)&export[i] < end; i++)\<close>; as the import loop, it need not end.
\<close>

partial_function (option) find_entry ::
  "load_h \<Rightarrow> mem \<Rightarrow> u32 \<Rightarrow> u32 \<Rightarrow> u32 \<Rightarrow> (error + u32) option" where
  [code]: "find_entry H m export fin i =
     (if export + i * sizeof_module_exports H < fin
      then (let ex = export_at H m (export + i * sizeof_module_exports H)
            in if unat (attribute ex) \<noteq> ATTR_MOD_INFO H
               then find_entry H m export fin (i + 1)
               else (case scan_nids H m ex 0 (unat (ex_num_functions ex)) of
                       Some entry \<Rightarrow> Some (Inr entry)
                     | None \<Rightarrow> find_entry H m export fin (i + 1)))
      else Some (Inl EntryNotFound))"

section \<open>The ELF loader\<close>

text \<open>
  The first part of \<^verbatim>\<open>uvl_load_elf\<close> (lines 213-296): the header check, the module
  info, the reclamation, the test of the number of program headers and the segment loop.
  It gives the two pointers the rest of the function uses, \<^verbatim>\<open>prog_hdrs\<close> and
  \<^verbatim>\<open>mod_info\<close>.
\<close>

definition load_elf_segments ::
  "load_h \<Rightarrow> 'x platform \<Rightarrow> u32 \<Rightarrow> 'x world \<Rightarrow> (error + u32 \<times> u32) \<times> 'x world" where
  "load_elf_segments H P data w0 =
     (let elf_hdr = data in
      case uvl_elf_check_header H (ehdr_at H (mem w0) elf_hdr) of
        Inl e \<Rightarrow> (Inl e, w0)
      | Inr u \<Rightarrow>
      let prog_hdrs = data + e_phoff (ehdr_at H (mem w0) elf_hdr) in
      case uvl_elf_get_module_info H (mem w0) data elf_hdr of
        Inl e \<Rightarrow> (Inl e, w0)
      | Inr mod_info \<Rightarrow>
      case uvl_elf_free_memory H P prog_hdrs
             (unat (e_phnum (ehdr_at H (mem w0) elf_hdr))) w0 of
        (Inl e, w1) \<Rightarrow> (Inl e, w1)
      | (Inr u, w1) \<Rightarrow>
      if unat (e_phnum (ehdr_at H (mem w1) elf_hdr)) < 1 then (Inl NoSegments, w1) else
      case load_segments H P data elf_hdr prog_hdrs 0 w1 of
        (Inl e, w2) \<Rightarrow> (Inl e, w2)
      | (Inr u, w2) \<Rightarrow> (Inr (prog_hdrs, mod_info), w2))"

text \<open>
  \<^verbatim>\<open>uvl_load_elf\<close> (lines 206-342): after the segments, the import loop and the search for
  the entry point. The result is the error of the failing step or the entry address
  written to \<^verbatim>\<open>*entry\<close>.
\<close>

definition uvl_load_elf ::
  "load_h \<Rightarrow> 'x platform \<Rightarrow> u32 \<Rightarrow> 'x world \<Rightarrow> ((error + u32) \<times> 'x world) option" where
  "uvl_load_elf H P data w0 =
     (case load_elf_segments H P data w0 of
        (Inl e, w2) \<Rightarrow> Some (Inl e, w2)
      | (Inr (prog_hdrs, mod_info), w2) \<Rightarrow>
      let import = p_vaddr (phdr_at H (mem w2) prog_hdrs) + stub_top (modinfo_at H (mem w2) mod_info);
          fin = p_vaddr (phdr_at H (mem w2) prog_hdrs) + stub_end (modinfo_at H (mem w2) mod_info) in
      case resolve_nids H P uvl_load_module_for_lib import fin 0 w2 of
        None \<Rightarrow> None
      | Some (Inl e, w3) \<Rightarrow> Some (Inl e, w3)
      | Some (Inr u, w3) \<Rightarrow>
      let export = p_vaddr (phdr_at H (mem w3) prog_hdrs) + ent_top (modinfo_at H (mem w3) mod_info);
          fin = p_vaddr (phdr_at H (mem w3) prog_hdrs) + ent_end (modinfo_at H (mem w3) mod_info) in
      case find_entry H (mem w3) export fin 0 of
        None \<Rightarrow> None
      | Some (Inl e) \<Rightarrow> Some (Inl e, w3)
      | Some (Inr entry) \<Rightarrow> Some (Inr entry, w3))"

section \<open>Format dispatcher\<close>

text \<open>
  The end of \<^verbatim>\<open>uvl_load_exe\<close> (lines 155-161): the buffer is freed and the entry address
  stands.
\<close>

definition free_and_return ::
  "'x platform \<Rightarrow> u32 \<Rightarrow> u32 \<Rightarrow> 'x world \<Rightarrow> ((error + u32) \<times> 'x world) option" where
  "free_and_return P data entry w =
     (case uvl_free_data P data w of
        (Inl e, w') \<Rightarrow> Some (Inl e, w')
      | (Inr u, w') \<Rightarrow> Some (Inr entry, w'))"

text \<open>
  \<^verbatim>\<open>uvl_load_exe\<close> (lines 106-162). \<^verbatim>\<open>*entry\<close> is \<^verbatim>\<open>NULL\<close> until \<^verbatim>\<open>uvl_load_elf\<close> sets it;
  a return of zero is \<open>Inr\<close> of the value \<^verbatim>\<open>*entry\<close> then holds.
\<close>

definition uvl_load_exe ::
  "load_h \<Rightarrow> 'x platform \<Rightarrow> string \<Rightarrow> 'x world \<Rightarrow> ((error + u32) \<times> 'x world) option" where
  "uvl_load_exe H P filename w0 =
     (case uvl_load_file H P filename w0 of
        (Inl e, w1) \<Rightarrow> Some (Inl e, w1)
      | (Inr (data, size'), w1) \<Rightarrow>
      let magic = (\<lambda>n. unat (mem w1 (data + n))) in
      if magic 0 = ELFMAG0 H
      then (if magic 1 = ELFMAG1 H \<and> magic 2 = ELFMAG2 H \<and> magic 3 = ELFMAG3 H
            then (case uvl_load_elf H P data w1 of
                    None \<Rightarrow> None
                  | Some (Inl e, w2) \<Rightarrow> Some (Inl e, w2)
                  | Some (Inr entry, w2) \<Rightarrow> free_and_return P data entry w2)
            else free_and_return P data 0 w1)
      else if magic 0 = SCEMAG0 H
      then (if magic 1 = SCEMAG1 H \<and> magic 2 = SCEMAG2 H \<and> magic 3 = SCEMAG3 H
            then (case uvl_load_elf H P (data + SCEHDR_LEN H) w1 of
                    None \<Rightarrow> None
                  | Some (Inl e, w2) \<Rightarrow> Some (Inl e, w2)
                  | Some (Inr entry, w2) \<Rightarrow> free_and_return P data entry w2)
            else free_and_return P data 0 w1)
      else Some (Inl UnrecognizedFormat, w1))"

section \<open>What a run shows\<close>

text \<open>
  The result of a load without the final state, and the calls it made. \<open>is_alloc\<close> marks
  the two allocation services.
\<close>

definition outcome :: "(('e + 'a) \<times> 'x world) option \<Rightarrow> ('e + 'a) option" where
  "outcome r = map_option fst r"

definition calls :: "(('e + 'a) \<times> 'x world) option \<Rightarrow> event list" where
  "calls r = (case r of None \<Rightarrow> [] | Some (v, w) \<Rightarrow> trace w)"

fun is_alloc :: "event \<Rightarrow> bool" where
  "is_alloc (AllocMemBlock name ty n) = True"
| "is_alloc (AllocCodeMemBlock name n) = True"
| "is_alloc ev = False"

text \<open>
  The nine checks of the header validator, as the specification lists them: magic bytes,
  32-bit class, little-endian data, identification version, file type, machine, version,
  both table offsets, string-table section index.
\<close>

definition valid_header :: "load_h \<Rightarrow> Elf32_Ehdr \<Rightarrow> bool" where
  "valid_header H hdr =
     ((unat (e_ident hdr (EI_MAG0 H)) = ELFMAG0 H \<and> unat (e_ident hdr (EI_MAG1 H)) = ELFMAG1 H \<and>
       unat (e_ident hdr (EI_MAG2 H)) = ELFMAG2 H \<and> unat (e_ident hdr (EI_MAG3 H)) = ELFMAG3 H) \<and>
      unat (e_ident hdr (EI_CLASS H)) = ELFCLASS32 H \<and>
      unat (e_ident hdr (EI_DATA H)) = ELFDATA2LSB H \<and>
      unat (e_ident hdr (EI_VERSION H)) = EV_CURRENT H \<and>
      (unat (e_type hdr) = ET_EXEC H \<or> unat (e_type hdr) = ET_SCE_EXEC H) \<and>
      unat (e_machine hdr) = EM_ARM H \<and>
      unat (e_version hdr) = EV_CURRENT H \<and>
      (0 < unat (e_shoff hdr) \<and> 0 < unat (e_phoff hdr)) \<and>
      0 < unat (e_shstrndx hdr))"

text \<open>
  For the entry point finder: the export descriptor at index \<open>i\<close> of the run that
  starts at \<open>export\<close>, whether index \<open>i\<close> lies in the run that ends at \<open>fin\<close>, and whether
  a descriptor carries the module-info tag and the entry identifier among its first
  \<^verbatim>\<open>num_functions\<close> NIDs.
\<close>

definition export_desc :: "load_h \<Rightarrow> mem \<Rightarrow> u32 \<Rightarrow> nat \<Rightarrow> module_exports" where
  "export_desc H m export i = export_at H m (export + of_nat i * sizeof_module_exports H)"

definition in_export_run :: "load_h \<Rightarrow> u32 \<Rightarrow> u32 \<Rightarrow> nat \<Rightarrow> bool" where
  "in_export_run H export fin i \<longleftrightarrow> export + of_nat i * sizeof_module_exports H < fin"

definition holds_entry :: "load_h \<Rightarrow> mem \<Rightarrow> module_exports \<Rightarrow> bool" where
  "holds_entry H m ex \<longleftrightarrow>
     unat (attribute ex) = ATTR_MOD_INFO H \<and>
     (\<exists>k < unat (ex_num_functions ex). unat (load32 m (nid_table ex + 4 * of_nat k)) = ENTRY_NID H)"

text \<open>
  For the relocator. \<open>region a n\<close> is the set of the \<open>n\<close> addresses from \<open>a\<close> on (modulo
  \<open>2^32\<close>), and \<open>disjoint_all\<close> says that the sets of a list are pairwise disjoint. The
  header of the descriptor at \<open>import\<close> is made of ten slots: the seven pointer fields and
  the three counts. \<open>entry_tables\<close> pairs the address of each count with the address of
  the pointer to its entry table, and \<open>entry_run m k ct\<close> is the run of cells of such a
  table, in the memory \<open>m\<close>, once its pointer is shifted by \<open>k\<close>. \<open>entry_runs\<close> lists the
  six runs of a round trip: the three at \<open>table + k\<close> and the three at \<open>table\<close>.
\<close>

definition region :: "u32 \<Rightarrow> nat \<Rightarrow> u32 set" where
  "region a n = {x. unat (x - a) < n}"

fun disjoint_all :: "u32 set list \<Rightarrow> bool" where
  "disjoint_all [] = True"
| "disjoint_all (s # ss) = ((\<forall>t\<in>set ss. s \<inter> t = {}) \<and> disjoint_all ss)"

definition pointer_fields :: "imports_offsets \<Rightarrow> u32 \<Rightarrow> u32 list" where
  "pointer_fields L import =
     [import + off_lib_name L, import + off_func_nid_table L, import + off_func_entry_table L,
      import + off_var_nid_table L, import + off_var_entry_table L,
      import + off_tls_nid_table L, import + off_tls_entry_table L]"

definition count_fields :: "imports_offsets \<Rightarrow> u32 \<Rightarrow> u32 list" where
  "count_fields L import =
     [import + off_num_functions L, import + off_num_vars L, import + off_num_tls_vars L]"

definition header_slots :: "imports_offsets \<Rightarrow> u32 \<Rightarrow> u32 set list" where
  "header_slots L import =
     map (\<lambda>a. region a 4) (pointer_fields L import) @
     map (\<lambda>c. region c 2) (count_fields L import)"

definition entry_tables :: "imports_offsets \<Rightarrow> u32 \<Rightarrow> (u32 \<times> u32) list" where
  "entry_tables L import =
     [(import + off_num_functions L, import + off_func_entry_table L),
      (import + off_num_vars L, import + off_var_entry_table L),
      (import + off_num_tls_vars L, import + off_tls_entry_table L)]"

definition entry_run :: "mem \<Rightarrow> u32 \<Rightarrow> u32 \<times> u32 \<Rightarrow> u32 set" where
  "entry_run m k ct = region (load32 m (snd ct) + k) (4 * unat (load16 m (fst ct)))"

definition entry_runs :: "imports_offsets \<Rightarrow> mem \<Rightarrow> u32 \<Rightarrow> u32 \<Rightarrow> u32 set list" where
  "entry_runs L m import k =
     map (entry_run m k) (entry_tables L import) @ map (entry_run m 0) (entry_tables L import)"

text \<open>
  The two phases of \<^verbatim>\<open>uvl_offset_import\<close> over lists: the shift of a list of pointer
  fields, and the loops of a list of tables.
\<close>

fun shift_fields :: "mem \<Rightarrow> u32 list \<Rightarrow> u32 \<Rightarrow> mem" where
  "shift_fields m [] k = m"
| "shift_fields m (a # as) k = shift_fields (add32 m a k) as k"

fun offset_tables :: "mem \<Rightarrow> (u32 \<times> u32) list \<Rightarrow> u32 \<Rightarrow> mem" where
  "offset_tables m [] k = m"
| "offset_tables m (ct # cts) k = offset_tables (offset_entries m (fst ct) (snd ct) k 0) cts k"

text \<open>
  For the segment loop. An entry is \<open>loadable\<close> when the loop does not skip it (line 260).
  \<open>block_calls P ph k\<close> collects what the kernel answers during the load step of the entry
  \<open>ph\<close>, from the kernel state \<open>k\<close>: the identifier the allocation returns (lines 267-274;
  \<^verbatim>\<open>==\<close> binds tighter than \<^verbatim>\<open>&\<close>, so the test is \<^verbatim>\<open>p_flags & 1\<close>), the address that
  \<^verbatim>\<open>blockaddr\<close> holds after the base query (line 280), whatever the query returns, and
  the kernel state after the unlock and the lock.
\<close>

definition loadable :: "load_h \<Rightarrow> Elf32_Phdr \<Rightarrow> bool" where
  "loadable H ph \<longleftrightarrow> unat (p_type ph) = PT_LOAD H \<and> p_vaddr ph \<noteq> 0"


section \<open>Concrete inputs\<close>

text \<open>
  An instance of the declarations, for the examples below: the constants and the layouts
  of the ELF structs are those of the ELF32 standard, read little-endian; the constants
  and the layouts of the SCE structs are sample values.
\<close>

definition std_ehdr_at :: "mem \<Rightarrow> u32 \<Rightarrow> Elf32_Ehdr" where
  "std_ehdr_at m a =
     \<lparr>e_ident = (\<lambda>n. if n < 16 then m (a + of_nat n) else 0), e_type = load16 m (a + 16),
      e_machine = load16 m (a + 18), e_version = load32 m (a + 20),
      e_phoff = load32 m (a + 28), e_shoff = load32 m (a + 32),
      e_phnum = load16 m (a + 44), e_shentsize = load16 m (a + 46),
      e_shnum = load16 m (a + 48), e_shstrndx = load16 m (a + 50)\<rparr>"

definition std_phdr_at :: "mem \<Rightarrow> u32 \<Rightarrow> Elf32_Phdr" where
  "std_phdr_at m a =
     \<lparr>p_type = load32 m a, p_offset = load32 m (a + 4), p_vaddr = load32 m (a + 8),
      p_filesz = load32 m (a + 16), p_memsz = load32 m (a + 20),
      p_flags = load32 m (a + 24)\<rparr>"

definition std_shdr_at :: "mem \<Rightarrow> u32 \<Rightarrow> Elf32_Shdr" where
  "std_shdr_at m a =
     \<lparr>sh_name = load32 m a, sh_offset = load32 m (a + 16), sh_size = load32 m (a + 20)\<rparr>"

definition std_modinfo_at :: "mem \<Rightarrow> u32 \<Rightarrow> module_info" where
  "std_modinfo_at m a =
     \<lparr>ent_top = load32 m (a + 36), ent_end = load32 m (a + 40),
      stub_top = load32 m (a + 44), stub_end = load32 m (a + 48)\<rparr>"

definition std_import_at :: "mem \<Rightarrow> u32 \<Rightarrow> module_imports" where
  "std_import_at m a =
     \<lparr>num_functions = load16 m (a + 6), num_vars = load16 m (a + 8),
      num_tls_vars = load16 m (a + 10), lib_name = load32 m (a + 20),
      func_nid_table = load32 m (a + 28), func_entry_table = load32 m (a + 32),
      var_nid_table = load32 m (a + 36), var_entry_table = load32 m (a + 40),
      tls_nid_table = load32 m (a + 44), tls_entry_table = load32 m (a + 48)\<rparr>"

definition std_export_at :: "mem \<Rightarrow> u32 \<Rightarrow> module_exports" where
  "std_export_at m a =
     \<lparr>attribute = load16 m (a + 4), ex_num_functions = load16 m (a + 6),
      nid_table = load32 m (a + 24), entry_table = load32 m (a + 28)\<rparr>"

text \<open>
  A \<^verbatim>\<open>memstr\<close>: the address of the first place in the \<open>k\<close> bytes from \<open>p\<close> where the
  needle stands, or \<^verbatim>\<open>NULL\<close>.
\<close>

fun std_memstr_from :: "mem \<Rightarrow> u32 \<Rightarrow> nat \<Rightarrow> string \<Rightarrow> u32" where
  "std_memstr_from m p 0 needle = 0"
| "std_memstr_from m p (Suc k) needle =
     (if length needle \<le> Suc k \<and>
         map (\<lambda>n. m (p + of_nat n)) [0..<length needle] = map of_char needle
      then p else std_memstr_from m (p + 1) k needle)"

definition std_memstr :: "mem \<Rightarrow> u32 \<Rightarrow> u32 \<Rightarrow> string \<Rightarrow> u32" where
  "std_memstr m haystack h_length needle = std_memstr_from m haystack (unat h_length) needle"

definition std_h :: load_h where
  "std_h =
     \<lparr>ELFMAG0 = 0x7F, ELFMAG1 = 0x45, ELFMAG2 = 0x4C, ELFMAG3 = 0x46,
      SCEMAG0 = 0x53, SCEMAG1 = 0x43, SCEMAG2 = 0x45, SCEMAG3 = 0,
      SCEHDR_LEN = 0x1000,
      EI_MAG0 = 0, EI_MAG1 = 1, EI_MAG2 = 2, EI_MAG3 = 3,
      EI_CLASS = 4, EI_DATA = 5, EI_VERSION = 6,
      ELFCLASS32 = 1, ELFDATA2LSB = 1, EV_CURRENT = 1,
      ET_EXEC = 2, ET_SCE_EXEC = 0xFE00, EM_ARM = 40,
      PT_LOAD = 1, PF_X = 1,
      ATTR_MOD_INFO = 0x8000, ENTRY_NID = 0x935CD196,
      PSP2_O_RDONLY = 1, UVL_BIN_MAX_SIZE = 0x2000000, MAX_LOADED_MODS = 128,
      UVL_SEC_MODINFO = ''.sceModuleInfo.rodata'',
      ehdr_at = std_ehdr_at, phdr_at = std_phdr_at, shdr_at = std_shdr_at,
      modinfo_at = std_modinfo_at, import_at = std_import_at, export_at = std_export_at,
      sizeof_Elf32_Phdr = 32, sizeof_Elf32_Shdr = 40,
      sizeof_module_imports = 0x34, sizeof_module_exports = 0x20,
      memstr = std_memstr\<rparr>"

text \<open>Bytes written to memory from an address on.\<close>

fun poke :: "mem \<Rightarrow> u32 \<Rightarrow> u8 list \<Rightarrow> mem" where
  "poke m a [] = m"
| "poke m a (b # bs) = poke (m(a := b)) (a + 1) bs"

text \<open>
  A platform for the examples. Its state counts the blocks allocated so far; block \<open>n\<close>
  is based at \<open>0x81000000 + (n - 1) * 0x100000\<close>. The file read is \<open>file_bytes\<close>; the loaded
  modules are \<open>mods\<close>, each with its info, or with \<open>None\<close> when the info cannot be
  fetched. Every other service succeeds.
\<close>

definition no_segments :: loaded_module_info where
  "no_segments = \<lparr>segments = (\<lambda>j. \<lparr>vaddr = 0, memsz = 0\<rparr>)\<rparr>"

definition demo_platform ::
  "u8 list \<Rightarrow> (int \<times> loaded_module_info option) list \<Rightarrow> nat platform" where
  "demo_platform file_bytes mods =
     \<lparr>sceIoOpen = (\<lambda>filename flags mode x. (3, x)),
      sceIoRead = (\<lambda>fd base n (m, x).
         (int (length (take (unat n) file_bytes)), poke m base (take (unat n) file_bytes), x)),
      sceIoClose = (\<lambda>fd x. (0, x)),
      sceKernelAllocMemBlock = (\<lambda>name ty n x. (int (Suc x), Suc x)),
      sceKernelAllocCodeMemBlock = (\<lambda>name n x. (int (Suc x), Suc x)),
      sceKernelGetMemBlockBase = (\<lambda>uid x. ((0, 0x81000000 + 0x100000 * (word_of_int uid - 1)), x)),
      sceKernelFindMemBlockByAddr = (\<lambda>addr flags x. (1, x)),
      sceKernelFreeMemBlock = (\<lambda>uid x. (0, x)),
      psvUnlockMem = (\<lambda>x. x),
      psvLockMem = (\<lambda>x. x),
      sceKernelGetModuleList = (\<lambda>flags n x. ((0, map fst mods), x)),
      sceKernelGetModuleInfo = (\<lambda>uid x.
         (case map_of mods uid of
            Some (Some info) \<Rightarrow> (0, info)
          | Some None \<Rightarrow> (- 1, no_segments)
          | None \<Rightarrow> (- 1, no_segments), x)),
      sceKernelStopUnloadModule = (\<lambda>uid x. (0, x)),
      uvl_resolve_imports = (\<lambda>import (m, x). (0, m, x))\<rparr>"

definition demo_world :: "nat world" where
  "demo_world = \<lparr>mem = (\<lambda>a. 0), kern = 0, trace = []\<rparr>"

text \<open>
  The offsets of the fields of \<^verbatim>\<open>module_imports_t\<close>, as \<open>std_import_at\<close> reads them.
\<close>

definition std_import_offsets :: imports_offsets where
  "std_import_offsets =
     \<lparr>off_num_functions = 6, off_num_vars = 8, off_num_tls_vars = 10, off_lib_name = 20,
      off_func_nid_table = 28, off_func_entry_table = 32, off_var_nid_table = 36,
      off_var_entry_table = 40, off_tls_nid_table = 44, off_tls_entry_table = 48\<rparr>"

text \<open>
  An import descriptor of \<open>0x34\<close> bytes with one function entry: its library name is at
  \<open>0x2000\<close>, its function NID table at \<open>0x3000\<close>, its function entry table at \<open>table\<close>; it
  has no variable and no TLS entry. \<open>demo_import_mem table\<close> holds this descriptor at
  \<open>0x81200000\<close> and the stub address \<open>0x81001234\<close> in the cell \<open>0x4000\<close>; every other byte is
  zero. With \<open>table = 0x4000\<close> that cell is element 0 of the entry table; with
  \<open>table = 0x81200010\<close> the entry table lies in the descriptor itself.
\<close>

definition demo_desc_bytes :: "u32 \<Rightarrow> u8 list" where
  "demo_desc_bytes table =
     [0x34, 0, 0, 0, 0, 0, 1, 0, 0, 0, 0, 0, 0, 0, 0, 0,
      0, 0, 0, 0, 0x00, 0x20, 0, 0, 0, 0, 0, 0, 0x00, 0x30, 0, 0,
      ucast table, ucast (drop_bit 8 table), ucast (drop_bit 16 table), ucast (drop_bit 24 table),
      0, 0, 0, 0, 0, 0, 0, 0, 0, 0, 0, 0, 0, 0, 0, 0]"

definition demo_import_mem :: "u32 \<Rightarrow> mem" where
  "demo_import_mem table =
     poke (poke (\<lambda>a. 0) 0x81200000 (demo_desc_bytes table)) 0x4000 [0x34, 0x12, 0x00, 0x81]"

text \<open>A file of four bytes: the first byte of the ELF magic, then zeros.\<close>

definition partial_magic_image :: "u8 list" where
  "partial_magic_image = [0x7F, 0, 0, 0]"

text \<open>A file that starts as an ELF header of class 2 (64-bit).\<close>

definition wrong_class_image :: "u8 list" where
  "wrong_class_image = [0x7F, 0x45, 0x4C, 0x46, 2, 1, 1]"

text \<open>The world after \<^verbatim>\<open>uvl_load_file\<close> has read a file of the bytes \<open>bs\<close>.\<close>

definition acquired :: "u8 list \<Rightarrow> nat world" where
  "acquired bs =
     \<lparr>mem = poke (\<lambda>a. 0) 0x81000000 bs, kern = Suc 0,
      trace = [IoOpen ''app.elf'', AllocMemBlock ''UVLTemp'' 0xC20D060 0x2000000,
               GetMemBlockBase 1, IoRead 3 0x81000000 0x2000000, IoClose 3]\<rparr>"

text \<open>A file of four bytes: the SCE magic. What follows in memory is zero.\<close>

definition sce_magic_image :: "u8 list" where
  "sce_magic_image = [0x53, 0x43, 0x45, 0]"

text \<open>The example platform with a \<^verbatim>\<open>sceIoClose\<close> that fails.\<close>

definition close_fails :: "nat platform" where
  "close_fails = (demo_platform partial_magic_image [])\<lparr>sceIoClose := (\<lambda>fd x. (- 1, x))\<rparr>"

text \<open>
  Three loaded modules: the info of module 12 cannot be fetched, the second segment of
  module 10 is based at \<open>0x81000000\<close>, and no segment of module 11 is.
\<close>

definition occupant_info :: loaded_module_info where
  "occupant_info =
     \<lparr>segments = (\<lambda>j. \<lparr>vaddr = (if j = 1 then 0x81000000 else 0x81200000), memsz = 0x1000\<rparr>)\<rparr>"

definition other_info :: loaded_module_info where
  "other_info = \<lparr>segments = (\<lambda>j. \<lparr>vaddr = 0xE0000000, memsz = 0x1000\<rparr>)\<rparr>"

definition demo_mods :: "(int \<times> loaded_module_info option) list" where
  "demo_mods = [(12, None), (10, Some occupant_info), (11, Some other_info)]"


text \<open>
  An ELF image of \<open>0x1AC\<close> bytes, in its parts. The ELF header, whose number of program
  headers is the parameter \<open>n\<close>: program headers at offset \<open>0x34\<close>, three section headers
  of 40 bytes at offset \<open>0x54\<close>, the string table being section 1.
\<close>

definition ehdr_bytes :: "u8 \<Rightarrow> u8 list" where
  "ehdr_bytes n =
     [0x7F, 0x45, 0x4C, 0x46, 1, 1, 1, 0, 0, 0, 0, 0, 0, 0, 0, 0,
      2, 0, 0x28, 0, 1, 0, 0, 0, 0, 0, 0, 0, 0x34, 0, 0, 0,
      0x54, 0, 0, 0, 0, 0, 0, 0, 0x34, 0, 0x20, 0, n, 0, 0x28, 0,
      3, 0, 1, 0]"

text \<open>
  The program header at offset \<open>0x34\<close>: loadable, executable, \<open>0x8C\<close> bytes from file
  offset \<open>0x120\<close> to \<open>0x81100000\<close>, \<open>0x90\<close> bytes in memory.
\<close>

definition phdr_bytes :: "u8 list" where
  "phdr_bytes =
     [1, 0, 0, 0, 0x20, 1, 0, 0, 0, 0, 0x10, 0x81, 0, 0, 0, 0,
      0x8C, 0, 0, 0, 0x90, 0, 0, 0, 5, 0, 0, 0, 0, 0, 0, 0]"

definition image_ph :: Elf32_Phdr where
  "image_ph =
     \<lparr>p_type = 1, p_offset = 0x120, p_vaddr = 0x81100000, p_filesz = 0x8C, p_memsz = 0x90,
      p_flags = 5\<rparr>"

text \<open>
  The section headers 1 and 2, at offsets \<open>0x7C\<close> and \<open>0xA4\<close> (section header 0 is zero):
  the string table, 23 bytes at offset \<open>0xCC\<close>, and the section named by index 1, \<open>0x34\<close>
  bytes at offset \<open>0xE4\<close>. Then the string table.
\<close>

definition strtab_shdr_bytes :: "u8 list" where
  "strtab_shdr_bytes =
     [0, 0, 0, 0, 3, 0, 0, 0, 0, 0, 0, 0, 0, 0, 0, 0,
      0xCC, 0, 0, 0, 0x17, 0, 0, 0, 0, 0, 0, 0, 0, 0, 0, 0,
      0, 0, 0, 0, 0, 0, 0, 0]"

definition modinfo_shdr_bytes :: "u8 list" where
  "modinfo_shdr_bytes =
     [1, 0, 0, 0, 1, 0, 0, 0, 0, 0, 0, 0, 0, 0, 0, 0,
      0xE4, 0, 0, 0, 0x34, 0, 0, 0, 0, 0, 0, 0, 0, 0, 0, 0,
      0, 0, 0, 0, 0, 0, 0, 0]"

definition strtab_bytes :: "u8 list" where
  "strtab_bytes = 0 # map of_char ''.sceModuleInfo.rodata'' @ [0]"

text \<open>
  The module info at offset \<open>0xE4\<close>: exports at \<open>[0, 0x40)\<close> of the segment, imports at
  \<open>[0x58, 0x8C)\<close>.
\<close>

definition modinfo_bytes :: "u8 list" where
  "modinfo_bytes =
     [0, 0, 0, 0, 0, 0, 0, 0, 0, 0, 0, 0, 0, 0, 0, 0,
      0, 0, 0, 0, 0, 0, 0, 0, 0, 0, 0, 0, 0, 0, 0, 0,
      0, 0, 0, 0, 0, 0, 0, 0, 0x40, 0, 0, 0, 0x58, 0, 0, 0,
      0x8C, 0, 0, 0]"

text \<open>
  The segment, from offset \<open>0x120\<close>. Two export descriptors: the first has attribute 1 and
  one function, the second is tagged module info and has three functions; both name the
  NID table at \<open>0x81100040\<close> and the entry table at \<open>0x8110004C\<close>. Then the two tables: the
  third NID is \<open>0x935CD100 + b\<close>, the entry identifier when \<open>b = 0x96\<close>. Then one import
  descriptor.
\<close>

definition export0_bytes :: "u8 list" where
  "export0_bytes =
     [0x20, 0, 0, 0, 1, 0, 1, 0, 0, 0, 0, 0, 0, 0, 0, 0,
      0, 0, 0, 0, 0, 0, 0, 0, 0x40, 0, 0x10, 0x81, 0x4C, 0, 0x10, 0x81]"

definition export1_bytes :: "u8 list" where
  "export1_bytes =
     [0x20, 0, 0, 0, 0, 0x80, 3, 0, 0, 0, 0, 0, 0, 0, 0, 0,
      0, 0, 0, 0, 0, 0, 0, 0, 0x40, 0, 0x10, 0x81, 0x4C, 0, 0x10, 0x81]"

definition tables_bytes :: "u8 \<Rightarrow> u8 list" where
  "tables_bytes b =
     [0x92, 0xE4, 0xF8, 0x79, 0xA9, 0x82, 0x34, 0x91, b, 0xD1, 0x5C, 0x93,
      0x41, 0, 0x10, 0x81, 0x51, 0, 0x10, 0x81, 0x61, 0, 0x10, 0x81]"

definition import_bytes :: "u8 list" where
  "import_bytes =
     [0x34, 0, 0, 0, 0, 0, 0, 0, 0, 0, 0, 0, 0, 0, 0, 0,
      0, 0, 0, 0, 0x8C, 0, 0x10, 0x81, 0, 0, 0, 0, 0, 0, 0, 0,
      0, 0, 0, 0, 0, 0, 0, 0, 0, 0, 0, 0, 0, 0, 0, 0,
      0, 0, 0, 0]"

text \<open>
  The image written over \<open>m\<close> from \<open>base\<close> on: \<open>0x1AC\<close> zero bytes, then the parts. In
  \<open>image_mem n b\<close> the image is at \<open>0x81000000\<close> and every byte outside it is \<open>0xFF\<close>;
  \<open>image_world n b\<close> is a world with this memory and one block allocated.
\<close>

definition elf_image :: "u8 \<Rightarrow> u8 \<Rightarrow> u32 \<Rightarrow> mem \<Rightarrow> mem" where
  "elf_image n b base m =
     poke (poke (poke (poke (poke (poke (poke (poke (poke (poke (poke m
       base (replicate 0x1AC 0))
       base (ehdr_bytes n))
       (base + 0x34) phdr_bytes)
       (base + 0x7C) strtab_shdr_bytes)
       (base + 0xA4) modinfo_shdr_bytes)
       (base + 0xCC) strtab_bytes)
       (base + 0xE4) modinfo_bytes)
       (base + 0x120) export0_bytes)
       (base + 0x140) export1_bytes)
       (base + 0x160) (tables_bytes b))
       (base + 0x178) import_bytes"

definition image_mem :: "u8 \<Rightarrow> u8 \<Rightarrow> mem" where
  "image_mem n b = elf_image n b 0x81000000 (\<lambda>a. 0xFF)"

definition image_world :: "u8 \<Rightarrow> u8 \<Rightarrow> nat world" where
  "image_world n b = \<lparr>mem = image_mem n b, kern = Suc 0, trace = []\<rparr>"

text \<open>
  The example platform with the modules \<open>demo_mods\<close> and a resolver that returns \<open>r\<close>.
\<close>

definition elf_platform :: "int \<Rightarrow> nat platform" where
  "elf_platform r =
     (demo_platform [] demo_mods)\<lparr>uvl_resolve_imports := (\<lambda>import (m, x). (r, m, x))\<rparr>"

text \<open>
  The worlds of a load of this image: after the reclamation; after the segment loop, with
  the segment copied to \<open>0x81100000\<close> and its last four bytes zeroed; after the import
  loop.
\<close>

definition reclaimed_world :: "u8 \<Rightarrow> u8 \<Rightarrow> nat world" where
  "reclaimed_world n b =
     \<lparr>mem = image_mem n b, kern = Suc 0,
      trace = [GetModuleList, GetModuleInfo 12, GetModuleInfo 10, StopUnloadModule 10,
               GetModuleInfo 11]\<rparr>"

definition loaded_mem :: "u8 \<Rightarrow> mem" where
  "loaded_mem b = memset (memcpy (image_mem 1 b) 0x81100000 0x81000120 0x8C) 0x8110008C 0 4"

definition loaded_world :: "u8 \<Rightarrow> nat world" where
  "loaded_world b =
     \<lparr>mem = loaded_mem b, kern = 2,
      trace = [GetModuleList, GetModuleInfo 12, GetModuleInfo 10, StopUnloadModule 10,
               GetModuleInfo 11, AllocCodeMemBlock ''UVLHomebrew'' 0x100000,
               GetMemBlockBase 2, UnlockMem, LockMem]\<rparr>"

definition resolved_world :: "u8 \<Rightarrow> nat world" where
  "resolved_world b =
     \<lparr>mem = loaded_mem b, kern = 2,
      trace = [GetModuleList, GetModuleInfo 12, GetModuleInfo 10, StopUnloadModule 10,
               GetModuleInfo 11, AllocCodeMemBlock ''UVLHomebrew'' 0x100000,
               GetMemBlockBase 2, UnlockMem, LockMem, ResolveImports 0x81100058]\<rparr>"











section \<open>Facts about the concrete inputs\<close>

lemma std_h_magic:
  "ELFMAG0 std_h = 0x7F" "ELFMAG1 std_h = 0x45" "ELFMAG2 std_h = 0x4C" "ELFMAG3 std_h = 0x46"
  "SCEMAG0 std_h = 0x53" "SCEMAG1 std_h = 0x43" "SCEMAG2 std_h = 0x45" "SCEMAG3 std_h = 0"
  by (simp_all add: std_h_def)

lemma std_h_ident:
  "EI_MAG0 std_h = 0" "EI_MAG1 std_h = 1" "EI_MAG2 std_h = 2" "EI_MAG3 std_h = 3"
  "EI_CLASS std_h = 4" "EI_DATA std_h = 5" "EI_VERSION std_h = 6"
  "ELFCLASS32 std_h = 1" "ELFDATA2LSB std_h = 1" "EV_CURRENT std_h = 1"
  "ET_EXEC std_h = 2" "ET_SCE_EXEC std_h = 0xFE00" "EM_ARM std_h = 40"
  by (simp_all add: std_h_def)

lemma std_h_misc:
  "PSP2_O_RDONLY std_h = 1" "UVL_BIN_MAX_SIZE std_h = 0x2000000" "MAX_LOADED_MODS std_h = 128"
  "PT_LOAD std_h = 1" "PF_X std_h = 1" "ATTR_MOD_INFO std_h = 0x8000" "ENTRY_NID std_h = 0x935CD196"
  "SCEHDR_LEN std_h = 0x1000" "UVL_SEC_MODINFO std_h = ''.sceModuleInfo.rodata''"
  by (simp_all add: std_h_def)

lemma std_h_layout:
  "ehdr_at std_h = std_ehdr_at" "phdr_at std_h = std_phdr_at" "shdr_at std_h = std_shdr_at"
  "modinfo_at std_h = std_modinfo_at" "import_at std_h = std_import_at"
  "export_at std_h = std_export_at" "memstr std_h = std_memstr"
  "sizeof_Elf32_Phdr std_h = 32" "sizeof_Elf32_Shdr std_h = 40"
  "sizeof_module_imports std_h = 0x34" "sizeof_module_exports std_h = 0x20"
  by (simp_all add: std_h_def)

lemma demo_platform_io:
  "sceIoOpen (demo_platform bs ms) f a b x = (3, x)"
  "sceIoRead (demo_platform bs ms) fd base n (m, x) =
     (int (length (take (unat n) bs)), poke m base (take (unat n) bs), x)"
  "sceIoClose (demo_platform bs ms) fd x = (0, x)"
  by (simp_all add: demo_platform_def)

lemma demo_platform_blocks:
  "sceKernelAllocMemBlock (demo_platform bs ms) name ty n x = (int (Suc x), Suc x)"
  "sceKernelAllocCodeMemBlock (demo_platform bs ms) name n x = (int (Suc x), Suc x)"
  "sceKernelGetMemBlockBase (demo_platform bs ms) uid x =
     ((0, 0x81000000 + 0x100000 * (word_of_int uid - 1)), x)"
  "sceKernelFindMemBlockByAddr (demo_platform bs ms) a fl x = (1, x)"
  "sceKernelFreeMemBlock (demo_platform bs ms) uid x = (0, x)"
  "psvUnlockMem (demo_platform bs ms) x = x"
  "psvLockMem (demo_platform bs ms) x = x"
  by (simp_all add: demo_platform_def)


lemma demo_load_file:
  "length bs \<le> 33554432 \<Longrightarrow>
   uvl_load_file std_h (demo_platform bs ms) filename demo_world =
     (Inr (0x81000000, int (length bs)),
      \<lparr>mem = poke (\<lambda>a. 0) 0x81000000 bs, kern = Suc 0,
       trace = [IoOpen filename, AllocMemBlock ''UVLTemp'' 0xC20D060 0x2000000,
                GetMemBlockBase 1, IoRead 3 0x81000000 0x2000000, IoClose 3]\<rparr>)"
  by (simp add: uvl_load_file_def sys_def sysm_def demo_platform_io demo_platform_blocks
      std_h_misc demo_world_def)

lemma demo_free_data:
  "uvl_free_data (demo_platform bs ms) a w =
     (Inr (), w\<lparr>trace := trace w @ [FindMemBlockByAddr a, FreeMemBlock 1]\<rparr>)"
  by (simp add: uvl_free_data_def sys_def demo_platform_blocks)


section \<open>Reading the example image\<close>

text \<open>
  What \<open>poke\<close> leaves at an address, and with it one equation for the bytes of the
  example image; then the fields the loader reads from it.
\<close>

lemma poke_read:
  "length bs \<le> 2 ^ 32 \<Longrightarrow>
   poke m base bs a = (if unat (a - base) < length bs then bs ! unat (a - base) else m a)"
proof (induction bs arbitrary: m base)
  case Nil
  show ?case by simp
next
  case (Cons x xs)
  have len: "length xs \<le> 2 ^ 32" "length xs < 2 ^ 32" using Cons.prems by simp_all
  show ?case
  proof (cases "a = base")
    case True
    have "a - (base + 1) = (- 1 :: u32)" using True by simp
    then have "unat (a - (base + 1)) = 2 ^ 32 - 1"
      by (simp only: unsigned_minus_1_eq_mask mask_eq_exp_minus_1) simp
    then have u: "\<not> unat (a - (base + 1)) < length xs" using len by simp
    have "poke m base (x # xs) a = (m(base := x)) a"
      using Cons.IH [OF len(1), of "m(base := x)" "base + 1"] u
      by (simp only: poke.simps if_False)
    also have "\<dots> = x" using True by simp
    finally show ?thesis using True by simp
  next
    case False
    then have nz: "unat (a - base) \<noteq> 0" by (simp add: unat_eq_0)
    have e: "a - (base + 1) = (a - base) - 1" by simp
    have "a - base \<noteq> 0" using False by simp
    then have "unat ((a - base) - 1) = unat (a - base) - 1" by (rule unat_minus_one)
    then have u: "unat (a - (base + 1)) = unat (a - base) - 1" by (simp only: e)
    obtain k where k: "unat (a - base) = Suc k" using nz by (cases "unat (a - base)") auto
    have u': "unat (a - (base + 1)) = k" using u k by simp
    have ih: "poke (m(base := x)) (base + 1) xs a =
        (if k < length xs then xs ! k else (m(base := x)) a)"
      using Cons.IH [OF len(1), of "m(base := x)" "base + 1"] by (simp only: u')
    have o: "(m(base := x)) a = m a" using False by simp
    show ?thesis by (simp only: poke.simps ih o k) simp
  qed
qed

lemma poke_zeros_read:
  "k \<le> 2 ^ 32 \<Longrightarrow> poke m base (replicate k 0) a = (if unat (a - base) < k then 0 else m a)"
  by (simp add: poke_read)

lemma image_lengths:
  "length (ehdr_bytes n) = 52" "length phdr_bytes = 32" "length strtab_shdr_bytes = 40"
  "length modinfo_shdr_bytes = 40" "length strtab_bytes = 23" "length modinfo_bytes = 52"
  "length export0_bytes = 32" "length export1_bytes = 32" "length (tables_bytes b) = 24"
  "length import_bytes = 52"
  by (simp_all add: ehdr_bytes_def phdr_bytes_def strtab_shdr_bytes_def modinfo_shdr_bytes_def
      strtab_bytes_def modinfo_bytes_def export0_bytes_def export1_bytes_def tables_bytes_def
      import_bytes_def)

lemma elf_image_read:
  "elf_image n b base m a =
    (if unat (a - (base + 0x178)) < 52 then import_bytes ! unat (a - (base + 0x178))
     else if unat (a - (base + 0x160)) < 24 then tables_bytes b ! unat (a - (base + 0x160))
     else if unat (a - (base + 0x140)) < 32 then export1_bytes ! unat (a - (base + 0x140))
     else if unat (a - (base + 0x120)) < 32 then export0_bytes ! unat (a - (base + 0x120))
     else if unat (a - (base + 0xE4)) < 52 then modinfo_bytes ! unat (a - (base + 0xE4))
     else if unat (a - (base + 0xCC)) < 23 then strtab_bytes ! unat (a - (base + 0xCC))
     else if unat (a - (base + 0xA4)) < 40 then modinfo_shdr_bytes ! unat (a - (base + 0xA4))
     else if unat (a - (base + 0x7C)) < 40 then strtab_shdr_bytes ! unat (a - (base + 0x7C))
     else if unat (a - (base + 0x34)) < 32 then phdr_bytes ! unat (a - (base + 0x34))
     else if unat (a - base) < 52 then ehdr_bytes n ! unat (a - base)
     else if unat (a - base) < 0x1AC then 0 else m a)"
  unfolding elf_image_def
  by (simp add: poke_read poke_zeros_read image_lengths cong: if_cong)

lemmas image_bytes = ehdr_bytes_def phdr_bytes_def strtab_shdr_bytes_def modinfo_shdr_bytes_def
  strtab_bytes_def modinfo_bytes_def export0_bytes_def export1_bytes_def tables_bytes_def
  import_bytes_def

lemma image_mem_read:
  "image_mem n b a =
    (if unat (a - 0x81000178) < 52 then import_bytes ! unat (a - 0x81000178)
     else if unat (a - 0x81000160) < 24 then tables_bytes b ! unat (a - 0x81000160)
     else if unat (a - 0x81000140) < 32 then export1_bytes ! unat (a - 0x81000140)
     else if unat (a - 0x81000120) < 32 then export0_bytes ! unat (a - 0x81000120)
     else if unat (a - 0x810000E4) < 52 then modinfo_bytes ! unat (a - 0x810000E4)
     else if unat (a - 0x810000CC) < 23 then strtab_bytes ! unat (a - 0x810000CC)
     else if unat (a - 0x810000A4) < 40 then modinfo_shdr_bytes ! unat (a - 0x810000A4)
     else if unat (a - 0x8100007C) < 40 then strtab_shdr_bytes ! unat (a - 0x8100007C)
     else if unat (a - 0x81000034) < 32 then phdr_bytes ! unat (a - 0x81000034)
     else if unat (a - 0x81000000) < 52 then ehdr_bytes n ! unat (a - 0x81000000)
     else if unat (a - 0x81000000) < 0x1AC then 0 else 0xFF)"
  unfolding image_mem_def elf_image_read by simp

lemma unat_minus_1_u32: "unat (- 1 :: u32) = 4294967295"
  by (simp only: unsigned_minus_1_eq_mask mask_eq_exp_minus_1) simp

lemmas image_eval = image_mem_read image_bytes load16_def load32_def unat_minus_1_u32

lemma std_ehdr_sel:
  "e_ident (std_ehdr_at m a) k = (if k < 16 then m (a + of_nat k) else 0)"
  "e_type (std_ehdr_at m a) = load16 m (a + 16)"
  "e_machine (std_ehdr_at m a) = load16 m (a + 18)"
  "e_version (std_ehdr_at m a) = load32 m (a + 20)"
  "e_phoff (std_ehdr_at m a) = load32 m (a + 28)"
  "e_shoff (std_ehdr_at m a) = load32 m (a + 32)"
  "e_phnum (std_ehdr_at m a) = load16 m (a + 44)"
  "e_shentsize (std_ehdr_at m a) = load16 m (a + 46)"
  "e_shnum (std_ehdr_at m a) = load16 m (a + 48)"
  "e_shstrndx (std_ehdr_at m a) = load16 m (a + 50)"
  by (simp_all add: std_ehdr_at_def)

lemma std_phdr_sel:
  "p_type (std_phdr_at m a) = load32 m a"
  "p_offset (std_phdr_at m a) = load32 m (a + 4)"
  "p_vaddr (std_phdr_at m a) = load32 m (a + 8)"
  "p_filesz (std_phdr_at m a) = load32 m (a + 16)"
  "p_memsz (std_phdr_at m a) = load32 m (a + 20)"
  "p_flags (std_phdr_at m a) = load32 m (a + 24)"
  by (simp_all add: std_phdr_at_def)

lemma std_import_sel:
  "lib_name (std_import_at m a) = load32 m (a + 20)"
  by (simp add: std_import_at_def)

lemma std_modinfo_sel:
  "ent_top (std_modinfo_at m a) = load32 m (a + 36)"
  "ent_end (std_modinfo_at m a) = load32 m (a + 40)"
  "stub_top (std_modinfo_at m a) = load32 m (a + 44)"
  "stub_end (std_modinfo_at m a) = load32 m (a + 48)"
  by (simp_all add: std_modinfo_at_def)

lemma std_export_sel:
  "attribute (std_export_at m a) = load16 m (a + 4)"
  "ex_num_functions (std_export_at m a) = load16 m (a + 6)"
  "nid_table (std_export_at m a) = load32 m (a + 24)"
  "entry_table (std_export_at m a) = load32 m (a + 28)"
  by (simp_all add: std_export_at_def)

lemma image_header:
  "e_type (std_ehdr_at (image_mem n b) 0x81000000) = 2"
  "e_machine (std_ehdr_at (image_mem n b) 0x81000000) = 40"
  "e_version (std_ehdr_at (image_mem n b) 0x81000000) = 1"
  "e_phoff (std_ehdr_at (image_mem n b) 0x81000000) = 0x34"
  "e_shoff (std_ehdr_at (image_mem n b) 0x81000000) = 0x54"
  "e_phnum (std_ehdr_at (image_mem n b) 0x81000000) = ucast n"
  "e_shentsize (std_ehdr_at (image_mem n b) 0x81000000) = 40"
  "e_shnum (std_ehdr_at (image_mem n b) 0x81000000) = 3"
  "e_shstrndx (std_ehdr_at (image_mem n b) 0x81000000) = 1"
  by (simp_all add: std_ehdr_sel image_eval)

lemma image_ident:
  "e_ident (std_ehdr_at (image_mem n b) 0x81000000) 0 = 0x7F"
  "e_ident (std_ehdr_at (image_mem n b) 0x81000000) (Suc 0) = 0x45"
  "e_ident (std_ehdr_at (image_mem n b) 0x81000000) 2 = 0x4C"
  "e_ident (std_ehdr_at (image_mem n b) 0x81000000) 3 = 0x46"
  "e_ident (std_ehdr_at (image_mem n b) 0x81000000) 4 = 1"
  "e_ident (std_ehdr_at (image_mem n b) 0x81000000) 5 = 1"
  "e_ident (std_ehdr_at (image_mem n b) 0x81000000) 6 = 1"
  by (simp_all add: std_ehdr_sel image_eval)

lemma image_valid:
  "uvl_elf_check_header std_h (std_ehdr_at (image_mem n b) 0x81000000) = Inr ()"
  by (simp add: uvl_elf_check_header_def std_h_ident std_h_magic image_header image_ident)

lemma image_sections:
  "std_shdr_at (image_mem n b) 0x81000054 = \<lparr>sh_name = 0, sh_offset = 0, sh_size = 0\<rparr>"
  "std_shdr_at (image_mem n b) 0x8100007C = \<lparr>sh_name = 0, sh_offset = 0xCC, sh_size = 23\<rparr>"
  "std_shdr_at (image_mem n b) 0x810000A4 = \<lparr>sh_name = 1, sh_offset = 0xE4, sh_size = 0x34\<rparr>"
  by (simp_all add: std_shdr_at_def image_eval)

lemma image_strings:
  "map (\<lambda>k. image_mem n b (0x810000CC + of_nat k)) [0..<21] \<noteq> map of_char ''.sceModuleInfo.rodata''"
  "map (\<lambda>k. image_mem n b (0x810000CD + of_nat k)) [0..<21] = map of_char ''.sceModuleInfo.rodata''"
proof -
  have u: "[0..<21] = [0,1,2,3,4,5,6,7,8,9,10,11,12,13,14,15,16,17,18,19,20::nat]"
    by (simp add: upt_rec)
  show "map (\<lambda>k. image_mem n b (0x810000CC + of_nat k)) [0..<21] \<noteq> map of_char ''.sceModuleInfo.rodata''"
    unfolding u by (simp add: image_eval)
  show "map (\<lambda>k. image_mem n b (0x810000CD + of_nat k)) [0..<21] = map of_char ''.sceModuleInfo.rodata''"
    unfolding u by (simp add: image_eval)
qed

lemma image_memstr:
  "std_memstr (image_mem n b) 0x810000CC 23 ''.sceModuleInfo.rodata'' = 0x810000CD"
proof -
  have k: "unat (23 :: u32) = Suc (Suc 21)" by simp
  have l: "length ''.sceModuleInfo.rodata'' = 21" by simp
  show ?thesis
    unfolding std_memstr_def k std_memstr_from.simps l
    using image_strings by simp
qed

lemma image_walk:
  "find_modinfo_section std_h (image_mem n b) 0x81000000 0x54 1 0 3 = Inr 0x810000E4"
  by (simp add: numeral_3_eq_3 std_h_layout image_sections)

lemma image_module_info:
  "uvl_elf_get_module_info std_h (image_mem n b) 0x81000000 0x81000000 = Inr 0x810000E4"
  unfolding uvl_elf_get_module_info_def std_h_layout std_h_misc
  by (simp add: image_header image_sections image_memstr image_walk)


section \<open>Rounding the segment length\<close>

lemma and_not_mask20: "(x::u32) AND NOT 0xFFFFF = push_bit 20 (drop_bit 20 x)"
proof -
  have "(0xFFFFF::u32) = mask 20" by (simp add: mask_eq_exp_minus_1)
  then show ?thesis
    by (simp add: bit_eq_iff bit_simps) (auto simp: bit_simps)
qed

lemma unat_and_not_mask20: "unat ((x::u32) AND NOT 0xFFFFF) = (unat x div 2 ^ 20) * 2 ^ 20"
proof -
  have "(unat x div 2 ^ 20) * 2 ^ 20 \<le> unat x" by simp
  also have "unat x < 2 ^ 32" using unsigned_less [of x] by simp
  finally have lt: "(unat x div 2 ^ 20) * 2 ^ 20 < 2 ^ 32" .
  have "unat (push_bit 20 (drop_bit 20 x)) = take_bit 32 (push_bit 20 (drop_bit 20 (unat x)))"
    by (simp add: unsigned_push_bit_eq unat_drop_bit_eq)
  also have "\<dots> = (unat x div 2 ^ 20) * 2 ^ 20"
    using lt by (simp add: take_bit_nat_eq_self drop_bit_eq_div push_bit_eq_mult)
  finally show ?thesis
    by (simp only: and_not_mask20)
qed

lemma round_up_ge: "0 < d \<Longrightarrow> (n::nat) \<le> ((n + (d - 1)) div d) * d"
proof -
  assume d: "0 < d"
  have "(n + (d - 1)) mod d \<le> d - 1" using d
    by (metis Suc_pred' less_Suc_eq_le mod_less_divisor)
  moreover have "((n + (d - 1)) div d) * d + (n + (d - 1)) mod d = n + (d - 1)"
    by simp
  ultimately show ?thesis by linarith
qed

lemma round_up_least:
  "0 < d \<Longrightarrow> d dvd k \<Longrightarrow> (n::nat) \<le> k \<Longrightarrow> ((n + (d - 1)) div d) * d \<le> k"
proof -
  assume d: "0 < d" and dv: "d dvd k" and le: "n \<le> k"
  from dv obtain j where k: "k = d * j" by (auto simp: dvd_def)
  have "n + (d - 1) < d * (j + 1)" using le k d by simp
  then have "(n + (d - 1)) div d < j + 1"
    using d by (simp add: less_mult_imp_div_less mult.commute)
  then have "(n + (d - 1)) div d \<le> j" by simp
  then have "((n + (d - 1)) div d) * d \<le> j * d" by (rule mult_le_mono1)
  then show ?thesis unfolding k by (simp only: mult.commute)
qed

lemma unat_seg_length:
  "unat (seg_length m) = (unat (m + 0xFFFFF) div 2 ^ 20) * 2 ^ 20"
  unfolding seg_length_def by (rule unat_and_not_mask20)

lemma unat_plus_no_wrap:
  "unat m \<le> 4293918720 \<Longrightarrow> unat ((m::u32) + 0xFFFFF) = unat m + (2 ^ 20 - 1)"
  by (simp add: unat_word_ariths)

lemma unat_plus_wrap:
  "4293918720 < unat m \<Longrightarrow> unat ((m::u32) + 0xFFFFF) < 2 ^ 20"
proof -
  assume a: "4293918720 < unat m"
  have lt: "unat m < 4294967296" using unsigned_less [of m] by simp
  have "unat (m + 0xFFFFF) = (unat m + 1048575) mod 4294967296"
    by (simp add: unat_word_ariths)
  also have "\<dots> = unat m + 1048575 - 4294967296"
    using a lt by (simp add: mod_if)
  finally show ?thesis using lt by simp
qed

lemma load_segment_first_call:
  assumes "phdr_at H (mem w) (prog_hdrs + i * sizeof_Elf32_Phdr H) = ph"
    and "unat (p_type ph) = PT_LOAD H" and "p_vaddr ph \<noteq> 0"
  shows "take (Suc (length (trace w))) (trace (snd (load_segment H P data prog_hdrs i w))) =
     trace w @
       [if p_flags ph AND 1 \<noteq> 0 then AllocCodeMemBlock ''UVLHomebrew'' (seg_length (p_memsz ph))
        else AllocMemBlock ''UVLHomebrew'' 0xC20D060 (seg_length (p_memsz ph))]"
  using assms
  by (auto simp: load_segment_def sys_def sys0_def Let_def split: prod.splits)

text \<open>
  C8, as the code has it. The claim reads: for every 32-bit memory size \<open>m\<close>, the length
  is the smallest multiple of \<open>2^20\<close> that is at least \<open>m\<close>. The sum
  \<^verbatim>\<open>length + 0xFFFFF\<close> is a \<^verbatim>\<open>u32_t\<close>: it wraps for \<open>m\<close> above \<open>2^32 - 2^20\<close>, where no
  32-bit multiple of \<open>2^20\<close> is large enough, and the length is then \<open>0\<close>.
\<close>

theorem seg_length_wraps_counterexample:
  "\<not> unat (0xFFF00001 :: u32) \<le> unat (seg_length 0xFFF00001)"
  by (simp add: seg_length_def)

text \<open>
  C8, amended: for every memory size \<open>m\<close> of at most \<open>2^32 - 2^20 = 4293918720\<close> the
  length is a multiple of \<open>2^20\<close>, is at least \<open>m\<close>, and is the least such number; for
  every larger \<open>m\<close> the length is \<open>0\<close>. For a loadable entry, the first call of its load
  step is the allocation, and the length it passes is the length so computed from the
  entry's memory size.
\<close>

theorem seg_length_rounds_up:
  "(unat m \<le> 4293918720 \<longrightarrow>
      2 ^ 20 dvd unat (seg_length m) \<and> unat m \<le> unat (seg_length m) \<and>
      (\<forall>k. 2 ^ 20 dvd k \<and> unat m \<le> k \<longrightarrow> unat (seg_length m) \<le> k)) \<and>
   (4293918720 < unat m \<longrightarrow> seg_length m = 0) \<and>
   (phdr_at H (mem w) (prog_hdrs + i * sizeof_Elf32_Phdr H) = ph \<and>
    unat (p_type ph) = PT_LOAD H \<and> p_vaddr ph \<noteq> 0 \<longrightarrow>
      take (Suc (length (trace w))) (trace (snd (load_segment H P data prog_hdrs i w))) =
        trace w @
          [if p_flags ph AND 1 \<noteq> 0
           then AllocCodeMemBlock ''UVLHomebrew'' (seg_length (p_memsz ph))
           else AllocMemBlock ''UVLHomebrew'' 0xC20D060 (seg_length (p_memsz ph))])"
proof -
  have a: "2 ^ 20 dvd unat (seg_length m)"
    by (simp only: unat_seg_length dvd_triv_right)
  have b: "unat m \<le> 4293918720 \<Longrightarrow> unat m \<le> unat (seg_length m)"
    using round_up_ge [of "2 ^ 20" "unat m"]
    by (simp only: unat_seg_length unat_plus_no_wrap) simp
  have c: "unat m \<le> 4293918720 \<Longrightarrow> 2 ^ 20 dvd k \<Longrightarrow> unat m \<le> k \<Longrightarrow>
      unat (seg_length m) \<le> k" for k
    using round_up_least [of "2 ^ 20" k "unat m"]
    by (simp only: unat_seg_length unat_plus_no_wrap) simp
  have d: "4293918720 < unat m \<Longrightarrow> seg_length m = 0"
    using unat_plus_wrap [of m]
    by (simp add: unat_eq_0 [symmetric] unat_seg_length del: unat_eq_0)
  have e: "take (Suc (length (trace w))) (trace (snd (load_segment H P data prog_hdrs i w))) =
        trace w @
          [if p_flags ph AND 1 \<noteq> 0
           then AllocCodeMemBlock ''UVLHomebrew'' (seg_length (p_memsz ph))
           else AllocMemBlock ''UVLHomebrew'' 0xC20D060 (seg_length (p_memsz ph))]"
    if "phdr_at H (mem w) (prog_hdrs + i * sizeof_Elf32_Phdr H) = ph"
      "unat (p_type ph) = PT_LOAD H" "p_vaddr ph \<noteq> 0"
    using that by (rule load_segment_first_call)
  from a b c d e show ?thesis
    by blast
qed

section \<open>The relocator is not its own inverse\<close>

subsection \<open>Loads, stores and regions\<close>

lemma load32_store32_same: "load32 (store32 m a v) a = v"
proof -
  have d: "a + 1 \<noteq> a" "a + 2 \<noteq> a" "a + 3 \<noteq> a" "a + 2 \<noteq> a + 1" "a + 3 \<noteq> a + 1" "a + 3 \<noteq> a + 2"
    by simp_all
  have "load32 (store32 m a v) a =
      ucast (ucast v :: u8) OR push_bit 8 (ucast (ucast (drop_bit 8 v) :: u8)) OR
      push_bit 16 (ucast (ucast (drop_bit 16 v) :: u8)) OR
      push_bit 24 (ucast (ucast (drop_bit 24 v) :: u8))"
    using d by (simp add: load32_def store32_def)
  also have "\<dots> = v"
  proof (rule bit_word_eqI)
    fix n :: nat
    assume "n < LENGTH(32)"
    then consider "n < 8" | "8 \<le> n" "n < 16" | "16 \<le> n" "n < 24" | "24 \<le> n" "n < 32"
      by fastforce
    then show "bit (ucast (ucast v :: u8) OR push_bit 8 (ucast (ucast (drop_bit 8 v) :: u8)) OR
      push_bit 16 (ucast (ucast (drop_bit 16 v) :: u8)) OR
      push_bit 24 (ucast (ucast (drop_bit 24 v) :: u8)) :: u32) n = bit v n"
      by cases (auto simp: bit_simps)
  qed
  finally show ?thesis .
qed

lemma store32_frame: "x \<notin> region a 4 \<Longrightarrow> store32 m a v x = m x"
proof -
  assume x: "x \<notin> region a 4"
  have "a \<in> region a 4" "a + 1 \<in> region a 4" "a + 2 \<in> region a 4" "a + 3 \<in> region a 4"
    by (simp_all add: region_def)
  then have "x \<noteq> a" "x \<noteq> a + 1" "x \<noteq> a + 2" "x \<noteq> a + 3"
    using x by auto
  then show ?thesis by (simp add: store32_def)
qed

lemma load32_cong: "(\<And>x. x \<in> region a 4 \<Longrightarrow> m' x = m x) \<Longrightarrow> load32 m' a = load32 m a"
proof -
  assume s: "\<And>x. x \<in> region a 4 \<Longrightarrow> m' x = m x"
  have "a \<in> region a 4" "a + 1 \<in> region a 4" "a + 2 \<in> region a 4" "a + 3 \<in> region a 4"
    by (simp_all add: region_def)
  then show ?thesis by (simp add: load32_def s)
qed

lemma load16_cong: "(\<And>x. x \<in> region a 2 \<Longrightarrow> m' x = m x) \<Longrightarrow> load16 m' a = load16 m a"
proof -
  assume s: "\<And>x. x \<in> region a 2 \<Longrightarrow> m' x = m x"
  have "a \<in> region a 2" "a + 1 \<in> region a 2"
    by (simp_all add: region_def)
  then show ?thesis by (simp add: load16_def s)
qed

lemma region_offset:
  assumes "off + len \<le> 2 ^ 32"
  shows "x \<in> region (a + of_nat off) len \<longleftrightarrow> off \<le> unat (x - a) \<and> unat (x - a) < off + len"
proof
  assume "x \<in> region (a + of_nat off) len"
  then have d: "unat (x - (a + of_nat off)) < len" by (simp add: region_def)
  let ?d = "unat (x - (a + of_nat off))"
  have "x - a = of_nat (?d + off)" by simp
  then have "unat (x - a) = (?d + off) mod 2 ^ 32"
    by (simp only: unat_of_nat) simp
  moreover have "?d + off < 2 ^ 32" using d assms by simp
  ultimately have "unat (x - a) = ?d + off" by simp
  then show "off \<le> unat (x - a) \<and> unat (x - a) < off + len" using d by simp
next
  assume u: "off \<le> unat (x - a) \<and> unat (x - a) < off + len"
  let ?u = "unat (x - a)"
  have "x - (a + of_nat off) = of_nat ?u - of_nat off" by simp
  also have "\<dots> = of_nat (?u - off)" using u by (simp add: of_nat_diff)
  finally have "unat (x - (a + of_nat off)) = (?u - off) mod 2 ^ 32"
    by (simp only: unat_of_nat) simp
  moreover have "?u < 2 ^ 32" using unsigned_less [of "x - a"] by simp
  then have "?u - off < 2 ^ 32" by simp
  ultimately have "unat (x - (a + of_nat off)) = ?u - off" by simp
  moreover have "?u - off < len" using u by arith
  ultimately show "x \<in> region (a + of_nat off) len" by (simp add: region_def)
qed

subsection \<open>One loop, the three loops, one call\<close>

lemma slot_iff:
  "j < 65536 \<Longrightarrow>
   x \<in> region (T + 4 * of_nat j) 4 \<longleftrightarrow> 4 * j \<le> unat (x - T) \<and> unat (x - T) < 4 * j + 4"
  using region_offset [of "4 * j" 4 x T] by simp

lemma rest_iff:
  "i \<le> n \<Longrightarrow> n < 65536 \<Longrightarrow>
   x \<in> region (T + 4 * of_nat i) (4 * (n - i)) \<longleftrightarrow> 4 * i \<le> unat (x - T) \<and> unat (x - T) < 4 * n"
  using region_offset [of "4 * i" "4 * (n - i)" x T] by (simp add: algebra_simps)

lemma add32_frame: "x \<notin> region a 4 \<Longrightarrow> add32 m a k x = m x"
  by (simp add: add32_def store32_frame)

lemma add32_same: "load32 (add32 m a k) a = load32 m a + k"
  by (simp add: add32_def load32_store32_same)

lemma offset_entries_from:
  assumes "load32 m tbl = T" and "unat (load16 m cnt) = n" and "i \<le> n"
    and "region tbl 4 \<inter> region T (4 * n) = {}" and "region cnt 2 \<inter> region T (4 * n) = {}"
  shows "(\<forall>x. x \<notin> region (T + 4 * of_nat i) (4 * (n - i)) \<longrightarrow>
            offset_entries m cnt tbl k i x = m x) \<and>
         (\<forall>j. i \<le> j \<and> j < n \<longrightarrow>
            load32 (offset_entries m cnt tbl k i) (T + 4 * of_nat j)
              = load32 m (T + 4 * of_nat j) + k)"
  using assms
proof (induction "n - i" arbitrary: i m)
  case 0
  then have "i = n" by simp
  then have "offset_entries m cnt tbl k i = m"
    using "0.prems"(2) by (subst offset_entries.simps) simp
  then show ?case using \<open>i = n\<close> by auto
next
  case (Suc d)
  have "unat (load16 m cnt) < 65536"
    using unsigned_less [of "load16 m cnt"] by simp
  then have n: "n < 65536"
    using Suc.prems(2) by simp
  have lt: "i < n" using Suc.hyps(2) by simp
  let ?a = "T + 4 * of_nat i"
  let ?m1 = "add32 m ?a k"
  let ?r = "offset_entries ?m1 cnt tbl k (Suc i)"
  have unfold: "offset_entries m cnt tbl k i = ?r"
    using lt Suc.prems(1,2) by (subst offset_entries.simps) simp
  have slot_in: "x \<in> region T (4 * n)" if "x \<in> region ?a 4" for x
    using that lt n slot_iff [of i x T] by (simp add: region_def)
  have c1: "load32 ?m1 tbl = T"
  proof -
    have "?m1 x = m x" if "x \<in> region tbl 4" for x
      using that slot_in [of x] Suc.prems(4) by (intro add32_frame) auto
    then have "load32 ?m1 tbl = load32 m tbl" by (rule load32_cong)
    then show ?thesis using Suc.prems(1) by simp
  qed
  have c2: "unat (load16 ?m1 cnt) = n"
  proof -
    have "?m1 x = m x" if "x \<in> region cnt 2" for x
      using that slot_in [of x] Suc.prems(5) by (intro add32_frame) auto
    then have "load16 ?m1 cnt = load16 m cnt" by (rule load16_cong)
    then show ?thesis using Suc.prems(2) by simp
  qed
  have ih: "(\<forall>x. x \<notin> region (T + 4 * of_nat (Suc i)) (4 * (n - Suc i)) \<longrightarrow> ?r x = ?m1 x) \<and>
         (\<forall>j. Suc i \<le> j \<and> j < n \<longrightarrow>
            load32 ?r (T + 4 * of_nat j) = load32 ?m1 (T + 4 * of_nat j) + k)"
    using Suc.hyps(2) lt c1 c2 Suc.prems(4,5) by (intro Suc.hyps(1)) simp_all
  have frame: "?r x = m x" if "x \<notin> region ?a (4 * (n - i))" for x
  proof -
    have a: "x \<notin> region (T + 4 * of_nat (Suc i)) (4 * (n - Suc i))"
      using that lt n rest_iff [of i n x T] rest_iff [of "Suc i" n x T] by auto
    have b: "x \<notin> region ?a 4"
      using that lt n rest_iff [of i n x T] slot_iff [of i x T] by auto
    show ?thesis using ih a b by (simp add: add32_frame)
  qed
  have here: "load32 ?r ?a = load32 m ?a + k"
  proof -
    have "?r x = ?m1 x" if "x \<in> region ?a 4" for x
    proof -
      have "x \<notin> region (T + 4 * of_nat (Suc i)) (4 * (n - Suc i))"
        using that lt n slot_iff [of i x T] rest_iff [of "Suc i" n x T] by auto
      then show ?thesis using ih by simp
    qed
    then have "load32 ?r ?a = load32 ?m1 ?a" by (rule load32_cong)
    then show ?thesis by (simp add: add32_same)
  qed
  have later: "load32 ?r (T + 4 * of_nat j) = load32 m (T + 4 * of_nat j) + k"
    if "Suc i \<le> j" "j < n" for j
  proof -
    have "?m1 x = m x" if "x \<in> region (T + 4 * of_nat j) 4" for x
    proof -
      have "x \<notin> region ?a 4"
        using that \<open>Suc i \<le> j\<close> \<open>j < n\<close> n slot_iff [of i x T] slot_iff [of j x T] by auto
      then show ?thesis by (rule add32_frame)
    qed
    then have "load32 ?m1 (T + 4 * of_nat j) = load32 m (T + 4 * of_nat j)"
      by (rule load32_cong)
    then show ?thesis using ih that by simp
  qed
  show ?case
  proof (intro conjI allI impI)
    fix x assume "x \<notin> region ?a (4 * (n - i))"
    then show "offset_entries m cnt tbl k i x = m x"
      unfolding unfold by (rule frame)
  next
    fix j assume j: "i \<le> j \<and> j < n"
    show "load32 (offset_entries m cnt tbl k i) (T + 4 * of_nat j) = load32 m (T + 4 * of_nat j) + k"
    proof (cases "j = i")
      case True
      then show ?thesis unfolding unfold using here by simp
    next
      case False
      then have "Suc i \<le> j" using j by simp
      then show ?thesis unfolding unfold using later j by simp
    qed
  qed
qed

lemma region_disjoint:
  assumes "la \<le> unat (b - a)" and "lb \<le> unat (a - b)"
  shows "region a la \<inter> region b lb = {}"
proof -
  have False if xa: "unat (x - a) < la" and xb: "unat (x - b) < lb" for x
  proof (cases "unat (x - b) \<le> unat (x - a)")
    case True
    have e: "(x - a) - (x - b) = b - a" by simp
    have "x - b \<le> x - a" using True by (simp add: word_le_nat_alt)
    then have "unat ((x - a) - (x - b)) = unat (x - a) - unat (x - b)" by (rule unat_sub)
    then have "unat (b - a) = unat (x - a) - unat (x - b)" by (simp only: e)
    then show False using xa assms(1) by simp
  next
    case False
    have e: "(x - b) - (x - a) = a - b" by simp
    have "x - a \<le> x - b" using False by (simp add: word_le_nat_alt)
    then have "unat ((x - b) - (x - a)) = unat (x - b) - unat (x - a)" by (rule unat_sub)
    then have "unat (a - b) = unat (x - b) - unat (x - a)" by (simp only: e)
    then show False using xb assms(2) by simp
  qed
  then show ?thesis by (auto simp: region_def)
qed

lemma region_empty: "region a 0 = {}"
  by (simp add: region_def)

lemma load32_add32_other:
  "4 \<le> unat (b - a) \<Longrightarrow> 4 \<le> unat (a - b) \<Longrightarrow> load32 (add32 m a v) b = load32 m b"
proof -
  assume "4 \<le> unat (b - a)" "4 \<le> unat (a - b)"
  then have "region b 4 \<inter> region a 4 = {}" by (intro region_disjoint)
  then have "add32 m a v x = m x" if "x \<in> region b 4" for x
    using that by (intro add32_frame) auto
  then show ?thesis by (rule load32_cong)
qed

lemma load16_add32_other:
  "4 \<le> unat (c - a) \<Longrightarrow> 2 \<le> unat (a - c) \<Longrightarrow> load16 (add32 m a v) c = load16 m c"
proof -
  assume "4 \<le> unat (c - a)" "2 \<le> unat (a - c)"
  then have "region c 2 \<inter> region a 4 = {}" by (intro region_disjoint)
  then have "add32 m a v x = m x" if "x \<in> region c 2" for x
    using that by (intro add32_frame) auto
  then show ?thesis by (rule load16_cong)
qed

lemma uvl_offset_import_phases:
  "uvl_offset_import L m import k =
     offset_tables (shift_fields m (pointer_fields L import) k) (entry_tables L import) k"
  by (simp add: uvl_offset_import_def pointer_fields_def entry_tables_def Let_def)

lemma disjoint_all_append:
  "disjoint_all (xs @ ys) \<longleftrightarrow>
     disjoint_all xs \<and> disjoint_all ys \<and> (\<forall>x\<in>set xs. \<forall>y\<in>set ys. x \<inter> y = {})"
  by (induction xs) auto

lemma shift_fields_frame:
  "(\<And>a. a \<in> set as \<Longrightarrow> x \<notin> region a 4) \<Longrightarrow> shift_fields m as k x = m x"
  by (induction as arbitrary: m) (simp_all add: add32_frame)

lemma shift_fields_at:
  "disjoint_all (map (\<lambda>a. region a 4) as) \<Longrightarrow> a \<in> set as \<Longrightarrow>
   load32 (shift_fields m as k) a = load32 m a + k"
proof (induction as arbitrary: m)
  case Nil
  then show ?case by simp
next
  case (Cons b bs)
  have dis: "region b 4 \<inter> region c 4 = {}" if "c \<in> set bs" for c
    using Cons.prems(1) that by auto
  show ?case
  proof (cases "a = b")
    case True
    have "shift_fields (add32 m b k) bs k x = add32 m b k x" if "x \<in> region b 4" for x
      using that dis by (intro shift_fields_frame) auto
    then have "load32 (shift_fields (add32 m b k) bs k) b = load32 (add32 m b k) b"
      by (rule load32_cong)
    then show ?thesis using True by (simp add: add32_same)
  next
    case False
    then have a: "a \<in> set bs" using Cons.prems(2) by simp
    have "add32 m b k x = m x" if "x \<in> region a 4" for x
      using that dis [OF a] by (intro add32_frame) auto
    then have "load32 (add32 m b k) a = load32 m a" by (rule load32_cong)
    moreover have "load32 (shift_fields (add32 m b k) bs k) a = load32 (add32 m b k) a + k"
      using Cons.prems(1) a by (intro Cons.IH) simp_all
    ultimately show ?thesis by simp
  qed
qed

lemma slot_in_run:
  assumes "j < unat (load16 m (fst ct))" and "x \<in> region (load32 m (snd ct) + k + 4 * of_nat j) 4"
  shows "x \<in> entry_run m k ct"
proof -
  have "unat (load16 m (fst ct)) < 65536"
    using unsigned_less [of "load16 m (fst ct)"] by simp
  then have "j < 65536" using assms(1) by simp
  then show ?thesis
    using assms slot_iff [of j x "load32 m (snd ct) + k"] by (simp add: entry_run_def region_def)
qed

lemma offset_entries_run:
  assumes "region (snd ct) 4 \<inter> entry_run m 0 ct = {}" and "region (fst ct) 2 \<inter> entry_run m 0 ct = {}"
  shows "(\<forall>x. x \<notin> entry_run m 0 ct \<longrightarrow> offset_entries m (fst ct) (snd ct) k 0 x = m x) \<and>
         (\<forall>j<unat (load16 m (fst ct)).
            load32 (offset_entries m (fst ct) (snd ct) k 0) (load32 m (snd ct) + 4 * of_nat j)
              = load32 m (load32 m (snd ct) + 4 * of_nat j) + k)"
  using offset_entries_from [of m "snd ct" "load32 m (snd ct)" "fst ct" "unat (load16 m (fst ct))" 0 k]
    assms
  by (simp add: entry_run_def)

lemma entry_run_cong:
  assumes "\<And>x. x \<in> region (snd ct) 4 \<Longrightarrow> m' x = m x"
    and "\<And>x. x \<in> region (fst ct) 2 \<Longrightarrow> m' x = m x"
  shows "entry_run m' k ct = entry_run m k ct"
    and "load32 m' (snd ct) = load32 m (snd ct)"
    and "load16 m' (fst ct) = load16 m (fst ct)"
proof -
  show a: "load32 m' (snd ct) = load32 m (snd ct)" using assms(1) by (rule load32_cong)
  show b: "load16 m' (fst ct) = load16 m (fst ct)" using assms(2) by (rule load16_cong)
  show "entry_run m' k ct = entry_run m k ct" by (simp add: entry_run_def a b)
qed

lemma offset_tables_effect:
  assumes ctl: "\<And>ct ct'. ct \<in> set cts \<Longrightarrow> ct' \<in> set cts \<Longrightarrow>
      region (snd ct) 4 \<inter> entry_run m 0 ct' = {} \<and> region (fst ct) 2 \<inter> entry_run m 0 ct' = {}"
  shows "(\<forall>x. (\<forall>ct\<in>set cts. x \<notin> entry_run m 0 ct) \<longrightarrow> offset_tables m cts k x = m x) \<and>
         (disjoint_all (map (entry_run m 0) cts) \<longrightarrow>
          (\<forall>ct\<in>set cts. \<forall>j<unat (load16 m (fst ct)).
             load32 (offset_tables m cts k) (load32 m (snd ct) + 4 * of_nat j)
               = load32 m (load32 m (snd ct) + 4 * of_nat j) + k))"
  using ctl
proof (induction cts arbitrary: m)
  case Nil
  show ?case by simp
next
  case (Cons c0 cts)
  let ?m1 = "offset_entries m (fst c0) (snd c0) k 0"
  let ?r = "offset_tables ?m1 cts k"
  have first: "(\<forall>x. x \<notin> entry_run m 0 c0 \<longrightarrow> ?m1 x = m x) \<and>
         (\<forall>j<unat (load16 m (fst c0)).
            load32 ?m1 (load32 m (snd c0) + 4 * of_nat j)
              = load32 m (load32 m (snd c0) + 4 * of_nat j) + k)"
    using Cons.prems [of c0 c0] by (intro offset_entries_run) simp_all
  have keep: "entry_run ?m1 0 ct = entry_run m 0 ct \<and> load32 ?m1 (snd ct) = load32 m (snd ct) \<and>
      load16 ?m1 (fst ct) = load16 m (fst ct)" if "ct \<in> set (c0 # cts)" for ct
  proof -
    have a: "?m1 x = m x" if "x \<in> region (snd ct) 4" for x
      using that first Cons.prems [of ct c0] \<open>ct \<in> set (c0 # cts)\<close> by auto
    have b: "?m1 x = m x" if "x \<in> region (fst ct) 2" for x
      using that first Cons.prems [of ct c0] \<open>ct \<in> set (c0 # cts)\<close> by auto
    show ?thesis using entry_run_cong [OF a b] by simp
  qed
  have ctl1: "region (snd ct) 4 \<inter> entry_run ?m1 0 ct' = {} \<and>
      region (fst ct) 2 \<inter> entry_run ?m1 0 ct' = {}" if "ct \<in> set cts" "ct' \<in> set cts" for ct ct'
    using that keep [of ct'] Cons.prems [of ct ct'] by simp
  have ih: "(\<forall>x. (\<forall>ct\<in>set cts. x \<notin> entry_run ?m1 0 ct) \<longrightarrow> ?r x = ?m1 x) \<and>
         (disjoint_all (map (entry_run ?m1 0) cts) \<longrightarrow>
          (\<forall>ct\<in>set cts. \<forall>j<unat (load16 ?m1 (fst ct)).
             load32 ?r (load32 ?m1 (snd ct) + 4 * of_nat j)
               = load32 ?m1 (load32 ?m1 (snd ct) + 4 * of_nat j) + k))"
    using ctl1 by (rule Cons.IH)
  have runs1: "map (entry_run ?m1 0) cts = map (entry_run m 0) cts"
    using keep by simp
  have frame: "?r x = m x" if "\<forall>ct\<in>set (c0 # cts). x \<notin> entry_run m 0 ct" for x
  proof -
    have "\<forall>ct\<in>set cts. x \<notin> entry_run ?m1 0 ct" using that keep by simp
    then have "?r x = ?m1 x" using ih by blast
    moreover have "?m1 x = m x" using that first by simp
    ultimately show ?thesis by simp
  qed
  have cells: "load32 ?r (load32 m (snd ct) + 4 * of_nat j)
      = load32 m (load32 m (snd ct) + 4 * of_nat j) + k"
    if dis: "disjoint_all (map (entry_run m 0) (c0 # cts))"
      and ct: "ct \<in> set (c0 # cts)" and j: "j < unat (load16 m (fst ct))" for ct j
  proof -
    let ?a = "load32 m (snd ct) + 4 * of_nat j"
    have cross: "entry_run m 0 c0 \<inter> entry_run m 0 c = {}" if "c \<in> set cts" for c
      using dis that by simp
    have dis1: "disjoint_all (map (entry_run ?m1 0) cts)"
      unfolding runs1 using dis by simp
    have slot: "x \<in> entry_run m 0 ct" if "x \<in> region ?a 4" for x
      using slot_in_run [of j m ct x 0] j that by simp
    show ?thesis
    proof (cases "ct = c0")
      case True
      have "?r x = ?m1 x" if "x \<in> region ?a 4" for x
      proof -
        have "x \<in> entry_run m 0 c0" using slot [OF that] True by simp
        then have "\<forall>c\<in>set cts. x \<notin> entry_run ?m1 0 c"
          using cross keep by auto
        then show ?thesis using ih by blast
      qed
      then have "load32 ?r ?a = load32 ?m1 ?a" by (rule load32_cong)
      then show ?thesis using first j True by simp
    next
      case False
      then have in_cts: "ct \<in> set cts" using ct by simp
      have "?m1 x = m x" if "x \<in> region ?a 4" for x
      proof -
        have "x \<notin> entry_run m 0 c0" using slot [OF that] cross [OF in_cts] by auto
        then show ?thesis using first by simp
      qed
      then have "load32 ?m1 ?a = load32 m ?a" by (rule load32_cong)
      moreover have "load32 ?r ?a = load32 ?m1 ?a + k"
      proof -
        have "\<forall>j<unat (load16 ?m1 (fst ct)).
             load32 ?r (load32 ?m1 (snd ct) + 4 * of_nat j)
               = load32 ?m1 (load32 ?m1 (snd ct) + 4 * of_nat j) + k"
          using ih dis1 in_cts by blast
        then show ?thesis using j keep [OF ct] by simp
      qed
      ultimately show ?thesis by simp
    qed
  qed
  show ?case
  proof (intro conjI allI impI ballI)
    fix x assume "\<forall>ct\<in>set (c0 # cts). x \<notin> entry_run m 0 ct"
    then show "offset_tables m (c0 # cts) k x = m x" using frame by simp
  next
    fix ct j
    assume "disjoint_all (map (entry_run m 0) (c0 # cts))" "ct \<in> set (c0 # cts)"
      "j < unat (load16 m (fst ct))"
    then show "load32 (offset_tables m (c0 # cts) k) (load32 m (snd ct) + 4 * of_nat j)
               = load32 m (load32 m (snd ct) + 4 * of_nat j) + k"
      using cells by simp
  qed
qed

lemma call_effect:
  assumes hdr: "disjoint_all (header_slots L import)"
    and sep: "\<And>s ct. s \<in> set (header_slots L import) \<Longrightarrow> ct \<in> set (entry_tables L import) \<Longrightarrow>
        s \<inter> entry_run m k ct = {}"
  shows "(\<forall>a\<in>set (pointer_fields L import).
            load32 (uvl_offset_import L m import k) a = load32 m a + k) \<and>
         (\<forall>c\<in>set (count_fields L import).
            load16 (uvl_offset_import L m import k) c = load16 m c) \<and>
         (\<forall>x. (\<forall>s\<in>set (header_slots L import). x \<notin> s) \<and>
              (\<forall>ct\<in>set (entry_tables L import). x \<notin> entry_run m k ct) \<longrightarrow>
              uvl_offset_import L m import k x = m x) \<and>
         (disjoint_all (map (entry_run m k) (entry_tables L import)) \<longrightarrow>
          (\<forall>ct\<in>set (entry_tables L import). \<forall>j<unat (load16 m (fst ct)).
             load32 (uvl_offset_import L m import k) (load32 m (snd ct) + k + 4 * of_nat j)
               = load32 m (load32 m (snd ct) + k + 4 * of_nat j) + k))"
proof -
  let ?P = "pointer_fields L import" and ?C = "count_fields L import"
  let ?E = "entry_tables L import"
  let ?m1 = "shift_fields m ?P k"
  let ?m' = "uvl_offset_import L m import k"
  have f1: "disjoint_all (map (\<lambda>a. region a 4) ?P)"
    and f2: "\<And>a c. a \<in> set ?P \<Longrightarrow> c \<in> set ?C \<Longrightarrow> region a 4 \<inter> region c 2 = {}"
    using hdr by (simp_all add: header_slots_def disjoint_all_append)
  have f3: "snd ct \<in> set ?P \<and> fst ct \<in> set ?C" if "ct \<in> set ?E" for ct
    using that by (auto simp: entry_tables_def pointer_fields_def count_fields_def)
  have pslot: "region a 4 \<in> set (header_slots L import)" if "a \<in> set ?P" for a
    using that by (simp add: header_slots_def)
  have cslot: "region c 2 \<in> set (header_slots L import)" if "c \<in> set ?C" for c
    using that by (simp add: header_slots_def)
  have m1_ptr: "load32 ?m1 a = load32 m a + k" if "a \<in> set ?P" for a
    using f1 that by (rule shift_fields_at)
  have m1_frame: "?m1 x = m x" if "\<forall>a\<in>set ?P. x \<notin> region a 4" for x
    using that by (intro shift_fields_frame) simp
  have m1_cnt: "load16 ?m1 c = load16 m c" if "c \<in> set ?C" for c
  proof -
    have "?m1 x = m x" if "x \<in> region c 2" for x
      using that f2 [OF _ \<open>c \<in> set ?C\<close>] by (intro m1_frame) auto
    then show ?thesis by (rule load16_cong)
  qed
  have run1: "entry_run ?m1 0 ct = entry_run m k ct" if "ct \<in> set ?E" for ct
    using f3 [OF that] by (simp add: entry_run_def m1_ptr m1_cnt)
  have ctl1: "region (snd ct) 4 \<inter> entry_run ?m1 0 ct' = {} \<and>
      region (fst ct) 2 \<inter> entry_run ?m1 0 ct' = {}" if "ct \<in> set ?E" "ct' \<in> set ?E" for ct ct'
    using that f3 [OF that(1)] sep [OF pslot, of "snd ct" ct'] sep [OF cslot, of "fst ct" ct']
    by (simp add: run1)
  note T = offset_tables_effect [of ?E ?m1 k, OF ctl1]
  have m': "?m' = offset_tables ?m1 ?E k" by (rule uvl_offset_import_phases)
  have tframe: "?m' x = ?m1 x" if "\<forall>ct\<in>set ?E. x \<notin> entry_run m k ct" for x
  proof -
    have "\<forall>ct\<in>set ?E. x \<notin> entry_run ?m1 0 ct" using that run1 by simp
    then show ?thesis unfolding m' using T by blast
  qed
  have in_hdr: "?m' x = ?m1 x" if "s \<in> set (header_slots L import)" "x \<in> s" for s x
    using that sep [OF that(1)] by (intro tframe) auto
  show ?thesis
  proof (intro conjI ballI allI impI)
    fix a assume a: "a \<in> set ?P"
    have "?m' x = ?m1 x" if "x \<in> region a 4" for x
      using in_hdr [OF pslot [OF a] that] .
    then have "load32 ?m' a = load32 ?m1 a" by (rule load32_cong)
    then show "load32 ?m' a = load32 m a + k" using m1_ptr [OF a] by simp
  next
    fix c assume c: "c \<in> set ?C"
    have "?m' x = ?m1 x" if "x \<in> region c 2" for x
      using in_hdr [OF cslot [OF c] that] .
    then have "load16 ?m' c = load16 ?m1 c" by (rule load16_cong)
    then show "load16 ?m' c = load16 m c" using m1_cnt [OF c] by simp
  next
    fix x
    assume x: "(\<forall>s\<in>set (header_slots L import). x \<notin> s) \<and> (\<forall>ct\<in>set ?E. x \<notin> entry_run m k ct)"
    then have "?m' x = ?m1 x" by (intro tframe) simp
    moreover have "?m1 x = m x" using x pslot by (intro m1_frame) auto
    ultimately show "?m' x = m x" by simp
  next
    fix ct j
    assume dis: "disjoint_all (map (entry_run m k) ?E)" and ct: "ct \<in> set ?E"
      and j: "j < unat (load16 m (fst ct))"
    let ?a = "load32 m (snd ct) + k + 4 * of_nat j"
    have e: "map (entry_run ?m1 0) ?E = map (entry_run m k) ?E" using run1 by simp
    have dis1: "disjoint_all (map (entry_run ?m1 0) ?E)" unfolding e using dis .
    have "\<forall>j<unat (load16 ?m1 (fst ct)).
        load32 (offset_tables ?m1 ?E k) (load32 ?m1 (snd ct) + 4 * of_nat j)
          = load32 ?m1 (load32 ?m1 (snd ct) + 4 * of_nat j) + k"
      using T dis1 ct by blast
    then have a: "load32 ?m' ?a = load32 ?m1 ?a + k"
      using j f3 [OF ct] by (simp add: m' m1_ptr m1_cnt)
    have "?m1 x = m x" if "x \<in> region ?a 4" for x
    proof -
      have "x \<in> entry_run m k ct" using slot_in_run [OF j that] .
      then have "\<forall>a\<in>set ?P. x \<notin> region a 4" using sep [OF pslot ct] by auto
      then show ?thesis by (rule m1_frame)
    qed
    then have "load32 ?m1 ?a = load32 m ?a" by (rule load32_cong)
    then show "load32 ?m' ?a = load32 m ?a + k" using a by simp
  qed
qed

subsection \<open>The example descriptor\<close>

lemma std_import_offsets_read:
  "num_functions (std_import_at m a) = load16 m (a + off_num_functions std_import_offsets)"
  "num_vars (std_import_at m a) = load16 m (a + off_num_vars std_import_offsets)"
  "num_tls_vars (std_import_at m a) = load16 m (a + off_num_tls_vars std_import_offsets)"
  "lib_name (std_import_at m a) = load32 m (a + off_lib_name std_import_offsets)"
  "func_nid_table (std_import_at m a) = load32 m (a + off_func_nid_table std_import_offsets)"
  "func_entry_table (std_import_at m a) = load32 m (a + off_func_entry_table std_import_offsets)"
  "var_nid_table (std_import_at m a) = load32 m (a + off_var_nid_table std_import_offsets)"
  "var_entry_table (std_import_at m a) = load32 m (a + off_var_entry_table std_import_offsets)"
  "tls_nid_table (std_import_at m a) = load32 m (a + off_tls_nid_table std_import_offsets)"
  "tls_entry_table (std_import_at m a) = load32 m (a + off_tls_entry_table std_import_offsets)"
  by (simp_all add: std_import_at_def std_import_offsets_def)

lemma demo_import_mem_read:
  "demo_import_mem table a =
     (if unat (a - 0x4000) < 4 then [0x34, 0x12, 0x00, 0x81] ! unat (a - 0x4000)
      else if unat (a - 0x81200000) < 52 then demo_desc_bytes table ! unat (a - 0x81200000)
      else 0)"
  unfolding demo_import_mem_def
  by (simp add: poke_read demo_desc_bytes_def del: poke.simps)

lemmas reloc_eval = uvl_offset_import_def Let_def offset_entries.simps
  std_import_offsets_def add32_same load32_add32_other load16_add32_other unat_minus_1_u32

lemmas demo_eval = load32_def load16_def demo_import_mem_read demo_desc_bytes_def

lemma demo_fields:
  "load32 (demo_import_mem 0x4000) 0x81200014 = 0x2000"
  "load32 (demo_import_mem 0x4000) 0x8120001C = 0x3000"
  "load32 (demo_import_mem 0x4000) 0x81200020 = 0x4000"
  "load32 (demo_import_mem 0x4000) 0x81200024 = 0"
  "load32 (demo_import_mem 0x4000) 0x81200028 = 0"
  "load32 (demo_import_mem 0x4000) 0x8120002C = 0"
  "load32 (demo_import_mem 0x4000) 0x81200030 = 0"
  "load16 (demo_import_mem 0x4000) 0x81200006 = 1"
  "load16 (demo_import_mem 0x4000) 0x81200008 = 0"
  "load16 (demo_import_mem 0x4000) 0x8120000A = 0"
  "load32 (demo_import_mem 0x4000) 0x4000 = 0x81001234"
  "load32 (demo_import_mem 0x4000) 0x4004 = 0"
  by (simp_all add: demo_eval)

lemma aliased_fields:
  "load32 (demo_import_mem 0x81200010) 0x81200014 = 0x2000"
  "load32 (demo_import_mem 0x81200010) 0x8120001C = 0x3000"
  "load32 (demo_import_mem 0x81200010) 0x81200020 = 0x81200010"
  "load32 (demo_import_mem 0x81200010) 0x81200024 = 0"
  "load32 (demo_import_mem 0x81200010) 0x81200028 = 0"
  "load32 (demo_import_mem 0x81200010) 0x8120002C = 0"
  "load32 (demo_import_mem 0x81200010) 0x81200030 = 0"
  "load16 (demo_import_mem 0x81200010) 0x81200006 = 1"
  "load16 (demo_import_mem 0x81200010) 0x81200008 = 0"
  "load16 (demo_import_mem 0x81200010) 0x8120000A = 0"
  "load32 (demo_import_mem 0x81200010) 0x81200010 = 0"
  by (simp_all add: demo_eval)

lemma demo_round_trip_values:
  "load32 (uvl_offset_import std_import_offsets (demo_import_mem 0x4000) 0x81200000 4) 0x4004 = 4"
  "load32 (uvl_offset_import std_import_offsets
     (uvl_offset_import std_import_offsets (demo_import_mem 0x4000) 0x81200000 4)
       0x81200000 (- 4)) 0x4000 = 0x81001230"
  "load32 (uvl_offset_import std_import_offsets (demo_import_mem 0x81200010) 0x81200000 4)
     0x81200014 = 0x2008"
  "load32 (uvl_offset_import std_import_offsets
     (uvl_offset_import std_import_offsets (demo_import_mem 0x81200010) 0x81200000 4)
       0x81200000 (- 4)) 0x81200014 = 0x2004"
  by (simp_all add: reloc_eval demo_fields aliased_fields)

text \<open>
  C2, as the code has it. The claim reads: \<^verbatim>\<open>uvl_offset_import\<close> with \<open>+k\<close> and then with
  \<open>-k\<close> restores every pointer field of the header and every element of the three entry
  tables. The loops reach the tables through the pointers as already shifted: the first
  call adds \<open>k\<close> to the cells at \<open>table + k\<close>, the second subtracts \<open>k\<close> from the cells at
  \<open>table\<close>. With \<open>k = 4\<close> and the entry table at \<open>0x4000\<close>, element 0 of the table,
  \<open>0x81001234\<close> before, is \<open>0x81001230\<close> afterwards. With the entry table at \<open>0x81200010\<close>,
  in the descriptor, the first call adds \<open>4\<close> twice to the library-name field at
  \<open>0x81200014\<close> and the second subtracts it once: the field, \<open>0x2000\<close> before, is \<open>0x2004\<close>
  afterwards.
\<close>

theorem offset_import_round_trip_counterexample:
  "load32 (uvl_offset_import std_import_offsets
     (uvl_offset_import std_import_offsets (demo_import_mem 0x4000) 0x81200000 4)
       0x81200000 (- 4)) 0x4000 \<noteq> load32 (demo_import_mem 0x4000) 0x4000 \<and>
   load32 (uvl_offset_import std_import_offsets
     (uvl_offset_import std_import_offsets (demo_import_mem 0x81200010) 0x81200000 4)
       0x81200000 (- 4)) 0x81200014 \<noteq> load32 (demo_import_mem 0x81200010) 0x81200014"
  by (simp add: demo_round_trip_values demo_fields aliased_fields)

subsection \<open>The round trip of a descriptor apart from its tables\<close>

text \<open>
  C2, amended: for a descriptor whose ten header slots are pairwise disjoint and share no
  byte with the six runs of table cells of the round trip (the \<^verbatim>\<open>count\<close> cells at
  \<open>table + k\<close> and at \<open>table\<close>, for each of the three entry tables), \<^verbatim>\<open>uvl_offset_import\<close>
  with \<open>+k\<close> and then with \<open>-k\<close> restores the seven pointer fields and leaves the three
  counts and every byte outside the header and the six runs as they were. The table
  elements are not restored: when the six runs are pairwise disjoint too, each of the
  \<^verbatim>\<open>count\<close> elements at \<open>table\<close> ends \<open>k\<close> below its value and each of those at \<open>table + k\<close>
  ends \<open>k\<close> above.
\<close>

theorem offset_import_round_trip_separate:
  assumes hdr: "disjoint_all (header_slots L import)"
    and sep: "\<forall>s\<in>set (header_slots L import). \<forall>r\<in>set (entry_runs L m import k). s \<inter> r = {}"
  shows
   "(\<forall>a\<in>set (pointer_fields L import).
       load32 (uvl_offset_import L (uvl_offset_import L m import k) import (- k)) a = load32 m a) \<and>
    (\<forall>c\<in>set (count_fields L import).
       load16 (uvl_offset_import L (uvl_offset_import L m import k) import (- k)) c = load16 m c) \<and>
    (\<forall>x. (\<forall>s\<in>set (header_slots L import). x \<notin> s) \<and>
         (\<forall>r\<in>set (entry_runs L m import k). x \<notin> r) \<longrightarrow>
         uvl_offset_import L (uvl_offset_import L m import k) import (- k) x = m x) \<and>
    (disjoint_all (entry_runs L m import k) \<longrightarrow>
     (\<forall>ct\<in>set (entry_tables L import). \<forall>j<unat (load16 m (fst ct)).
        load32 (uvl_offset_import L (uvl_offset_import L m import k) import (- k))
            (load32 m (snd ct) + 4 * of_nat j)
          = load32 m (load32 m (snd ct) + 4 * of_nat j) - k \<and>
        load32 (uvl_offset_import L (uvl_offset_import L m import k) import (- k))
            (load32 m (snd ct) + k + 4 * of_nat j)
          = load32 m (load32 m (snd ct) + k + 4 * of_nat j) + k))"
proof -
  let ?P = "pointer_fields L import" and ?C = "count_fields L import"
  let ?E = "entry_tables L import" and ?S = "header_slots L import"
  let ?m' = "uvl_offset_import L m import k"
  let ?m'' = "uvl_offset_import L ?m' import (- k)"
  have f3: "snd ct \<in> set ?P \<and> fst ct \<in> set ?C" if "ct \<in> set ?E" for ct
    using that by (auto simp: entry_tables_def pointer_fields_def count_fields_def)
  have sepA: "s \<inter> entry_run m k ct = {}" if "s \<in> set ?S" "ct \<in> set ?E" for s ct
    using sep that by (simp add: entry_runs_def)
  have sep0: "s \<inter> entry_run m 0 ct = {}" if "s \<in> set ?S" "ct \<in> set ?E" for s ct
    using sep that by (simp add: entry_runs_def)
  note A = call_effect [OF hdr sepA]
  have ptr': "load32 ?m' a = load32 m a + k" if "a \<in> set ?P" for a using A that by blast
  have cnt': "load16 ?m' c = load16 m c" if "c \<in> set ?C" for c using A that by blast
  have frame': "?m' x = m x"
    if "\<forall>s\<in>set ?S. x \<notin> s" "\<forall>ct\<in>set ?E. x \<notin> entry_run m k ct" for x
    using A that by blast
  have run': "entry_run ?m' (- k) ct = entry_run m 0 ct" if "ct \<in> set ?E" for ct
    using f3 [OF that] by (simp add: entry_run_def ptr' cnt')
  have sepB: "s \<inter> entry_run ?m' (- k) ct = {}" if "s \<in> set ?S" "ct \<in> set ?E" for s ct
    using sep0 [OF that] run' [OF that(2)] by simp
  note B = call_effect [OF hdr sepB]
  have ptr'': "load32 ?m'' a = load32 ?m' a + (- k)" if "a \<in> set ?P" for a
    using B that by blast
  have cnt'': "load16 ?m'' c = load16 ?m' c" if "c \<in> set ?C" for c using B that by blast
  have frame'': "?m'' x = ?m' x"
    if "\<forall>s\<in>set ?S. x \<notin> s" "\<forall>ct\<in>set ?E. x \<notin> entry_run m 0 ct" for x
  proof -
    have "\<forall>ct\<in>set ?E. x \<notin> entry_run ?m' (- k) ct" using that(2) run' by simp
    then show ?thesis using B that(1) by blast
  qed
  show ?thesis
  proof (intro conjI ballI allI impI)
    fix a assume "a \<in> set ?P"
    then show "load32 ?m'' a = load32 m a" using ptr' ptr'' by simp
  next
    fix c assume "c \<in> set ?C"
    then show "load16 ?m'' c = load16 m c" using cnt' cnt'' by simp
  next
    fix x
    assume x: "(\<forall>s\<in>set ?S. x \<notin> s) \<and> (\<forall>r\<in>set (entry_runs L m import k). x \<notin> r)"
    then have "?m'' x = ?m' x" by (intro frame'') (simp_all add: entry_runs_def)
    moreover have "?m' x = m x" using x by (intro frame') (simp_all add: entry_runs_def)
    ultimately show "?m'' x = m x" by simp
  next
    fix ct j
    assume dis: "disjoint_all (entry_runs L m import k)" and ct: "ct \<in> set ?E"
      and j: "j < unat (load16 m (fst ct))"
    have disA: "disjoint_all (map (entry_run m k) ?E)"
      and dis0: "disjoint_all (map (entry_run m 0) ?E)"
      and cross: "\<And>c c'. c \<in> set ?E \<Longrightarrow> c' \<in> set ?E \<Longrightarrow> entry_run m k c \<inter> entry_run m 0 c' = {}"
      using dis by (simp_all add: entry_runs_def disjoint_all_append)
    let ?a = "load32 m (snd ct) + 4 * of_nat j"
    let ?b = "load32 m (snd ct) + k + 4 * of_nat j"
    have e: "map (entry_run ?m' (- k)) ?E = map (entry_run m 0) ?E" using run' by simp
    have disB: "disjoint_all (map (entry_run ?m' (- k)) ?E)" unfolding e using dis0 .
    have "\<forall>j<unat (load16 ?m' (fst ct)).
        load32 ?m'' (load32 ?m' (snd ct) + (- k) + 4 * of_nat j)
          = load32 ?m' (load32 ?m' (snd ct) + (- k) + 4 * of_nat j) + (- k)"
      using B disB ct by blast
    then have a1: "load32 ?m'' ?a = load32 ?m' ?a - k"
      using j f3 [OF ct] by (simp add: ptr' cnt')
    have "?m' x = m x" if "x \<in> region ?a 4" for x
    proof -
      have in0: "x \<in> entry_run m 0 ct" using slot_in_run [of j m ct x 0] j that by simp
      have "\<forall>s\<in>set ?S. x \<notin> s" using in0 sep0 [OF _ ct] by auto
      moreover have "\<forall>c\<in>set ?E. x \<notin> entry_run m k c" using in0 cross [OF _ ct] by auto
      ultimately show ?thesis by (rule frame')
    qed
    then have a2: "load32 ?m' ?a = load32 m ?a" by (rule load32_cong)
    have b1: "load32 ?m' ?b = load32 m ?b + k" using A disA ct j by blast
    have "?m'' x = ?m' x" if "x \<in> region ?b 4" for x
    proof -
      have ink: "x \<in> entry_run m k ct" using slot_in_run [OF j that] .
      have "\<forall>s\<in>set ?S. x \<notin> s" using ink sepA [OF _ ct] by auto
      moreover have "\<forall>c\<in>set ?E. x \<notin> entry_run m 0 c" using ink cross [OF ct] by auto
      ultimately show ?thesis by (rule frame'')
    qed
    then have b2: "load32 ?m'' ?b = load32 ?m' ?b" by (rule load32_cong)
    show "load32 ?m'' ?a = load32 m ?a - k" using a1 a2 by simp
    show "load32 ?m'' ?b = load32 m ?b + k" using b1 b2 by simp
  qed
qed

lemma demo_header_separate:
  "disjoint_all (header_slots std_import_offsets 0x81200000)"
  by (simp add: header_slots_def pointer_fields_def count_fields_def std_import_offsets_def
      region_disjoint)

lemma demo_runs:
  "entry_runs std_import_offsets (demo_import_mem 0x4000) 0x81200000 4 =
     [region 0x4004 4, {}, {}, region 0x4000 4, {}, {}]"
  by (simp add: entry_runs_def entry_run_def entry_tables_def std_import_offsets_def
      demo_fields region_empty)

lemma demo_runs_separate:
  "\<forall>s\<in>set (header_slots std_import_offsets 0x81200000).
     \<forall>r\<in>set (entry_runs std_import_offsets (demo_import_mem 0x4000) 0x81200000 4). s \<inter> r = {}"
  "disjoint_all (entry_runs std_import_offsets (demo_import_mem 0x4000) 0x81200000 4)"
  unfolding demo_runs
  by (simp_all add: header_slots_def pointer_fields_def count_fields_def std_import_offsets_def
      region_disjoint)

theorem offset_import_round_trip_separate_witness:
  "load32 (uvl_offset_import std_import_offsets
     (uvl_offset_import std_import_offsets (demo_import_mem 0x4000) 0x81200000 4)
       0x81200000 (- 4)) 0x81200014 = 0x2000 \<and>
   load32 (uvl_offset_import std_import_offsets
     (uvl_offset_import std_import_offsets (demo_import_mem 0x4000) 0x81200000 4)
       0x81200000 (- 4)) 0x81200020 = 0x4000 \<and>
   load16 (uvl_offset_import std_import_offsets
     (uvl_offset_import std_import_offsets (demo_import_mem 0x4000) 0x81200000 4)
       0x81200000 (- 4)) 0x81200006 = 1 \<and>
   uvl_offset_import std_import_offsets
     (uvl_offset_import std_import_offsets (demo_import_mem 0x4000) 0x81200000 4)
       0x81200000 (- 4) 0x5000 = demo_import_mem 0x4000 0x5000 \<and>
   load32 (uvl_offset_import std_import_offsets
     (uvl_offset_import std_import_offsets (demo_import_mem 0x4000) 0x81200000 4)
       0x81200000 (- 4)) 0x4000 = 0x81001230 \<and>
   load32 (uvl_offset_import std_import_offsets
     (uvl_offset_import std_import_offsets (demo_import_mem 0x4000) 0x81200000 4)
       0x81200000 (- 4)) 0x4004 = 4"
proof -
  let ?L = std_import_offsets and ?m = "demo_import_mem 0x4000"
  let ?rt = "uvl_offset_import ?L (uvl_offset_import ?L ?m 0x81200000 4) 0x81200000 (- 4)"
  note T = offset_import_round_trip_separate [OF demo_header_separate demo_runs_separate(1)]
  have p1: "0x81200014 \<in> set (pointer_fields ?L 0x81200000)"
    and p2: "0x81200020 \<in> set (pointer_fields ?L 0x81200000)"
    and c1: "0x81200006 \<in> set (count_fields ?L 0x81200000)"
    and e1: "(0x81200006, 0x81200020) \<in> set (entry_tables ?L 0x81200000)"
    by (simp_all add: pointer_fields_def count_fields_def entry_tables_def std_import_offsets_def)
  have out: "(\<forall>s\<in>set (header_slots ?L 0x81200000). 0x5000 \<notin> s) \<and>
      (\<forall>r\<in>set (entry_runs ?L ?m 0x81200000 4). 0x5000 \<notin> r)"
    unfolding demo_runs
    by (simp add: header_slots_def pointer_fields_def count_fields_def std_import_offsets_def
        region_def)
  have a: "load32 ?rt 0x81200014 = load32 ?m 0x81200014" using T p1 by blast
  have b: "load32 ?rt 0x81200020 = load32 ?m 0x81200020" using T p2 by blast
  have c: "load16 ?rt 0x81200006 = load16 ?m 0x81200006" using T c1 by blast
  have d: "?rt 0x5000 = ?m 0x5000" using T out by blast
  have j: "0 < unat (load16 ?m (fst (0x81200006 :: u32, 0x81200020 :: u32)))"
    by (simp add: demo_fields)
  have "load32 ?rt (load32 ?m (snd (0x81200006 :: u32, 0x81200020 :: u32)) + 4 * of_nat 0)
          = load32 ?m (load32 ?m (snd (0x81200006 :: u32, 0x81200020 :: u32)) + 4 * of_nat 0) - 4 \<and>
        load32 ?rt (load32 ?m (snd (0x81200006 :: u32, 0x81200020 :: u32)) + 4 + 4 * of_nat 0)
          = load32 ?m (load32 ?m (snd (0x81200006 :: u32, 0x81200020 :: u32)) + 4 + 4 * of_nat 0) + 4"
    using T demo_runs_separate(2) e1 j by blast
  then have e: "load32 ?rt 0x4000 = 0x81001230" and f: "load32 ?rt 0x4004 = 4"
    by (simp_all add: demo_fields)
  from a b c d e f show ?thesis by (simp add: demo_fields)
qed

section \<open>A partial magic\<close>

lemma partial_magic_run:
  "uvl_load_exe std_h (demo_platform partial_magic_image []) ''app.elf'' demo_world =
     Some (Inr 0,
       \<lparr>mem = poke (\<lambda>a. 0) 0x81000000 partial_magic_image, kern = Suc 0,
        trace = [IoOpen ''app.elf'', AllocMemBlock ''UVLTemp'' 0xC20D060 0x2000000,
                 GetMemBlockBase 1, IoRead 3 0x81000000 0x2000000, IoClose 3,
                 FindMemBlockByAddr 0x81000000, FreeMemBlock 1]\<rparr>)"
proof -
  have "length partial_magic_image \<le> 33554432"
    by (simp add: partial_magic_image_def)
  note lf = demo_load_file [OF this, of "[]" "''app.elf''"]
  have magic: "mem (snd (uvl_load_file std_h (demo_platform partial_magic_image []) ''app.elf'' demo_world)) (0x81000000 + 1) = 0"
    unfolding lf by (simp add: partial_magic_image_def)
  have magic0: "mem (snd (uvl_load_file std_h (demo_platform partial_magic_image []) ''app.elf'' demo_world)) 0x81000000 = 0x7F"
    unfolding lf by (simp add: partial_magic_image_def)
  show ?thesis
    using magic magic0 unfolding lf
    by (simp add: uvl_load_exe_def lf demo_free_data free_and_return_def std_h_magic)
qed

text \<open>
  C1, at a failing input. The claim reads: an image whose byte 0 is the first byte of a
  magic but whose bytes 1-3 do not complete it is not passed to the ELF loader, and the
  load does not succeed. For the four bytes \<open>7F 00 00 00\<close> the loader is indeed not
  called (no service after the read but the release of the buffer), and yet
  \<^verbatim>\<open>uvl_load_exe\<close> returns zero, with \<^verbatim>\<open>*entry\<close> still \<^verbatim>\<open>NULL\<close>: the inner \<^verbatim>\<open>if\<close> on
  bytes 1-3 has no \<^verbatim>\<open>else\<close>.
\<close>

theorem partial_magic_loads_nothing_and_succeeds:
  "outcome (uvl_load_exe std_h (demo_platform partial_magic_image []) ''app.elf'' demo_world)
     = Some (Inr 0) \<and>
   calls (uvl_load_exe std_h (demo_platform partial_magic_image []) ''app.elf'' demo_world)
     = [IoOpen ''app.elf'', AllocMemBlock ''UVLTemp'' 0xC20D060 0x2000000, GetMemBlockBase 1,
        IoRead 3 0x81000000 0x2000000, IoClose 3,
        FindMemBlockByAddr 0x81000000, FreeMemBlock 1]"
  by (simp add: partial_magic_run outcome_def calls_def)

section \<open>Closing the file\<close>

text \<open>
  C4, as the code has it. The claim reads: when opening, allocating and reading succeed,
  the acquirer returns the buffer and its size even when closing the handle fails. On a
  platform where only \<^verbatim>\<open>sceIoClose\<close> fails, \<^verbatim>\<open>uvl_load_file\<close> returns \<^verbatim>\<open>-1\<close> from the
  branch that logs the close failure (lines 64-68).
\<close>

theorem load_file_close_failure_counterexample:
  "fst (uvl_load_file std_h close_fails ''app.elf'' demo_world) = Inl (IOError Close)"
  by (simp add: uvl_load_file_def sys_def sysm_def close_fails_def demo_platform_io
      demo_platform_blocks demo_platform_def std_h_misc demo_world_def)

text \<open>
  C4, amended: if opening, allocating, locating the base and reading all succeed, then
  \<^verbatim>\<open>uvl_load_file\<close> returns the buffer and the size read exactly when closing the handle
  succeeds; when closing fails it fails, after the log line, and the buffer is not handed
  out. Either way memory holds what \<^verbatim>\<open>sceIoRead\<close> wrote.
\<close>

theorem load_file_close_decides:
  assumes "sceIoOpen P filename (PSP2_O_RDONLY H) 0 (kern w) = (fd, k1)" and "0 \<le> fd"
    and "sceKernelAllocMemBlock P ''UVLTemp'' 0xC20D060 (UVL_BIN_MAX_SIZE H) k1 = (memblock, k2)"
    and "0 \<le> memblock"
    and "sceKernelGetMemBlockBase P memblock k2 = ((r, base), k3)" and "0 \<le> r"
    and "sceIoRead P fd base (UVL_BIN_MAX_SIZE H) (mem w, k3) = (n, m4, k4)" and "0 \<le> n"
    and "sceIoClose P fd k4 = (c, k5)"
  shows "fst (uvl_load_file H P filename w) =
           (if c < 0 then Inl (IOError Close) else Inr (base, n)) \<and>
         mem (snd (uvl_load_file H P filename w)) = m4"
  using assms by (simp add: uvl_load_file_def sys_def sysm_def)

theorem load_file_close_decides_witness:
  "fst (uvl_load_file std_h close_fails ''app.elf'' demo_world) = Inl (IOError Close) \<and>
   mem (snd (uvl_load_file std_h close_fails ''app.elf'' demo_world)) 0x81000000 = 0x7F \<and>
   fst (uvl_load_file std_h (demo_platform partial_magic_image []) ''app.elf'' demo_world)
     = Inr (0x81000000, 4)"
proof -
  have a: "fst (uvl_load_file std_h close_fails ''app.elf'' demo_world) =
           (if (- 1 :: int) < 0 then Inl (IOError Close) else Inr (0x81000000, 4)) \<and>
         mem (snd (uvl_load_file std_h close_fails ''app.elf'' demo_world)) =
           poke (\<lambda>a. 0) 0x81000000 partial_magic_image"
    by (rule load_file_close_decides [where fd = 3 and ?k1.0 = 0 and memblock = 1 and ?k2.0 = 1
          and r = 0 and ?k3.0 = 1 and ?k4.0 = 1 and ?k5.0 = 1])
      (simp_all add: close_fails_def demo_platform_def std_h_misc demo_world_def
        partial_magic_image_def)
  have b: "fst (uvl_load_file std_h (demo_platform partial_magic_image []) ''app.elf'' demo_world) =
           (if (0 :: int) < 0 then Inl (IOError Close) else Inr (0x81000000, 4)) \<and>
         mem (snd (uvl_load_file std_h (demo_platform partial_magic_image []) ''app.elf'' demo_world)) =
           poke (\<lambda>a. 0) 0x81000000 partial_magic_image"
    by (rule load_file_close_decides [where fd = 3 and ?k1.0 = 0 and memblock = 1 and ?k2.0 = 1
          and r = 0 and ?k3.0 = 1 and ?k4.0 = 1 and ?k5.0 = 1])
      (simp_all add: demo_platform_def std_h_misc demo_world_def partial_magic_image_def)
  from a b show ?thesis
    by (simp add: partial_magic_image_def)
qed

section \<open>An invalid header\<close>

lemma check_chain:
  "(if \<not> c1 then Inl (InvalidHeader r1) else if \<not> c2 then Inl (InvalidHeader r2)
    else if \<not> c3 then Inl (InvalidHeader r3) else if \<not> c4 then Inl (InvalidHeader r4)
    else if \<not> c5 then Inl (InvalidHeader r5) else if \<not> c6 then Inl (InvalidHeader r6)
    else if \<not> c7 then Inl (InvalidHeader r7) else if \<not> c8 then Inl (InvalidHeader r8)
    else if \<not> c9 then Inl (InvalidHeader r9) else Inr ()) =
   (if c1 \<and> c2 \<and> c3 \<and> c4 \<and> c5 \<and> c6 \<and> c7 \<and> c8 \<and> c9 then Inr ()
    else Inl (InvalidHeader
      (if \<not> c1 then r1 else if \<not> c2 then r2 else if \<not> c3 then r3 else if \<not> c4 then r4
       else if \<not> c5 then r5 else if \<not> c6 then r6 else if \<not> c7 then r7
       else if \<not> c8 then r8 else r9)))"
  by simp

lemma check_header_cases:
  "uvl_elf_check_header H hdr =
     (if valid_header H hdr then Inr ()
      else Inl (InvalidHeader
        (if \<not> (unat (e_ident hdr (EI_MAG0 H)) = ELFMAG0 H \<and>
                unat (e_ident hdr (EI_MAG1 H)) = ELFMAG1 H \<and>
                unat (e_ident hdr (EI_MAG2 H)) = ELFMAG2 H \<and>
                unat (e_ident hdr (EI_MAG3 H)) = ELFMAG3 H) then BadMagic
         else if \<not> unat (e_ident hdr (EI_CLASS H)) = ELFCLASS32 H then Not32Bit
         else if \<not> unat (e_ident hdr (EI_DATA H)) = ELFDATA2LSB H then NotLittleEndian
         else if \<not> unat (e_ident hdr (EI_VERSION H)) = EV_CURRENT H then BadIdentVersion
         else if \<not> (unat (e_type hdr) = ET_EXEC H \<or> unat (e_type hdr) = ET_SCE_EXEC H)
           then BadType
         else if \<not> unat (e_machine hdr) = EM_ARM H then BadMachine
         else if \<not> unat (e_version hdr) = EV_CURRENT H then BadVersion
         else if \<not> (0 < unat (e_shoff hdr) \<and> 0 < unat (e_phoff hdr)) then MissingTables
         else MissingStrings)))"
  unfolding uvl_elf_check_header_def valid_header_def by (rule check_chain)

lemma check_header_valid: "uvl_elf_check_header H hdr = Inr () \<longleftrightarrow> valid_header H hdr"
  by (simp only: check_header_cases split: if_splits) simp

lemma check_header_invalid:
  "\<not> valid_header H hdr \<Longrightarrow> \<exists>reason. uvl_elf_check_header H hdr = Inl (InvalidHeader reason)"
  by (simp only: check_header_cases if_False) blast

lemma load_elf_invalid_header:
  "uvl_elf_check_header H (ehdr_at H (mem w) data) = Inl e \<Longrightarrow>
   uvl_load_elf H P data w = Some (Inl e, w)"
  by (simp add: uvl_load_elf_def load_elf_segments_def)

lemma load_file_allocates_once:
  assumes "uvl_load_file H P filename w0 = (Inr (buf, n), w1)"
  shows "filter is_alloc (trace w1) =
         filter is_alloc (trace w0) @ [AllocMemBlock ''UVLTemp'' 0xC20D060 (UVL_BIN_MAX_SIZE H)]"
  using assms
  by (auto simp: uvl_load_file_def sys_def sysm_def split: prod.splits if_splits)

text \<open>
  C5, amended: for any header that fails at least one of the nine validator checks,
  \<^verbatim>\<open>uvl_load_elf\<close> fails with \<open>InvalidHeader\<close> and leaves the world as it found it: it
  calls no service, so it allocates nothing. \<^verbatim>\<open>uvl_load_exe\<close> reaches the validator only
  after \<^verbatim>\<open>uvl_load_file\<close> has read the file: on an image that carries the ELF magic, or
  the SCE magic before a header \<^verbatim>\<open>SCEHDR_LEN\<close> bytes on, and whose header fails a check,
  it fails with \<open>InvalidHeader\<close> in the world the acquirer left, in which the one
  allocation is the acquirer's \<^verbatim>\<open>UVLTemp\<close> block.
\<close>

theorem invalid_header_fails_before_any_service:
  "(\<not> valid_header H (ehdr_at H (mem w) data) \<longrightarrow>
      (\<exists>reason. uvl_load_elf H P data w = Some (Inl (InvalidHeader reason), w))) \<and>
   (uvl_load_file H P filename w0 = (Inr (buf, n), w1) \<and>
    unat (mem w1 buf) = ELFMAG0 H \<and> unat (mem w1 (buf + 1)) = ELFMAG1 H \<and>
    unat (mem w1 (buf + 2)) = ELFMAG2 H \<and> unat (mem w1 (buf + 3)) = ELFMAG3 H \<and>
    \<not> valid_header H (ehdr_at H (mem w1) buf) \<longrightarrow>
      (\<exists>reason. uvl_load_exe H P filename w0 = Some (Inl (InvalidHeader reason), w1)) \<and>
      filter is_alloc (trace w1) =
        filter is_alloc (trace w0) @ [AllocMemBlock ''UVLTemp'' 0xC20D060 (UVL_BIN_MAX_SIZE H)]) \<and>
   (uvl_load_file H P filename w0 = (Inr (buf, n), w1) \<and>
    unat (mem w1 buf) \<noteq> ELFMAG0 H \<and>
    unat (mem w1 buf) = SCEMAG0 H \<and> unat (mem w1 (buf + 1)) = SCEMAG1 H \<and>
    unat (mem w1 (buf + 2)) = SCEMAG2 H \<and> unat (mem w1 (buf + 3)) = SCEMAG3 H \<and>
    \<not> valid_header H (ehdr_at H (mem w1) (buf + SCEHDR_LEN H)) \<longrightarrow>
      (\<exists>reason. uvl_load_exe H P filename w0 = Some (Inl (InvalidHeader reason), w1)) \<and>
      filter is_alloc (trace w1) =
        filter is_alloc (trace w0) @ [AllocMemBlock ''UVLTemp'' 0xC20D060 (UVL_BIN_MAX_SIZE H)])"
proof (intro conjI impI)
  assume "\<not> valid_header H (ehdr_at H (mem w) data)"
  then obtain reason where
    "uvl_elf_check_header H (ehdr_at H (mem w) data) = Inl (InvalidHeader reason)"
    using check_header_invalid by blast
  then show "\<exists>reason. uvl_load_elf H P data w = Some (Inl (InvalidHeader reason), w)"
    using load_elf_invalid_header by blast
next
  assume a: "uvl_load_file H P filename w0 = (Inr (buf, n), w1) \<and>
    unat (mem w1 buf) = ELFMAG0 H \<and> unat (mem w1 (buf + 1)) = ELFMAG1 H \<and>
    unat (mem w1 (buf + 2)) = ELFMAG2 H \<and> unat (mem w1 (buf + 3)) = ELFMAG3 H \<and>
    \<not> valid_header H (ehdr_at H (mem w1) buf)"
  then obtain reason where
    "uvl_elf_check_header H (ehdr_at H (mem w1) buf) = Inl (InvalidHeader reason)"
    using check_header_invalid by blast
  then have "uvl_load_elf H P buf w1 = Some (Inl (InvalidHeader reason), w1)"
    by (rule load_elf_invalid_header)
  then have "uvl_load_exe H P filename w0 = Some (Inl (InvalidHeader reason), w1)"
    using a by (simp add: uvl_load_exe_def)
  then show "\<exists>reason. uvl_load_exe H P filename w0 = Some (Inl (InvalidHeader reason), w1)"
    by blast
  show "filter is_alloc (trace w1) =
        filter is_alloc (trace w0) @ [AllocMemBlock ''UVLTemp'' 0xC20D060 (UVL_BIN_MAX_SIZE H)]"
    using a load_file_allocates_once by blast
next
  assume a: "uvl_load_file H P filename w0 = (Inr (buf, n), w1) \<and>
    unat (mem w1 buf) \<noteq> ELFMAG0 H \<and>
    unat (mem w1 buf) = SCEMAG0 H \<and> unat (mem w1 (buf + 1)) = SCEMAG1 H \<and>
    unat (mem w1 (buf + 2)) = SCEMAG2 H \<and> unat (mem w1 (buf + 3)) = SCEMAG3 H \<and>
    \<not> valid_header H (ehdr_at H (mem w1) (buf + SCEHDR_LEN H))"
  then obtain reason where
    "uvl_elf_check_header H (ehdr_at H (mem w1) (buf + SCEHDR_LEN H)) = Inl (InvalidHeader reason)"
    using check_header_invalid by blast
  then have "uvl_load_elf H P (buf + SCEHDR_LEN H) w1 = Some (Inl (InvalidHeader reason), w1)"
    by (rule load_elf_invalid_header)
  then have "uvl_load_exe H P filename w0 = Some (Inl (InvalidHeader reason), w1)"
    using a by (simp add: uvl_load_exe_def)
  then show "\<exists>reason. uvl_load_exe H P filename w0 = Some (Inl (InvalidHeader reason), w1)"
    by blast
  show "filter is_alloc (trace w1) =
        filter is_alloc (trace w0) @ [AllocMemBlock ''UVLTemp'' 0xC20D060 (UVL_BIN_MAX_SIZE H)]"
    using a load_file_allocates_once by blast
qed

lemma demo_acquires:
  "length bs \<le> 33554432 \<Longrightarrow>
   uvl_load_file std_h (demo_platform bs ms) ''app.elf'' demo_world =
     (Inr (0x81000000, int (length bs)), acquired bs)"
  by (simp add: demo_load_file acquired_def)

lemma wrong_class_header:
  "uvl_elf_check_header std_h (std_ehdr_at (mem (acquired wrong_class_image)) 0x81000000)
   = Inl (InvalidHeader Not32Bit)"
  by (simp add: uvl_elf_check_header_def std_ehdr_at_def std_h_ident std_h_magic
      wrong_class_image_def acquired_def)

lemma wrong_class_magic:
  "unat (mem (acquired wrong_class_image) 0x81000000) = 0x7F"
  "unat (mem (acquired wrong_class_image) (0x81000000 + 1)) = 0x45"
  "unat (mem (acquired wrong_class_image) (0x81000000 + 2)) = 0x4C"
  "unat (mem (acquired wrong_class_image) (0x81000000 + 3)) = 0x46"
  by (simp_all add: wrong_class_image_def acquired_def)

lemma wrong_class_run:
  "uvl_load_exe std_h (demo_platform wrong_class_image []) ''app.elf'' demo_world =
     Some (Inl (InvalidHeader Not32Bit), acquired wrong_class_image)"
proof -
  have "length wrong_class_image \<le> 33554432"
    by (simp add: wrong_class_image_def)
  note lf = demo_acquires [OF this, of "[]"]
  have elf: "uvl_load_elf std_h (demo_platform wrong_class_image []) 0x81000000
      (acquired wrong_class_image)
     = Some (Inl (InvalidHeader Not32Bit), acquired wrong_class_image)"
    by (rule load_elf_invalid_header) (simp add: std_h_layout wrong_class_header)
  show ?thesis
    unfolding uvl_load_exe_def lf
    by (simp only: prod.case sum.case Let_def add_0_right wrong_class_magic std_h_magic elf
        option.case if_True simp_thms)
qed

text \<open>
  C5, as the code has it. The claim reads: for any header that fails one of the nine
  checks, \<^verbatim>\<open>uvl_load_exe\<close> fails with \<open>InvalidHeader\<close> and performs no allocation. For a
  file whose header has class 2, it fails with \<open>InvalidHeader\<close>, and it has allocated:
  \<^verbatim>\<open>uvl_load_file\<close> allocates the block the file is read into (line 42) before any byte
  of the header can be looked at.
\<close>

theorem wrong_class_allocates_counterexample:
  "outcome (uvl_load_exe std_h (demo_platform wrong_class_image []) ''app.elf'' demo_world)
     = Some (Inl (InvalidHeader Not32Bit)) \<and>
   filter is_alloc
     (calls (uvl_load_exe std_h (demo_platform wrong_class_image []) ''app.elf'' demo_world))
     = [AllocMemBlock ''UVLTemp'' 0xC20D060 0x2000000]"
  by (simp add: wrong_class_run outcome_def calls_def acquired_def)

lemma sce_magic:
  "unat (mem (acquired sce_magic_image) 0x81000000) \<noteq> 0x7F"
  "unat (mem (acquired sce_magic_image) 0x81000000) = 0x53"
  "unat (mem (acquired sce_magic_image) (0x81000000 + 1)) = 0x43"
  "unat (mem (acquired sce_magic_image) (0x81000000 + 2)) = 0x45"
  "unat (mem (acquired sce_magic_image) (0x81000000 + 3)) = 0"
  by (simp_all add: sce_magic_image_def acquired_def)

lemma sce_header_invalid:
  "\<not> valid_header std_h (std_ehdr_at (mem (acquired sce_magic_image)) (0x81000000 + 0x1000))"
  by (simp add: valid_header_def std_ehdr_at_def std_h_ident std_h_magic
      sce_magic_image_def acquired_def)

theorem invalid_header_fails_before_any_service_witness:
  "\<not> valid_header std_h (ehdr_at std_h (mem (acquired wrong_class_image)) 0x81000000) \<and>
   uvl_load_elf std_h (demo_platform wrong_class_image []) 0x81000000
       (acquired wrong_class_image)
     = Some (Inl (InvalidHeader Not32Bit), acquired wrong_class_image) \<and>
   uvl_load_file std_h (demo_platform wrong_class_image []) ''app.elf'' demo_world
     = (Inr (0x81000000, 7), acquired wrong_class_image) \<and>
   uvl_load_exe std_h (demo_platform wrong_class_image []) ''app.elf'' demo_world
     = Some (Inl (InvalidHeader Not32Bit), acquired wrong_class_image) \<and>
   filter is_alloc (trace (acquired wrong_class_image))
     = [AllocMemBlock ''UVLTemp'' 0xC20D060 (UVL_BIN_MAX_SIZE std_h)] \<and>
   uvl_load_file std_h (demo_platform sce_magic_image []) ''app.elf'' demo_world
     = (Inr (0x81000000, 4), acquired sce_magic_image) \<and>
   \<not> valid_header std_h
        (ehdr_at std_h (mem (acquired sce_magic_image)) (0x81000000 + SCEHDR_LEN std_h)) \<and>
   (\<exists>reason. uvl_load_exe std_h (demo_platform sce_magic_image []) ''app.elf'' demo_world
     = Some (Inl (InvalidHeader reason), acquired sce_magic_image))"
proof -
  have nv: "\<not> valid_header std_h (ehdr_at std_h (mem (acquired wrong_class_image)) 0x81000000)"
    using wrong_class_header by (simp add: check_header_valid [symmetric] std_h_layout)
  have lf: "uvl_load_file std_h (demo_platform wrong_class_image []) ''app.elf'' demo_world
     = (Inr (0x81000000, 7), acquired wrong_class_image)"
    using demo_acquires [of wrong_class_image "[]"] by (simp add: wrong_class_image_def)
  have lf': "uvl_load_file std_h (demo_platform sce_magic_image []) ''app.elf'' demo_world
     = (Inr (0x81000000, 4), acquired sce_magic_image)"
    using demo_acquires [of sce_magic_image "[]"] by (simp add: sce_magic_image_def)
  have nv': "\<not> valid_header std_h
        (ehdr_at std_h (mem (acquired sce_magic_image)) (0x81000000 + SCEHDR_LEN std_h))"
    using sce_header_invalid by (simp add: std_h_layout std_h_misc)
  have e: "uvl_elf_check_header std_h (ehdr_at std_h (mem (acquired wrong_class_image)) 0x81000000)
    = Inl (InvalidHeader Not32Bit)"
    using wrong_class_header by (simp add: std_h_layout)
  note t1 = invalid_header_fails_before_any_service
    [of std_h "acquired wrong_class_image" "0x81000000" "demo_platform wrong_class_image []"
      "''app.elf''" demo_world "0x81000000" 7 "acquired wrong_class_image"]
  note t2 = invalid_header_fails_before_any_service
    [of std_h "acquired sce_magic_image" "0x81000000" "demo_platform sce_magic_image []"
      "''app.elf''" demo_world "0x81000000" 4 "acquired sce_magic_image"]
  have a: "uvl_load_elf std_h (demo_platform wrong_class_image []) 0x81000000
       (acquired wrong_class_image)
     = Some (Inl (InvalidHeader Not32Bit), acquired wrong_class_image)"
    using t1 nv e by (auto simp: uvl_load_elf_def load_elf_segments_def)
  have b: "uvl_load_exe std_h (demo_platform wrong_class_image []) ''app.elf'' demo_world
     = Some (Inl (InvalidHeader Not32Bit), acquired wrong_class_image)"
    by (rule wrong_class_run)
  have c: "filter is_alloc (trace (acquired wrong_class_image))
     = [AllocMemBlock ''UVLTemp'' 0xC20D060 (UVL_BIN_MAX_SIZE std_h)]"
    using t1 nv lf wrong_class_magic by (simp add: std_h_magic demo_world_def)
  have d: "\<exists>reason. uvl_load_exe std_h (demo_platform sce_magic_image []) ''app.elf'' demo_world
     = Some (Inl (InvalidHeader reason), acquired sce_magic_image)"
    using t2 nv' lf' sce_magic by (simp add: std_h_magic)
  from nv a lf b c lf' nv' d show ?thesis by blast
qed

section \<open>Reclaiming the address space\<close>

lemma unload_if_occupant_cases:
  "unload_if_occupant P uid info j k w =
     (if \<exists>t<k. vaddr (segments info (j + t)) = 0x81000000
      then (case sys (StopUnloadModule uid) (sceKernelStopUnloadModule P uid) w of
              (r, w1) \<Rightarrow> if r < 0 then (Inl UnloadError, w1) else (Inr (), w1))
      else (Inr (), w))"
proof (induction k arbitrary: j)
  case 0
  show ?case by simp
next
  case (Suc k)
  have ex: "(\<exists>t<Suc k. vaddr (segments info (j + t)) = 0x81000000) \<longleftrightarrow>
        vaddr (segments info j) = 0x81000000 \<or>
        (\<exists>t<k. vaddr (segments info (Suc j + t)) = 0x81000000)"
    by (auto simp: less_Suc_eq_0_disj)
  show ?case
    unfolding unload_if_occupant.simps Suc.IH ex by auto
qed


lemma free_memory_listed:
  "sceKernelGetModuleList P 0xFF (MAX_LOADED_MODS H) (kern w) = ((r, mod_list), k1) \<Longrightarrow>
   uvl_elf_free_memory H P prog_hdrs n w =
     (if r < 0 then (Inl QueryError, w\<lparr>kern := k1, trace := trace w @ [GetModuleList]\<rparr>)
      else unload_occupants P mod_list (w\<lparr>kern := k1, trace := trace w @ [GetModuleList]\<rparr>))"
  by (simp add: uvl_elf_free_memory_def sys_def Let_def)

lemma unload_if_occupant_mem:
  "mem (snd (unload_if_occupant P uid info j k w)) = mem w"
  by (simp add: unload_if_occupant_cases sys_def split: prod.splits)

lemma unload_if_occupant_trace:
  "set (trace w) \<subseteq> set (trace (snd (unload_if_occupant P uid info j k w)))"
  by (auto simp: unload_if_occupant_cases sys_def split: prod.splits)











lemma occupant_info_hit: "\<exists>j<3. vaddr (segments occupant_info j) = 0x81000000"
  by (rule exI [of _ 1]) (simp add: occupant_info_def)

lemma other_info_miss: "\<not> (\<exists>j<3. vaddr (segments other_info j) = 0x81000000)"
  by (simp add: other_info_def)

lemma elf_platform_blocks:
  "sceKernelAllocMemBlock (elf_platform r) name ty n x = (int (Suc x), Suc x)"
  "sceKernelAllocCodeMemBlock (elf_platform r) name n x = (int (Suc x), Suc x)"
  "sceKernelGetMemBlockBase (elf_platform r) uid x =
     ((0, 0x81000000 + 0x100000 * (word_of_int uid - 1)), x)"
  "psvUnlockMem (elf_platform r) x = x"
  "psvLockMem (elf_platform r) x = x"
  "uvl_resolve_imports (elf_platform r) imp (m, x) = (r, m, x)"
  by (simp_all add: elf_platform_def demo_platform_def)

lemma elf_platform_modules:
  "sceKernelGetModuleList (elf_platform r) fl n x = ((0, [12, 10, 11]), x)"
  "sceKernelGetModuleInfo (elf_platform r) 12 x = ((- 1, no_segments), x)"
  "sceKernelGetModuleInfo (elf_platform r) 10 x = ((0, occupant_info), x)"
  "sceKernelGetModuleInfo (elf_platform r) 11 x = ((0, other_info), x)"
  "sceKernelStopUnloadModule (elf_platform r) uid x = (0, x)"
  by (simp_all add: elf_platform_def demo_platform_def demo_mods_def)

lemma reclaim_run:
  "uvl_elf_free_memory std_h (elf_platform r) prog_hdrs k (image_world n b) =
     (Inr (), reclaimed_world n b)"
proof -
  have l: "sceKernelGetModuleList (elf_platform r) 0xFF (MAX_LOADED_MODS std_h)
      (kern (image_world n b)) = ((0, [12, 10, 11]), Suc 0)"
    by (simp add: elf_platform_modules image_world_def)
  show ?thesis
    unfolding free_memory_listed [OF l]
    by (simp add: image_world_def reclaimed_world_def unload_if_occupant_cases sys_def
        elf_platform_modules occupant_info_hit other_info_miss)
qed





section \<open>Finding the entry point, resolving the imports\<close>

lemma scan_nids_None:
  "(\<And>t. t < k \<Longrightarrow> unat (load32 m (nid_table ex + 4 * of_nat (j + t))) \<noteq> ENTRY_NID H) \<Longrightarrow>
   scan_nids H m ex j k = None"
proof (induction k arbitrary: j)
  case 0
  show ?case by simp
next
  case (Suc k)
  have here: "unat (load32 m (nid_table ex + 4 * of_nat j)) \<noteq> ENTRY_NID H"
    using Suc.prems [of 0] by simp
  have "unat (load32 m (nid_table ex + 4 * of_nat (Suc j + t))) \<noteq> ENTRY_NID H" if "t < k" for t
    using Suc.prems [of "Suc t"] that by simp
  then have "scan_nids H m ex (Suc j) k = None"
    by (rule Suc.IH)
  with here show ?case by simp
qed

lemma scan_nids_Some:
  "t0 < k \<Longrightarrow> unat (load32 m (nid_table ex + 4 * of_nat (j + t0))) = ENTRY_NID H \<Longrightarrow>
   (\<And>t. t < t0 \<Longrightarrow> unat (load32 m (nid_table ex + 4 * of_nat (j + t))) \<noteq> ENTRY_NID H) \<Longrightarrow>
   scan_nids H m ex j k = Some (load32 m (entry_table ex + 4 * of_nat (j + t0)))"
proof (induction k arbitrary: j t0)
  case 0
  then show ?case by simp
next
  case (Suc k)
  show ?case
  proof (cases t0)
    case 0
    then show ?thesis using Suc.prems(2) by simp
  next
    case (Suc t1)
    have here: "unat (load32 m (nid_table ex + 4 * of_nat j)) \<noteq> ENTRY_NID H"
      using Suc.prems(3) [of 0] Suc by simp
    have a: "t1 < k" using Suc.prems(1) Suc by simp
    have b: "unat (load32 m (nid_table ex + 4 * of_nat (Suc j + t1))) = ENTRY_NID H"
      using Suc.prems(2) Suc by simp
    have c: "unat (load32 m (nid_table ex + 4 * of_nat (Suc j + t))) \<noteq> ENTRY_NID H" if "t < t1" for t
      using Suc.prems(3) [of "Suc t"] that Suc by simp
    have "scan_nids H m ex (Suc j) k = Some (load32 m (entry_table ex + 4 * of_nat (Suc j + t1)))"
      using a b c by (rule Suc.IH)
    with here Suc show ?thesis by simp
  qed
qed

lemma find_entry_pass:
  assumes "in_export_run H export fin i" and "\<not> holds_entry H m (export_desc H m export i)"
  shows "find_entry H m export fin (of_nat i) = find_entry H m export fin (of_nat (Suc i))"
proof -
  let ?ex = "export_desc H m export i"
  have run: "export + of_nat i * sizeof_module_exports H < fin"
    using assms(1) by (simp add: in_export_run_def)
  show ?thesis
  proof (cases "unat (attribute ?ex) = ATTR_MOD_INFO H")
    case False
    then show ?thesis
      using run by (subst find_entry.simps) (simp add: export_desc_def Let_def add.commute)
  next
    case True
    with assms(2) have "\<And>t. t < unat (ex_num_functions ?ex) \<Longrightarrow>
        unat (load32 m (nid_table ?ex + 4 * of_nat (0 + t))) \<noteq> ENTRY_NID H"
      by (auto simp: holds_entry_def)
    then have "scan_nids H m ?ex 0 (unat (ex_num_functions ?ex)) = None"
      by (rule scan_nids_None)
    then show ?thesis
      using run True
      by (subst find_entry.simps) (simp add: export_desc_def Let_def add.commute)
  qed
qed

lemma find_entry_skip:
  assumes "\<And>j. i \<le> j \<Longrightarrow> j < i0 \<Longrightarrow>
      in_export_run H export fin j \<and> \<not> holds_entry H m (export_desc H m export j)"
    and "i \<le> i0"
  shows "find_entry H m export fin (of_nat i) = find_entry H m export fin (of_nat i0)"
  using assms
proof (induction "i0 - i" arbitrary: i)
  case 0
  then show ?case by simp
next
  case (Suc d)
  then have lt: "i < i0" by simp
  have "find_entry H m export fin (of_nat i) = find_entry H m export fin (of_nat (Suc i))"
    using Suc.prems(1) [of i] lt by (intro find_entry_pass) simp_all
  also have "\<dots> = find_entry H m export fin (of_nat i0)"
    using Suc.hyps(2) Suc.prems(1) lt by (intro Suc.hyps(1)) simp_all
  finally show ?case .
qed

lemma find_entry_hit:
  assumes run: "in_export_run H export fin i"
    and tag: "unat (attribute (export_desc H m export i)) = ATTR_MOD_INFO H"
    and k: "k < unat (ex_num_functions (export_desc H m export i))"
    and nid: "unat (load32 m (nid_table (export_desc H m export i) + 4 * of_nat k)) = ENTRY_NID H"
    and first: "\<And>t. t < k \<Longrightarrow>
        unat (load32 m (nid_table (export_desc H m export i) + 4 * of_nat t)) \<noteq> ENTRY_NID H"
  shows "find_entry H m export fin (of_nat i) =
         Some (Inr (load32 m (entry_table (export_desc H m export i) + 4 * of_nat k)))"
proof -
  let ?ex = "export_desc H m export i"
  have "scan_nids H m ?ex 0 (unat (ex_num_functions ?ex)) =
        Some (load32 m (entry_table ?ex + 4 * of_nat (0 + k)))"
    using k nid first by (intro scan_nids_Some) simp_all
  then show ?thesis
    using run tag
    by (subst find_entry.simps) (simp add: export_desc_def in_export_run_def Let_def)
qed

lemma find_entry_end:
  "\<not> in_export_run H export fin n \<Longrightarrow>
   find_entry H m export fin (of_nat n) = Some (Inl EntryNotFound)"
  by (subst find_entry.simps) (simp add: in_export_run_def)

lemma load_elf_after_segments:
  assumes "load_elf_segments H P data w = (Inr (prog_hdrs, mod_info), w2)"
  shows "uvl_load_elf H P data w =
     (case resolve_nids H P uvl_load_module_for_lib
             (p_vaddr (phdr_at H (mem w2) prog_hdrs) + stub_top (modinfo_at H (mem w2) mod_info))
             (p_vaddr (phdr_at H (mem w2) prog_hdrs) + stub_end (modinfo_at H (mem w2) mod_info))
             0 w2 of
        None \<Rightarrow> None
      | Some (Inl e, w3) \<Rightarrow> Some (Inl e, w3)
      | Some (Inr u, w3) \<Rightarrow>
          (case find_entry H (mem w3)
                  (p_vaddr (phdr_at H (mem w3) prog_hdrs) + ent_top (modinfo_at H (mem w3) mod_info))
                  (p_vaddr (phdr_at H (mem w3) prog_hdrs) + ent_end (modinfo_at H (mem w3) mod_info))
                  0 of
             None \<Rightarrow> None
           | Some (Inl e) \<Rightarrow> Some (Inl e, w3)
           | Some (Inr entry) \<Rightarrow> Some (Inr entry, w3)))"
  using assms
  by (simp add: uvl_load_elf_def Let_def split: option.splits sum.splits prod.splits)

text \<open>
  C9: the entry-point finder scans the export descriptors of the run in order. A
  descriptor whose attribute is not the module-info tag, or whose first
  \<^verbatim>\<open>num_functions\<close> NIDs do not hold the entry identifier, is passed over. At the first
  descriptor that has the tag and holds the identifier, at index \<open>k\<close> of its NID table
  (the first such index), the finder returns the address at index \<open>k\<close> of the parallel
  entry table. If every descriptor of the run is passed over, the result is
  \<open>EntryNotFound\<close>. After the segments and the import loop, the result of the finder is
  the result of \<^verbatim>\<open>uvl_load_elf\<close>.
\<close>

theorem entry_point_found_or_not:
  assumes run: "\<And>j. j < n \<Longrightarrow> in_export_run H export fin j"
  shows
   "(i0 < n \<and> (\<forall>j<i0. \<not> holds_entry H m (export_desc H m export j)) \<and>
     unat (attribute (export_desc H m export i0)) = ATTR_MOD_INFO H \<and>
     k < unat (ex_num_functions (export_desc H m export i0)) \<and>
     unat (load32 m (nid_table (export_desc H m export i0) + 4 * of_nat k)) = ENTRY_NID H \<and>
     (\<forall>t<k. unat (load32 m (nid_table (export_desc H m export i0) + 4 * of_nat t)) \<noteq> ENTRY_NID H)
     \<longrightarrow> find_entry H m export fin 0 =
           Some (Inr (load32 m (entry_table (export_desc H m export i0) + 4 * of_nat k)))) \<and>
    ((\<forall>j<n. \<not> holds_entry H m (export_desc H m export j)) \<and> \<not> in_export_run H export fin n
     \<longrightarrow> find_entry H m export fin 0 = Some (Inl EntryNotFound)) \<and>
    (load_elf_segments H P data w = (Inr (prog_hdrs, mod_info), w2) \<and>
     resolve_nids H P uvl_load_module_for_lib
       (p_vaddr (phdr_at H (mem w2) prog_hdrs) + stub_top (modinfo_at H (mem w2) mod_info))
       (p_vaddr (phdr_at H (mem w2) prog_hdrs) + stub_end (modinfo_at H (mem w2) mod_info))
       0 w2 = Some (Inr (), w3) \<and>
     m = mem w3 \<and>
     export = p_vaddr (phdr_at H (mem w3) prog_hdrs) + ent_top (modinfo_at H (mem w3) mod_info) \<and>
     fin = p_vaddr (phdr_at H (mem w3) prog_hdrs) + ent_end (modinfo_at H (mem w3) mod_info)
     \<longrightarrow> uvl_load_elf H P data w =
           (case find_entry H m export fin 0 of
              None \<Rightarrow> None
            | Some (Inl e) \<Rightarrow> Some (Inl e, w3)
            | Some (Inr entry) \<Rightarrow> Some (Inr entry, w3)))"
proof (intro conjI impI)
  assume a: "i0 < n \<and> (\<forall>j<i0. \<not> holds_entry H m (export_desc H m export j)) \<and>
     unat (attribute (export_desc H m export i0)) = ATTR_MOD_INFO H \<and>
     k < unat (ex_num_functions (export_desc H m export i0)) \<and>
     unat (load32 m (nid_table (export_desc H m export i0) + 4 * of_nat k)) = ENTRY_NID H \<and>
     (\<forall>t<k. unat (load32 m (nid_table (export_desc H m export i0) + 4 * of_nat t)) \<noteq> ENTRY_NID H)"
  have "find_entry H m export fin (of_nat 0) = find_entry H m export fin (of_nat i0)"
    using a run by (intro find_entry_skip) simp_all
  also have "\<dots> = Some (Inr (load32 m (entry_table (export_desc H m export i0) + 4 * of_nat k)))"
    using a run by (intro find_entry_hit) simp_all
  finally show "find_entry H m export fin 0 =
      Some (Inr (load32 m (entry_table (export_desc H m export i0) + 4 * of_nat k)))"
    by simp
next
  assume a: "(\<forall>j<n. \<not> holds_entry H m (export_desc H m export j)) \<and> \<not> in_export_run H export fin n"
  have "find_entry H m export fin (of_nat 0) = find_entry H m export fin (of_nat n)"
    using a run by (intro find_entry_skip) simp_all
  also have "\<dots> = Some (Inl EntryNotFound)"
    using a by (intro find_entry_end) simp
  finally show "find_entry H m export fin 0 = Some (Inl EntryNotFound)"
    by simp
next
  assume a: "load_elf_segments H P data w = (Inr (prog_hdrs, mod_info), w2) \<and>
     resolve_nids H P uvl_load_module_for_lib
       (p_vaddr (phdr_at H (mem w2) prog_hdrs) + stub_top (modinfo_at H (mem w2) mod_info))
       (p_vaddr (phdr_at H (mem w2) prog_hdrs) + stub_end (modinfo_at H (mem w2) mod_info))
       0 w2 = Some (Inr (), w3) \<and>
     m = mem w3 \<and>
     export = p_vaddr (phdr_at H (mem w3) prog_hdrs) + ent_top (modinfo_at H (mem w3) mod_info) \<and>
     fin = p_vaddr (phdr_at H (mem w3) prog_hdrs) + ent_end (modinfo_at H (mem w3) mod_info)"
  then have s: "load_elf_segments H P data w = (Inr (prog_hdrs, mod_info), w2)" by simp
  show "uvl_load_elf H P data w =
           (case find_entry H m export fin 0 of
              None \<Rightarrow> None
            | Some (Inl e) \<Rightarrow> Some (Inl e, w3)
            | Some (Inr entry) \<Rightarrow> Some (Inr entry, w3))"
    unfolding load_elf_after_segments [OF s] using a by simp
qed

text \<open>
  C6: for the import descriptor at index \<open>i\<close> of the run: if loading the module of its
  library fails, the descriptor is skipped (the resolver is not called on it) and the loop
  goes on with the next descriptor; if the module loads and the resolver fails on the
  descriptor, the loop ends with \<open>ResolutionError\<close>, which is then the result of
  \<^verbatim>\<open>uvl_load_elf\<close>; if both succeed the loop goes on.
\<close>

theorem import_resolution_step:
  assumes run: "import + i * sizeof_module_imports H < fin"
    and ld: "load_module (lib_name (import_at H (mem w) (import + i * sizeof_module_imports H))) w
             = (r, w1)"
    and rs: "uvl_resolve_imports P (import + i * sizeof_module_imports H) (mem w1, kern w1)
             = (r', m2, k2)"
  shows
   "resolve_nids H P load_module import fin i w =
      (if r < 0 then resolve_nids H P load_module import fin (i + 1) w1
       else if r' < 0
       then Some (Inl ResolutionError,
                  w1\<lparr>mem := m2, kern := k2,
                     trace := trace w1 @
                       [ResolveImports (import + i * sizeof_module_imports H)]\<rparr>)
       else resolve_nids H P load_module import fin (i + 1)
              (w1\<lparr>mem := m2, kern := k2,
                  trace := trace w1 @
                    [ResolveImports (import + i * sizeof_module_imports H)]\<rparr>)) \<and>
    (load_elf_segments H P data w0 = (Inr (prog_hdrs, mod_info), w2) \<and>
     resolve_nids H P uvl_load_module_for_lib
       (p_vaddr (phdr_at H (mem w2) prog_hdrs) + stub_top (modinfo_at H (mem w2) mod_info))
       (p_vaddr (phdr_at H (mem w2) prog_hdrs) + stub_end (modinfo_at H (mem w2) mod_info))
       0 w2 = Some (Inl ResolutionError, w3)
     \<longrightarrow> uvl_load_elf H P data w0 = Some (Inl ResolutionError, w3))"
proof (intro conjI impI)
  show "resolve_nids H P load_module import fin i w =
      (if r < 0 then resolve_nids H P load_module import fin (i + 1) w1
       else if r' < 0
       then Some (Inl ResolutionError,
                  w1\<lparr>mem := m2, kern := k2,
                     trace := trace w1 @
                       [ResolveImports (import + i * sizeof_module_imports H)]\<rparr>)
       else resolve_nids H P load_module import fin (i + 1)
              (w1\<lparr>mem := m2, kern := k2,
                  trace := trace w1 @
                    [ResolveImports (import + i * sizeof_module_imports H)]\<rparr>))"
    using run ld rs by (subst resolve_nids.simps) (simp add: sysm_def)
next
  assume a: "load_elf_segments H P data w0 = (Inr (prog_hdrs, mod_info), w2) \<and>
     resolve_nids H P uvl_load_module_for_lib
       (p_vaddr (phdr_at H (mem w2) prog_hdrs) + stub_top (modinfo_at H (mem w2) mod_info))
       (p_vaddr (phdr_at H (mem w2) prog_hdrs) + stub_end (modinfo_at H (mem w2) mod_info))
       0 w2 = Some (Inl ResolutionError, w3)"
  then have s: "load_elf_segments H P data w0 = (Inr (prog_hdrs, mod_info), w2)" by simp
  show "uvl_load_elf H P data w0 = Some (Inl ResolutionError, w3)"
    unfolding load_elf_after_segments [OF s] using a by simp
qed

section \<open>Loading a segment\<close>

lemma off_Suc: "(a::u32) + of_nat (Suc t) = (a + 1) + of_nat t"
  by (simp add: add.assoc)

lemma off_neq_base: "0 < k \<Longrightarrow> k < 2 ^ 32 \<Longrightarrow> (a::u32) + of_nat k \<noteq> a"
  using of_nat_neq_0 [where 'a = 32, of k] by simp

lemma memset_outside:
  "(\<And>t. t < n \<Longrightarrow> s + of_nat t \<noteq> a) \<Longrightarrow> memset m s c n a = m a"
proof (induction n arbitrary: m s)
  case 0
  then show ?case by simp
next
  case (Suc n)
  have "s + 1 + of_nat t \<noteq> a" if "t < n" for t
    using Suc.prems [of "Suc t"] that by (simp only: off_Suc Suc_less_eq not_False_eq_True)
  then have "memset (m(s := c)) (s + 1) c n a = (m(s := c)) a"
    by (rule Suc.IH)
  moreover have "s \<noteq> a" using Suc.prems [of 0] by simp
  ultimately show ?case by simp
qed

lemma memset_inside:
  "n \<le> 2 ^ 32 \<Longrightarrow> t < n \<Longrightarrow> memset m s c n (s + of_nat t) = c"
proof (induction n arbitrary: m s t)
  case 0
  then show ?case by simp
next
  case (Suc n)
  show ?case
  proof (cases t)
    case 0
    have "s + 1 + of_nat k \<noteq> s" if "k < n" for k
      using off_neq_base [of "Suc k" s] that Suc.prems(1) by (simp only: off_Suc) simp
    then have "memset (m(s := c)) (s + 1) c n s = (m(s := c)) s"
      by (rule memset_outside)
    then show ?thesis using 0 by simp
  next
    case t: (Suc t')
    have "memset (m(s := c)) (s + 1) c n (s + 1 + of_nat t') = c"
      using Suc.prems t by (intro Suc.IH) simp_all
    then show ?thesis unfolding t off_Suc memset.simps .
  qed
qed

lemma memcpy_outside:
  "(\<And>t. t < n \<Longrightarrow> d + of_nat t \<noteq> a) \<Longrightarrow> memcpy m d s n a = m a"
proof (induction n arbitrary: m d s)
  case 0
  then show ?case by simp
next
  case (Suc n)
  have "d + 1 + of_nat t \<noteq> a" if "t < n" for t
    using Suc.prems [of "Suc t"] that by (simp only: off_Suc Suc_less_eq not_False_eq_True)
  then have "memcpy (m(d := m s)) (d + 1) (s + 1) n a = (m(d := m s)) a"
    by (rule Suc.IH)
  moreover have "d \<noteq> a" using Suc.prems [of 0] by simp
  ultimately show ?case by simp
qed

lemma memcpy_inside:
  "n \<le> 2 ^ 32 \<Longrightarrow> (\<And>a b. a < n \<Longrightarrow> b < n \<Longrightarrow> d + of_nat a \<noteq> s + of_nat b) \<Longrightarrow>
   t < n \<Longrightarrow> memcpy m d s n (d + of_nat t) = m (s + of_nat t)"
proof (induction n arbitrary: m d s t)
  case 0
  then show ?case by simp
next
  case (Suc n)
  show ?case
  proof (cases t)
    case 0
    have "d + 1 + of_nat k \<noteq> d" if "k < n" for k
      using off_neq_base [of "Suc k" d] that Suc.prems(1) by (simp only: off_Suc) simp
    then have "memcpy (m(d := m s)) (d + 1) (s + 1) n d = (m(d := m s)) d"
      by (rule memcpy_outside)
    then show ?thesis using 0 by simp
  next
    case t: (Suc t')
    have dis: "d + 1 + of_nat a \<noteq> s + 1 + of_nat b" if "a < n" "b < n" for a b
      using Suc.prems(2) [of "Suc a" "Suc b"] that
      by (simp only: off_Suc Suc_less_eq not_False_eq_True)
    have "memcpy (m(d := m s)) (d + 1) (s + 1) n (d + 1 + of_nat t')
        = (m(d := m s)) (s + 1 + of_nat t')"
      using Suc.prems(1,3) t dis by (intro Suc.IH) simp_all
    moreover have "d \<noteq> s + 1 + of_nat t'"
      using Suc.prems(2) [of 0 "Suc t'"] Suc.prems(3) t
      by (simp only: off_Suc) simp
    ultimately have "memcpy (m(d := m s)) (d + 1) (s + 1) n (d + 1 + of_nat t')
        = m (s + 1 + of_nat t')"
      by (simp only: fun_upd_apply) (simp only: if_not_P not_sym)
    then show ?thesis unfolding t off_Suc memcpy.simps .
  qed
qed

lemma load_segment_loadable:
  assumes ph: "phdr_at H (mem w) (prog_hdrs + i * sizeof_Elf32_Phdr H) = ph"
    and loadable: "unat (p_type ph) = PT_LOAD H" "p_vaddr ph \<noteq> 0"
    and alloc: "(if p_flags ph AND 1 \<noteq> 0
                 then sceKernelAllocCodeMemBlock P ''UVLHomebrew'' (seg_length (p_memsz ph)) (kern w)
                 else sceKernelAllocMemBlock P ''UVLHomebrew'' 0xC20D060
                        (seg_length (p_memsz ph)) (kern w)) = (memblock, k1)"
    and granted: "0 \<le> memblock"
    and base: "sceKernelGetMemBlockBase P memblock k1 = ((r, blockaddr), k2)"
    and stable: "phdr_at H (memcpy (mem w) blockaddr (data + p_offset ph) (unat (p_filesz ph)))
                   (prog_hdrs + i * sizeof_Elf32_Phdr H) = ph"
  shows "load_segment H P data prog_hdrs i w =
     (Inr (),
      \<lparr>mem = memset (memcpy (mem w) blockaddr (data + p_offset ph) (unat (p_filesz ph)))
               (blockaddr + p_filesz ph) 0 (unat (p_memsz ph - p_filesz ph)),
       kern = psvLockMem P (psvUnlockMem P k2),
       trace = trace w @
         [if p_flags ph AND 1 \<noteq> 0 then AllocCodeMemBlock ''UVLHomebrew'' (seg_length (p_memsz ph))
          else AllocMemBlock ''UVLHomebrew'' 0xC20D060 (seg_length (p_memsz ph)),
          GetMemBlockBase memblock, UnlockMem, LockMem]\<rparr>)"
proof (cases "p_flags ph AND 1 \<noteq> 0")
  case True
  then show ?thesis
    using assms by (simp add: load_segment_def sys_def sys0_def Let_def)
next
  case False
  then show ?thesis
    using assms by (simp add: load_segment_def sys_def sys0_def Let_def)
qed


lemma off_unat: "(s::u32) + of_nat (unat (a - s)) = a"
  by simp

lemma off_eq_unat: "t < 2 ^ 32 \<Longrightarrow> (s::u32) + of_nat t = a \<Longrightarrow> unat (a - s) = t"
proof -
  assume t: "t < 2 ^ 32" and "s + of_nat t = a"
  then have "a - s = of_nat t" by (simp add: algebra_simps)
  then have "unat (a - s) = t mod 2 ^ 32" by (simp only: unat_of_nat) simp
  then show ?thesis using t by simp
qed

lemma memset_read:
  assumes "n \<le> 2 ^ 32"
  shows "memset m s c n a = (if unat (a - s) < n then c else m a)"
proof (cases "unat (a - s) < n")
  case True
  then have "memset m s c n (s + of_nat (unat (a - s))) = c"
    using assms by (intro memset_inside)
  then show ?thesis using True by (simp only: off_unat if_True)
next
  case False
  have "s + of_nat t \<noteq> a" if "t < n" for t
    using off_eq_unat [of t s a] that assms False by auto
  then have "memset m s c n a = m a" by (rule memset_outside)
  then show ?thesis using False by simp
qed

lemma apart_far:
  assumes "n \<le> unat (s - d)" and "n \<le> unat (d - s)" and "a < n" and "b < n"
  shows "(d::u32) + of_nat a \<noteq> s + of_nat b"
proof
  assume eq: "d + of_nat a = s + of_nat b"
  have lt: "unat (s - d) < 2 ^ 32" using unsigned_less [of "s - d"] by simp
  show False
  proof (cases "a \<le> b")
    case True
    from eq have "s + of_nat (b - a) = d" using True by (simp add: algebra_simps)
    moreover have "b - a < 2 ^ 32" using assms lt by simp
    ultimately have "unat (d - s) = b - a" by (intro off_eq_unat)
    then show False using assms by simp
  next
    case False
    from eq have "d + of_nat (a - b) = s" using False by (simp add: algebra_simps)
    moreover have "a - b < 2 ^ 32" using assms lt by simp
    ultimately have "unat (s - d) = a - b" by (intro off_eq_unat)
    then show False using assms by simp
  qed
qed

lemma memcpy_read:
  assumes "n \<le> unat (s - d)" and "n \<le> unat (d - s)"
  shows "memcpy m d s n a = (if unat (a - d) < n then m (s + (a - d)) else m a)"
proof -
  have lt: "unat (s - d) < 2 ^ 32" using unsigned_less [of "s - d"] by simp
  then have n: "n \<le> 2 ^ 32" using assms by simp
  show ?thesis
  proof (cases "unat (a - d) < n")
    case True
    have "memcpy m d s n (d + of_nat (unat (a - d))) = m (s + of_nat (unat (a - d)))"
      using n True apart_far [OF assms] by (intro memcpy_inside)
    then show ?thesis using True by (simp only: off_unat if_True) simp
  next
    case False
    have "d + of_nat t \<noteq> a" if "t < n" for t
      using off_eq_unat [of t d a] that n False by auto
    then have "memcpy m d s n a = m a" by (rule memcpy_outside)
    then show ?thesis using False by simp
  qed
qed









subsection \<open>An image of two segments\<close>










section \<open>A load of the example image\<close>

text \<open>
  The steps of \<^verbatim>\<open>uvl_load_elf\<close> on the example image with one program header: the bytes of
  memory once the segment is copied, the segment step and loop, the import loop and the
  export run.
\<close>

lemma copied_read:
  "memcpy (image_mem n b) 0x81100000 0x81000120 140 a =
     (if unat (a - 0x81100000) < 140 then image_mem n b (0x81000120 + (a - 0x81100000))
      else image_mem n b a)"
  by (rule memcpy_read) simp_all

lemma loaded_mem_read:
  "loaded_mem b a =
     (if unat (a - 0x8110008C) < 4 then 0
      else if unat (a - 0x81100000) < 140 then image_mem 1 b (0x81000120 + (a - 0x81100000))
      else image_mem 1 b a)"
  unfolding loaded_mem_def by (subst memset_read) (simp_all add: copied_read)

lemmas loaded_eval = loaded_mem_read image_eval

lemma image_phdr:
  "std_phdr_at (image_mem n b) 0x81000034 =
     \<lparr>p_type = 1, p_offset = 0x120, p_vaddr = 0x81100000, p_filesz = 0x8C, p_memsz = 0x90,
      p_flags = 5\<rparr>"
  by (simp add: std_phdr_at_def image_eval)

lemma copied_phdr:
  "std_phdr_at (memcpy (image_mem n b) 0x81100000 0x81000120 140) 0x81000034 =
     \<lparr>p_type = 1, p_offset = 0x120, p_vaddr = 0x81100000, p_filesz = 0x8C, p_memsz = 0x90,
      p_flags = 5\<rparr>"
  by (simp add: std_phdr_at_def copied_read image_eval)

lemma loaded_fields:
  "e_phnum (std_ehdr_at (loaded_mem b) 0x81000000) = 1"
  "p_vaddr (std_phdr_at (loaded_mem b) 0x81000034) = 0x81100000"
  "ent_top (std_modinfo_at (loaded_mem b) 0x810000E4) = 0"
  "ent_end (std_modinfo_at (loaded_mem b) 0x810000E4) = 0x40"
  "stub_top (std_modinfo_at (loaded_mem b) 0x810000E4) = 0x58"
  "stub_end (std_modinfo_at (loaded_mem b) 0x810000E4) = 0x8C"
  "lib_name (std_import_at (loaded_mem b) 0x81100058) = 0x8110008C"
  by (simp_all add: std_ehdr_sel std_phdr_sel std_modinfo_sel std_import_sel loaded_eval)

lemma loaded_exports:
  "attribute (std_export_at (loaded_mem b) 0x81100000) = 1"
  "attribute (std_export_at (loaded_mem b) 0x81100020) = 0x8000"
  "ex_num_functions (std_export_at (loaded_mem b) 0x81100020) = 3"
  "nid_table (std_export_at (loaded_mem b) 0x81100020) = 0x81100040"
  "entry_table (std_export_at (loaded_mem b) 0x81100020) = 0x8110004C"
  by (simp_all add: std_export_sel loaded_eval)

lemma loaded_tables:
  "load32 (loaded_mem b) 0x81100040 = 0x79F8E492"
  "load32 (loaded_mem b) 0x81100044 = 0x913482A9"
  "load32 (loaded_mem b) 0x81100048 = ucast b OR 0x935CD100"
  "load32 (loaded_mem b) 0x8110004C = 0x81100041"
  "load32 (loaded_mem b) 0x81100050 = 0x81100051"
  "load32 (loaded_mem b) 0x81100054 = 0x81100061"
  by (simp_all add: loaded_eval)
lemma segment_facts:
  "phdr_at std_h (mem (reclaimed_world n b)) (0x81000034 + 0 * sizeof_Elf32_Phdr std_h) = image_ph"
  "unat (p_type image_ph) = PT_LOAD std_h"
  "p_vaddr image_ph \<noteq> 0"
  "(if p_flags image_ph AND 1 \<noteq> 0
    then sceKernelAllocCodeMemBlock (elf_platform r) ''UVLHomebrew'' (seg_length (p_memsz image_ph))
           (kern (reclaimed_world n b))
    else sceKernelAllocMemBlock (elf_platform r) ''UVLHomebrew'' 0xC20D060
           (seg_length (p_memsz image_ph)) (kern (reclaimed_world n b))) = (2, 2)"
  "sceKernelGetMemBlockBase (elf_platform r) 2 2 = ((0, 0x81100000), 2)"
  "phdr_at std_h (memcpy (mem (reclaimed_world n b)) 0x81100000 (0x81000000 + p_offset image_ph)
      (unat (p_filesz image_ph))) (0x81000034 + 0 * sizeof_Elf32_Phdr std_h) = image_ph"
  "p_filesz image_ph \<le> p_memsz image_ph"
  by (simp_all add: std_h_layout std_h_misc reclaimed_world_def image_ph_def image_phdr
      copied_phdr elf_platform_blocks)

lemma segment_step:
  "load_segment std_h (elf_platform r) 0x81000000 0x81000034 0 (reclaimed_world 1 b) =
     (Inr (), loaded_world b)"
proof -
  have g: "0 \<le> (2::int)" by simp
  show ?thesis
    unfolding load_segment_loadable [of std_h "reclaimed_world 1 b" "0x81000034" 0 image_ph
        "elf_platform r" 2 2 0 "0x81100000" 2 "0x81000000",
        OF segment_facts(1-4) g segment_facts(5,6)]
    by (simp add: image_ph_def loaded_world_def loaded_mem_def reclaimed_world_def seg_length_def
        elf_platform_blocks)
qed

lemma segments_end:
  "load_segments std_h (elf_platform r) 0x81000000 0x81000000 0x81000034 (0 + 1) (loaded_world b) =
     (Inr (), loaded_world b)"
proof -
  have c1: "\<not> (0 + 1 :: u32) < ucast (e_phnum (ehdr_at std_h (mem (loaded_world b)) 0x81000000))"
    by (simp add: std_h_layout loaded_world_def loaded_fields)
  show ?thesis
    by (subst load_segments.simps) (simp only: c1 if_False)
qed

lemma segments_run:
  "load_segments std_h (elf_platform r) 0x81000000 0x81000000 0x81000034 0 (reclaimed_world 1 b) =
     (Inr (), loaded_world b)"
proof -
  have c0: "(0::u32) < ucast (e_phnum (ehdr_at std_h (mem (reclaimed_world 1 b)) 0x81000000))"
    by (simp add: std_h_layout reclaimed_world_def image_header)
  show ?thesis
    by (subst load_segments.simps)
       (simp only: c0 if_True segment_step prod.case sum.case segments_end)
qed

lemma image_segments:
  "load_elf_segments std_h (elf_platform r) 0x81000000 (image_world 1 b) =
     (Inr (0x81000034, 0x810000E4), loaded_world b)"
proof -
  have m: "mem (image_world 1 b) = image_mem 1 b" "mem (reclaimed_world 1 b) = image_mem 1 b"
    by (simp_all add: image_world_def reclaimed_world_def)
  show ?thesis
    unfolding load_elf_segments_def Let_def
    by (simp add: m std_h_layout image_valid image_module_info image_header reclaim_run
        segments_run)
qed

lemma resolve_nids_end:
  "\<not> import + i * sizeof_module_imports H < fin \<Longrightarrow>
   resolve_nids H P load_module import fin i w = Some (Inr (), w)"
  by (subst resolve_nids.simps) simp

lemma import_run:
  "(0x81100058 :: u32) + 0 * sizeof_module_imports std_h < 0x8110008C"
  "\<not> (0x81100058 :: u32) + (0 + 1) * sizeof_module_imports std_h < 0x8110008C"
  by (simp_all add: std_h_layout)

lemma loaded_pointers:
  "p_vaddr (phdr_at std_h (mem (loaded_world b)) 0x81000034) +
     stub_top (modinfo_at std_h (mem (loaded_world b)) 0x810000E4) = 0x81100058"
  "p_vaddr (phdr_at std_h (mem (loaded_world b)) 0x81000034) +
     stub_end (modinfo_at std_h (mem (loaded_world b)) 0x810000E4) = 0x8110008C"
  "p_vaddr (phdr_at std_h (mem (resolved_world b)) 0x81000034) +
     ent_top (modinfo_at std_h (mem (resolved_world b)) 0x810000E4) = 0x81100000"
  "p_vaddr (phdr_at std_h (mem (resolved_world b)) 0x81000034) +
     ent_end (modinfo_at std_h (mem (resolved_world b)) 0x810000E4) = 0x81100040"
  by (simp_all add: std_h_layout loaded_world_def resolved_world_def loaded_fields)

lemma resolve_run:
  "resolve_nids std_h (elf_platform r) uvl_load_module_for_lib 0x81100058 0x8110008C 0
     (loaded_world b) =
     Some (if r < 0 then Inl ResolutionError else Inr (), resolved_world b)"
proof -
  have e: "resolve_nids std_h (elf_platform r) uvl_load_module_for_lib 0x81100058 0x8110008C
      1 (resolved_world b) = Some (Inr (), resolved_world b)"
    by (rule resolve_nids_end) (simp add: std_h_layout)
  have s: "sysm (ResolveImports 0x81100058) (uvl_resolve_imports (elf_platform r) 0x81100058)
      (loaded_world b) = (r, resolved_world b)"
    by (simp add: sysm_def elf_platform_blocks loaded_world_def resolved_world_def)
  show ?thesis
    by (subst resolve_nids.simps)
       (simp add: std_h_layout uvl_load_module_for_lib_def s e)
qed

lemma export_runs:
  "in_export_run std_h 0x81100000 0x81100040 0"
  "in_export_run std_h 0x81100000 0x81100040 (Suc 0)"
  "\<not> in_export_run std_h 0x81100000 0x81100040 2"
  by (simp_all add: in_export_run_def std_h_layout)

lemma export_descs:
  "export_desc std_h (loaded_mem b) 0x81100000 0 = std_export_at (loaded_mem b) 0x81100000"
  "export_desc std_h (loaded_mem b) 0x81100000 (Suc 0) = std_export_at (loaded_mem b) 0x81100020"
  by (simp_all add: export_desc_def std_h_layout)

lemma first_export_passed:
  "\<not> holds_entry std_h (loaded_mem b) (export_desc std_h (loaded_mem b) 0x81100000 0)"
  by (simp add: holds_entry_def export_descs loaded_exports std_h_misc)

lemma second_export_nids:
  "unat (load32 (loaded_mem b) (nid_table (export_desc std_h (loaded_mem b) 0x81100000 (Suc 0))
      + 4 * of_nat 0)) \<noteq> ENTRY_NID std_h"
  "unat (load32 (loaded_mem b) (nid_table (export_desc std_h (loaded_mem b) 0x81100000 (Suc 0))
      + 4 * of_nat (Suc 0))) \<noteq> ENTRY_NID std_h"
  "unat (load32 (loaded_mem 0x96) (nid_table (export_desc std_h (loaded_mem 0x96) 0x81100000 (Suc 0))
      + 4 * of_nat 2)) = ENTRY_NID std_h"
  "unat (load32 (loaded_mem 0) (nid_table (export_desc std_h (loaded_mem 0) 0x81100000 (Suc 0))
      + 4 * of_nat 2)) \<noteq> ENTRY_NID std_h"
  by (simp_all add: export_descs loaded_exports loaded_tables std_h_misc)
lemma second_export_missing:
  "\<not> holds_entry std_h (loaded_mem 0) (export_desc std_h (loaded_mem 0) 0x81100000 (Suc 0))"
proof -
  have "unat (load32 (loaded_mem 0) (0x81100040 + 4 * of_nat k)) \<noteq> 0x935CD196" if "k < 3" for k
  proof -
    from that have "k = 0 \<or> k = 1 \<or> k = 2" by auto
    then show ?thesis using loaded_tables(1-3) [of 0] by auto
  qed
  then show ?thesis
    by (auto simp: holds_entry_def export_descs loaded_exports std_h_misc)
qed

lemma resolved_mem: "mem (resolved_world b) = loaded_mem b"
  by (simp add: resolved_world_def)

theorem entry_point_found_or_not_witness:
  "find_entry std_h (loaded_mem 0x96) 0x81100000 0x81100040 0 = Some (Inr 0x81100061) \<and>
   find_entry std_h (loaded_mem 0) 0x81100000 0x81100040 0 = Some (Inl EntryNotFound) \<and>
   uvl_load_elf std_h (elf_platform 0) 0x81000000 (image_world 1 0x96) =
     Some (Inr 0x81100061, resolved_world 0x96) \<and>
   uvl_load_elf std_h (elf_platform 0) 0x81000000 (image_world 1 0) =
     Some (Inl EntryNotFound, resolved_world 0)"
proof -
  have run: "in_export_run std_h 0x81100000 0x81100040 j" if "j < 2" for j
  proof -
    from that have "j = 0 \<or> j = Suc 0" by auto
    then show ?thesis using export_runs(1,2) by auto
  qed
  have first: "\<forall>j<Suc 0. \<not> holds_entry std_h (loaded_mem 0x96)
      (export_desc std_h (loaded_mem 0x96) 0x81100000 j)"
    using first_export_passed by simp
  have early: "\<forall>t<2. unat (load32 (loaded_mem 0x96)
      (nid_table (export_desc std_h (loaded_mem 0x96) 0x81100000 (Suc 0)) + 4 * of_nat t))
        \<noteq> ENTRY_NID std_h"
  proof (intro allI impI)
    fix t :: nat assume "t < 2"
    then have "t = 0 \<or> t = Suc 0" by auto
    then show "unat (load32 (loaded_mem 0x96)
      (nid_table (export_desc std_h (loaded_mem 0x96) 0x81100000 (Suc 0)) + 4 * of_nat t))
        \<noteq> ENTRY_NID std_h"
      using second_export_nids(1,2) [of "0x96"] by auto
  qed
  have tag: "unat (attribute (export_desc std_h (loaded_mem 0x96) 0x81100000 (Suc 0)))
      = ATTR_MOD_INFO std_h"
    and cnt: "2 < unat (ex_num_functions (export_desc std_h (loaded_mem 0x96) 0x81100000 (Suc 0)))"
    by (simp_all add: export_descs loaded_exports std_h_misc)
  have none: "\<forall>j<2. \<not> holds_entry std_h (loaded_mem 0)
      (export_desc std_h (loaded_mem 0) 0x81100000 j)"
  proof (intro allI impI)
    fix j :: nat assume "j < 2"
    then have "j = 0 \<or> j = Suc 0" by auto
    then show "\<not> holds_entry std_h (loaded_mem 0) (export_desc std_h (loaded_mem 0) 0x81100000 j)"
      using first_export_passed [of 0] second_export_missing by auto
  qed
  have entry: "load32 (loaded_mem 0x96)
      (entry_table (export_desc std_h (loaded_mem 0x96) 0x81100000 (Suc 0)) + 4 * of_nat 2)
        = 0x81100061"
    by (simp add: export_descs loaded_exports loaded_tables)
  have pre: "load_elf_segments std_h (elf_platform 0) 0x81000000 (image_world 1 b) =
       (Inr (0x81000034, 0x810000E4), loaded_world b) \<and>
     resolve_nids std_h (elf_platform 0) uvl_load_module_for_lib
       (p_vaddr (phdr_at std_h (mem (loaded_world b)) 0x81000034) +
        stub_top (modinfo_at std_h (mem (loaded_world b)) 0x810000E4))
       (p_vaddr (phdr_at std_h (mem (loaded_world b)) 0x81000034) +
        stub_end (modinfo_at std_h (mem (loaded_world b)) 0x810000E4))
       0 (loaded_world b) = Some (Inr (), resolved_world b) \<and>
     loaded_mem b = mem (resolved_world b) \<and>
     0x81100000 = p_vaddr (phdr_at std_h (mem (resolved_world b)) 0x81000034) +
        ent_top (modinfo_at std_h (mem (resolved_world b)) 0x810000E4) \<and>
     0x81100040 = p_vaddr (phdr_at std_h (mem (resolved_world b)) 0x81000034) +
        ent_end (modinfo_at std_h (mem (resolved_world b)) 0x810000E4)" for b
    unfolding loaded_pointers
    using image_segments [of 0 b] resolve_run [of 0 b] by (simp add: resolved_mem)
  note found = entry_point_found_or_not [of 2 std_h "0x81100000" "0x81100040" "Suc 0"
      "loaded_mem 0x96" 2 "elf_platform 0" "0x81000000" "image_world 1 0x96" "0x81000034"
      "0x810000E4" "loaded_world 0x96" "resolved_world 0x96", OF run]
  note missing = entry_point_found_or_not [of 2 std_h "0x81100000" "0x81100040" 0
      "loaded_mem 0" 0 "elf_platform 0" "0x81000000" "image_world 1 0" "0x81000034"
      "0x810000E4" "loaded_world 0" "resolved_world 0", OF run]
  have a: "find_entry std_h (loaded_mem 0x96) 0x81100000 0x81100040 0 = Some (Inr 0x81100061)"
    using found first early tag cnt second_export_nids(3) entry by simp
  have b: "find_entry std_h (loaded_mem 0) 0x81100000 0x81100040 0 = Some (Inl EntryNotFound)"
    using missing none export_runs(3) by blast
  have c: "uvl_load_elf std_h (elf_platform 0) 0x81000000 (image_world 1 0x96) =
     Some (Inr 0x81100061, resolved_world 0x96)"
    using found pre [of "0x96"] a by simp
  have d: "uvl_load_elf std_h (elf_platform 0) 0x81000000 (image_world 1 0) =
     Some (Inl EntryNotFound, resolved_world 0)"
    using missing pre [of 0] b by simp
  from a b c d show ?thesis by (simp only: simp_thms)
qed
lemma loaded_bytes:
  "image_mem 1 0x96 0x81000168 = 0x96" "image_mem 1 0x96 0x8110008E = 0xFF"
  "loaded_mem 0x96 0x81100048 = 0x96" "loaded_mem 0x96 0x8110008E = 0"
  by (simp_all add: loaded_eval)

theorem import_resolution_step_witness:
  "resolve_nids std_h (elf_platform 0) (\<lambda>lib w. (- 1, w)) 0x81100058 0x8110008C 0
     (loaded_world 0x96) = Some (Inr (), loaded_world 0x96) \<and>
   resolve_nids std_h (elf_platform (- 1)) uvl_load_module_for_lib 0x81100058 0x8110008C 0
     (loaded_world 0x96) = Some (Inl ResolutionError, resolved_world 0x96) \<and>
   resolve_nids std_h (elf_platform 0) uvl_load_module_for_lib 0x81100058 0x8110008C 0
     (loaded_world 0x96) = Some (Inr (), resolved_world 0x96) \<and>
   uvl_load_elf std_h (elf_platform (- 1)) 0x81000000 (image_world 1 0x96) =
     Some (Inl ResolutionError, resolved_world 0x96)"
proof -
  let ?w = "loaded_world 0x96"
  let ?d = "0x81100058 + 0 * sizeof_module_imports std_h :: u32"
  have fails: "(\<lambda>lib w. (- 1 :: int, w)) (lib_name (import_at std_h (mem ?w) ?d)) ?w = (- 1, ?w)"
    by simp
  have stub: "uvl_load_module_for_lib (lib_name (import_at std_h (mem ?w) ?d)) ?w = (0, ?w)"
    by (simp add: uvl_load_module_for_lib_def)
  have rs: "uvl_resolve_imports (elf_platform r) ?d (mem ?w, kern ?w) = (r, loaded_mem 0x96, 2)"
    for r
    by (simp add: elf_platform_blocks loaded_world_def)
  have upd: "?w\<lparr>mem := loaded_mem 0x96, kern := 2, trace := trace ?w @ [ResolveImports ?d]\<rparr>
      = resolved_world 0x96"
    by (simp add: loaded_world_def resolved_world_def std_h_layout)
  have fin: "resolve_nids std_h (elf_platform r) lm 0x81100058 0x8110008C (0 + 1) w
      = Some (Inr (), w)" for r lm and w :: "nat world"
    using import_run(2) by (rule resolve_nids_end)
  have a: "resolve_nids std_h (elf_platform 0) (\<lambda>lib w. (- 1, w)) 0x81100058 0x8110008C 0 ?w
      = Some (Inr (), ?w)"
    using import_resolution_step [of "0x81100058" 0 std_h "0x8110008C"
        "\<lambda>lib w. (- 1 :: int, w)" ?w "- 1" ?w "elf_platform 0" 0 "loaded_mem 0x96" 2,
        OF import_run(1) fails rs [of 0]] fin
    by (simp only: upd) simp
  have b: "resolve_nids std_h (elf_platform (- 1)) uvl_load_module_for_lib 0x81100058 0x8110008C 0 ?w
      = Some (Inl ResolutionError, resolved_world 0x96)"
    using import_resolution_step [of "0x81100058" 0 std_h "0x8110008C"
        uvl_load_module_for_lib ?w 0 ?w "elf_platform (- 1)" "- 1" "loaded_mem 0x96" 2,
        OF import_run(1) stub rs [of "- 1"]]
    by (simp only: upd) simp
  have c: "resolve_nids std_h (elf_platform 0) uvl_load_module_for_lib 0x81100058 0x8110008C 0 ?w
      = Some (Inr (), resolved_world 0x96)"
    using import_resolution_step [of "0x81100058" 0 std_h "0x8110008C"
        uvl_load_module_for_lib ?w 0 ?w "elf_platform 0" 0 "loaded_mem 0x96" 2,
        OF import_run(1) stub rs [of 0]] fin
    by (simp only: upd) simp
  have pre: "load_elf_segments std_h (elf_platform (- 1)) 0x81000000 (image_world 1 0x96) =
       (Inr (0x81000034, 0x810000E4), ?w) \<and>
     resolve_nids std_h (elf_platform (- 1)) uvl_load_module_for_lib
       (p_vaddr (phdr_at std_h (mem ?w) 0x81000034) +
        stub_top (modinfo_at std_h (mem ?w) 0x810000E4))
       (p_vaddr (phdr_at std_h (mem ?w) 0x81000034) +
        stub_end (modinfo_at std_h (mem ?w) 0x810000E4))
       0 ?w = Some (Inl ResolutionError, resolved_world 0x96)"
    unfolding loaded_pointers using image_segments [of "- 1" "0x96"] b by simp
  have d: "uvl_load_elf std_h (elf_platform (- 1)) 0x81000000 (image_world 1 0x96) =
     Some (Inl ResolutionError, resolved_world 0x96)"
    using import_resolution_step [of "0x81100058" 0 std_h "0x8110008C"
        uvl_load_module_for_lib ?w 0 ?w "elf_platform (- 1)" "- 1" "loaded_mem 0x96" 2
        "0x81000000" "image_world 1 0x96" "0x81000034" "0x810000E4" ?w "resolved_world 0x96",
        OF import_run(1) stub rs [of "- 1"]] pre
    by blast
  from a b c d show ?thesis by (simp only: simp_thms)
qed


theorem seg_length_rounds_up_witness:
  "unat (4096 :: u32) \<le> 4293918720 \<and> seg_length 4096 = 1048576 \<and>
   2 ^ 20 dvd unat (seg_length 4096) \<and> unat (4096 :: u32) \<le> unat (seg_length 4096) \<and>
   4293918720 < unat (0xFFF00001 :: u32) \<and> seg_length 0xFFF00001 = 0 \<and>
   take 6 (trace (snd (load_segment std_h (elf_platform 0) 0x81000000 0x81000034 0
                        (reclaimed_world 1 0x96)))) =
     [GetModuleList, GetModuleInfo 12, GetModuleInfo 10, StopUnloadModule 10, GetModuleInfo 11,
      AllocCodeMemBlock ''UVLHomebrew'' 0x100000]"
proof -
  have a: "unat (4096 :: u32) \<le> 4293918720 \<and> seg_length 4096 = 1048576 \<and>
     2 ^ 20 dvd unat (seg_length 4096) \<and> unat (4096 :: u32) \<le> unat (seg_length 4096) \<and>
     4293918720 < unat (0xFFF00001 :: u32) \<and> seg_length 0xFFF00001 = 0"
    using seg_length_rounds_up [of 4096] seg_length_rounds_up [of "0xFFF00001"]
    by (simp add: seg_length_def)
  let ?w = "reclaimed_world 1 0x96"
  have pre: "phdr_at std_h (mem ?w) (0x81000034 + 0 * sizeof_Elf32_Phdr std_h) = image_ph \<and>
      unat (p_type image_ph) = PT_LOAD std_h \<and> p_vaddr image_ph \<noteq> 0"
    using segment_facts(1) [of 1 "0x96"] segment_facts(2,3) by (simp only: simp_thms)
  have len: "Suc (length [GetModuleList, GetModuleInfo 12, GetModuleInfo 10,
      StopUnloadModule 10, GetModuleInfo 11]) = 6"
    by simp
  have tr: "trace ?w = [GetModuleList, GetModuleInfo 12, GetModuleInfo 10, StopUnloadModule 10,
      GetModuleInfo 11]"
    by (simp add: reclaimed_world_def)
  have ev: "(if p_flags image_ph AND 1 \<noteq> 0
       then AllocCodeMemBlock ''UVLHomebrew'' (seg_length (p_memsz image_ph))
       else AllocMemBlock ''UVLHomebrew'' 0xC20D060 (seg_length (p_memsz image_ph)))
      = AllocCodeMemBlock ''UVLHomebrew'' 0x100000"
    by (simp add: image_ph_def seg_length_def)
  have "take (Suc (length (trace ?w)))
      (trace (snd (load_segment std_h (elf_platform 0) 0x81000000 0x81000034 0 ?w))) =
      trace ?w @
        [if p_flags image_ph AND 1 \<noteq> 0
         then AllocCodeMemBlock ''UVLHomebrew'' (seg_length (p_memsz image_ph))
         else AllocMemBlock ''UVLHomebrew'' 0xC20D060 (seg_length (p_memsz image_ph))]"
    using seg_length_rounds_up [of 0 std_h ?w "0x81000034" 0 image_ph "elf_platform 0"
        "0x81000000"] pre
    by blast
  then have b: "take 6 (trace (snd (load_segment std_h (elf_platform 0) 0x81000000 0x81000034 0
                        (reclaimed_world 1 0x96)))) =
     [GetModuleList, GetModuleInfo 12, GetModuleInfo 10, StopUnloadModule 10, GetModuleInfo 11,
      AllocCodeMemBlock ''UVLHomebrew'' 0x100000]"
    by (simp only: tr len ev append.simps)
  from a b show ?thesis by blast
qed

end
